theory Spec2Isabelle
  imports Main
begin

section \<open>Values shared by the clients\<close>

text \<open>
  An \<open>Address\<close> object of the SDK is observed through its two renderings, \<open>bech32()\<close> and
  \<open>hex()\<close>. A JavaScript \<open>number\<close> handed to an unsigned SDK value (\<open>U64Value\<close>,
  \<open>BigUIntValue\<close>) or used as a gas limit is a natural number here: the SDK's constructors
  reject negative numbers and \<open>NaN\<close>, and fractions are outside the embedding.
\<close>

record Address =
  bech32 :: string
  hex :: string

text \<open>
  An error object is observed through its \<open>name\<close> and its \<open>message\<close>; \<open>toString()\<close> is
  \<open>Error.prototype.toString\<close>.
\<close>

record JsError =
  errName :: string
  errMessage :: string

definition errToString :: "JsError \<Rightarrow> string" where
  "errToString e =
     (if errName e = [] then errMessage e
      else if errMessage e = [] then errName e
      else errName e @ '': '' @ errMessage e)"

definition newError :: "string \<Rightarrow> JsError" where
  "newError msg = \<lparr>errName = ''Error'', errMessage = msg\<rparr>"

text \<open>
  What the repository's code throws: its own error classes with the arguments their
  constructors receive, and any other error object (\<open>Thrown\<close>: \<open>new Error(...)\<close>, a
  \<open>TypeError\<close> of the runtime, a failure of a collaborator).
\<close>

datatype error =
    Thrown JsError
  | ErrNetworkConfig "string option"
  | ErrAttributeNotSet string
  | ErrContractQuery string string
  | ErrDecodeAttributes string
  | ErrParamValidation string
  | ErrArgumentNotSet string string
  | ErrBadType string string "string option" string
  | ErrInvalidArgument

text \<open>
  Reading a property of \<open>undefined\<close> throws a \<open>TypeError\<close>; the message is the text of the V8
  engine.
\<close>

definition typeError :: "string \<Rightarrow> JsError" where
  "typeError property =
     \<lparr>errName = ''TypeError'',
      errMessage = ''Cannot read properties of undefined (reading '' @ [CHR 0x27] @ property
                     @ [CHR 0x27] @ '')''\<rparr>"

text \<open>The decimal text of a number (\<open>toString()\<close>, \<open>toFixed(0)\<close>, a template literal).\<close>

fun show_nat :: "nat \<Rightarrow> string" where
  "show_nat n =
     (if n < 10 then [''0123456789'' ! n]
      else show_nat (n div 10) @ [''0123456789'' ! (n mod 10)])"

declare show_nat.simps [simp del]

text \<open>
  A JavaScript \<open>number\<close> is a double. Every integer up to \<open>2^53\<close> is one; a longer integer
  is rounded to its 53 leading bits, to the nearest, and to the even one of two that are
  equally near (\<open>nearestDouble\<close>). The sum of two numbers is the double nearest to their
  exact sum. \<open>BigNumber.toNumber()\<close> gives the double nearest to the value, and \<open>Infinity\<close>
  from \<open>2^1024 - 2^970\<close> on, beyond the largest double.
\<close>

fun bitLength :: "nat \<Rightarrow> nat" where
  "bitLength n = (if n = 0 then 0 else Suc (bitLength (n div 2)))"

declare bitLength.simps [simp del]

definition nearestDouble :: "nat \<Rightarrow> nat" where
  "nearestDouble n =
     (if bitLength n \<le> 53 then n
      else
        (let ulp = 2 ^ (bitLength n - 53);
             q = n div ulp;
             r = n mod ulp
         in if 2 * r > ulp \<or> (2 * r = ulp \<and> odd q) then (q + 1) * ulp else q * ulp))"

datatype JsNumber = Finite nat | Infinity

definition toNumber :: "nat \<Rightarrow> JsNumber" where
  "toNumber n =
     (if nearestDouble n < 2 ^ 1024 then Finite (nearestDouble n) else Infinity)"

section \<open>Transactions and contract-call payloads\<close>

datatype TypedValue =
    TokenIdentifierValue string
  | U64Value nat
  | BigUIntValue nat
  | StringValue string
  | AddressValue Address
  | BooleanValue bool

text \<open>
  A payload is kept as the function name and the ordered typed arguments the builder
  received; their binary serialisation belongs to the SDK.
\<close>

record TransactionPayload =
  contractFunction :: string
  contractArgs :: "TypedValue list"

definition ContractCallPayloadBuilder :: TransactionPayload where
  "ContractCallPayloadBuilder = \<lparr>contractFunction = [], contractArgs = []\<rparr>"

definition setFunction :: "string \<Rightarrow> TransactionPayload \<Rightarrow> TransactionPayload" where
  "setFunction f b = b\<lparr>contractFunction := f\<rparr>"

definition addArg :: "TypedValue \<Rightarrow> TransactionPayload \<Rightarrow> TransactionPayload" where
  "addArg a b = b\<lparr>contractArgs := contractArgs b @ [a]\<rparr>"

definition setArgs :: "TypedValue list \<Rightarrow> TransactionPayload \<Rightarrow> TransactionPayload" where
  "setArgs as b = b\<lparr>contractArgs := as\<rparr>"

definition build :: "TransactionPayload \<Rightarrow> TransactionPayload" where
  "build b = b"

text \<open>
  Method chaining \<open>new B().m1(..).m2(..)\<close>: \<open>chained [m1, m2] B\<close> applies the calls from left
  to right.
\<close>

primrec chained :: "('a \<Rightarrow> 'a) list \<Rightarrow> 'a \<Rightarrow> 'a" where
  "chained [] b = b"
| "chained (m # ms) b = chained ms (m b)"

text \<open>
  The \<open>value\<close> of a transaction is a number or a decimal string; \<open>None\<close> when the
  constructor call leaves the field out.
\<close>

datatype TransactionValue = NumberValue nat | StringAmount string

record Transaction =
  txValue :: "TransactionValue option"
  data :: TransactionPayload
  receiver :: Address
  gasLimit :: nat
  sender :: Address
  chainID :: string

text \<open>
  The fields of a client (\<open>DataNftMarket\<close>, \<open>DataNftMinter\<close>, \<open>SftMinter\<close>, \<open>NftMinter\<close>) that the
  transaction builders read: \<open>this.contract.getAddress()\<close>, \<open>this.chainID\<close>, the entry of the
  configuration table \<open>itheumTokenIdentifier\<close> for \<open>this.env\<close> (the table is in \<open>config.ts\<close>),
  and \<open>this.imageServiceUrl\<close>.
\<close>

record Client =
  contractAddress :: Address
  clientChainID :: string
  itheumTokenIdentifier :: string
  imageServiceUrl :: string

section \<open>DataNftMarket: transaction builders\<close>

text \<open>\<open>minimumPaymentTokenAmount = 0\<close>: the default applies when the argument is left out.\<close>

definition addOffer ::
  "Client \<Rightarrow> Address \<Rightarrow> string \<Rightarrow> nat \<Rightarrow> nat \<Rightarrow> string \<Rightarrow> nat \<Rightarrow> nat \<Rightarrow> nat option \<Rightarrow> Transaction" where
  "addOffer this senderAddress dataNftIdentifier dataNftNonce dataNftAmount
       paymentTokenIdentifier paymentTokenNonce paymentTokenAmount minimumPaymentTokenAmountOpt =
     (let minimumPaymentTokenAmount =
            (case minimumPaymentTokenAmountOpt of None \<Rightarrow> 0 | Some m \<Rightarrow> m)
      in \<lparr>txValue = Some (NumberValue 0),
          data = build (chained
                   [setFunction ''ESDTNFTTransfer'',
                    addArg (TokenIdentifierValue dataNftIdentifier),
                    addArg (U64Value dataNftNonce),
                    addArg (BigUIntValue dataNftAmount),
                    addArg (AddressValue (contractAddress this)),
                    addArg (StringValue ''addOffer''),
                    addArg (TokenIdentifierValue paymentTokenIdentifier),
                    addArg (U64Value paymentTokenNonce),
                    addArg (U64Value paymentTokenAmount),
                    addArg (U64Value minimumPaymentTokenAmount),
                    addArg (BigUIntValue dataNftAmount)]
                   ContractCallPayloadBuilder),
          receiver = senderAddress,
          gasLimit = 12000000,
          sender = senderAddress,
          chainID = clientChainID this\<rparr>)"

text \<open>\<open>sendFundsBackToOwner = true\<close>, \<open>newMinimumPaymentTokenAmount = 0\<close>: defaults of omitted arguments.\<close>

definition cancelOffer :: "Client \<Rightarrow> Address \<Rightarrow> nat \<Rightarrow> bool option \<Rightarrow> Transaction" where
  "cancelOffer this senderAddress offerId sendFundsBackToOwnerOpt =
     (let sendFundsBackToOwner =
            (case sendFundsBackToOwnerOpt of None \<Rightarrow> True | Some b \<Rightarrow> b)
      in
      \<lparr>txValue = Some (NumberValue 0),
       data = build (chained
                    [setFunction ''cancelOffer'',
                     addArg (U64Value offerId),
                     addArg (BooleanValue sendFundsBackToOwner)]
                    ContractCallPayloadBuilder),
       receiver = contractAddress this,
       gasLimit = 10000000,
       sender = senderAddress,
       chainID = clientChainID this\<rparr>)"

definition changeOfferPrice :: "Client \<Rightarrow> Address \<Rightarrow> nat \<Rightarrow> nat \<Rightarrow> nat option \<Rightarrow> Transaction" where
  "changeOfferPrice this senderAddress offerId newPrice newMinimumPaymentTokenAmountOpt =
     (let newMinimumPaymentTokenAmount =
            (case newMinimumPaymentTokenAmountOpt of None \<Rightarrow> 0 | Some m \<Rightarrow> m)
      in
      \<lparr>txValue = Some (NumberValue 0),
       data = build (chained
                    [setFunction ''changeOfferPrice'',
                     addArg (U64Value offerId),
                     addArg (U64Value newPrice),
                     addArg (U64Value newMinimumPaymentTokenAmount)]
                    ContractCallPayloadBuilder),
       receiver = contractAddress this,
       gasLimit = 10000000,
       sender = senderAddress,
       chainID = clientChainID this\<rparr>)"

definition withdrawCancelledOffer :: "Client \<Rightarrow> Address \<Rightarrow> nat \<Rightarrow> Transaction" where
  "withdrawCancelledOffer this senderAddress offerId =
     \<lparr>txValue = Some (NumberValue 0),
      data = build (chained
                   [setFunction ''withdrawCancelledOffer'',
                    addArg (U64Value offerId)]
                   ContractCallPayloadBuilder),
      receiver = contractAddress this,
      gasLimit = 12000000,
      sender = senderAddress,
      chainID = clientChainID this\<rparr>"

section \<open>SftMinter: transaction builders\<close>

definition SftMinter_initializeContract :: "Client \<Rightarrow> Address \<Rightarrow> string \<Rightarrow> string \<Rightarrow> string \<Rightarrow> nat \<Rightarrow> nat \<Rightarrow> Address \<Rightarrow> Transaction" where
  "SftMinter_initializeContract this senderAddress collectionName tokenTicker antiSpamTaxTokenIdentifier antiSpamTaxTokenAmount mintLimit treasury_address =
     \<lparr>txValue = Some (NumberValue 0),
      data = build (chained
                   [setFunction ''initializeContract'',
                    addArg (StringValue collectionName),
                    addArg (StringValue tokenTicker),
                    addArg (TokenIdentifierValue antiSpamTaxTokenIdentifier),
                    addArg (BigUIntValue antiSpamTaxTokenAmount),
                    addArg (U64Value mintLimit),
                    addArg (AddressValue treasury_address)]
                   ContractCallPayloadBuilder),
      receiver = contractAddress this,
      gasLimit = 10000000,
      sender = senderAddress,
      chainID = clientChainID this\<rparr>"

definition setTreasuryAddress :: "Client \<Rightarrow> Address \<Rightarrow> Address \<Rightarrow> Transaction" where
  "setTreasuryAddress this senderAddress treasuryAddress =
     \<lparr>txValue = Some (NumberValue 0),
      data = build (chained
                   [setFunction ''setTreasuryAddress'',
                    addArg (AddressValue treasuryAddress)]
                   ContractCallPayloadBuilder),
      receiver = contractAddress this,
      gasLimit = 10000000,
      sender = senderAddress,
      chainID = clientChainID this\<rparr>"

definition setMaxSupply :: "Client \<Rightarrow> Address \<Rightarrow> nat \<Rightarrow> Transaction" where
  "setMaxSupply this senderAddress maxSupply =
     \<lparr>txValue = Some (NumberValue 0),
      data = build (chained
                   [setFunction ''setMaxSupply'',
                    addArg (BigUIntValue maxSupply)]
                   ContractCallPayloadBuilder),
      receiver = contractAddress this,
      gasLimit = 10000000,
      sender = senderAddress,
      chainID = clientChainID this\<rparr>"

section \<open>NftMinter: transaction builders\<close>

definition setLocalRoles :: "Client \<Rightarrow> Address \<Rightarrow> Transaction" where
  "setLocalRoles this senderAddress =
     \<lparr>txValue = Some (NumberValue 0),
      data = build (chained
                   [setFunction ''setLocalRoles'']
                   ContractCallPayloadBuilder),
      receiver = contractAddress this,
      gasLimit = 10000000,
      sender = senderAddress,
      chainID = clientChainID this\<rparr>"

definition setTransferRole :: "Client \<Rightarrow> Address \<Rightarrow> Address \<Rightarrow> Transaction" where
  "setTransferRole this senderAddress address =
     \<lparr>txValue = Some (NumberValue 0),
      data = build (chained
                   [setFunction ''setTransferRole'',
                    addArg (AddressValue address)]
                   ContractCallPayloadBuilder),
      receiver = contractAddress this,
      gasLimit = 10000000,
      sender = senderAddress,
      chainID = clientChainID this\<rparr>"

definition unsetTransferRole :: "Client \<Rightarrow> Address \<Rightarrow> Address \<Rightarrow> Transaction" where
  "unsetTransferRole this senderAddress address =
     \<lparr>txValue = Some (NumberValue 0),
      data = build (chained
                   [setFunction ''unsetTransferRole'',
                    addArg (AddressValue address)]
                   ContractCallPayloadBuilder),
      receiver = contractAddress this,
      gasLimit = 10000000,
      sender = senderAddress,
      chainID = clientChainID this\<rparr>"

definition pauseContract :: "Client \<Rightarrow> Address \<Rightarrow> Transaction" where
  "pauseContract this senderAddress =
     \<lparr>txValue = Some (NumberValue 0),
      data = build (chained
                   [setFunction ''setIsPaused'',
                    addArg (BooleanValue True)]
                   ContractCallPayloadBuilder),
      receiver = contractAddress this,
      gasLimit = 10000000,
      sender = senderAddress,
      chainID = clientChainID this\<rparr>"

definition unpauseContract :: "Client \<Rightarrow> Address \<Rightarrow> Transaction" where
  "unpauseContract this senderAddress =
     \<lparr>txValue = Some (NumberValue 0),
      data = build (chained
                   [setFunction ''setIsPaused'',
                    addArg (BooleanValue False)]
                   ContractCallPayloadBuilder),
      receiver = contractAddress this,
      gasLimit = 10000000,
      sender = senderAddress,
      chainID = clientChainID this\<rparr>"

definition setMintTaxIsRequired :: "Client \<Rightarrow> Address \<Rightarrow> bool \<Rightarrow> Transaction" where
  "setMintTaxIsRequired this senderAddress is_required =
     \<lparr>txValue = Some (NumberValue 0),
      data = build (chained
                   [setFunction ''setTaxIsRequired'',
                    addArg (BooleanValue is_required)]
                   ContractCallPayloadBuilder),
      receiver = contractAddress this,
      gasLimit = 10000000,
      sender = senderAddress,
      chainID = clientChainID this\<rparr>"

definition setMintTax :: "Client \<Rightarrow> Address \<Rightarrow> string \<Rightarrow> nat \<Rightarrow> Transaction" where
  "setMintTax this senderAddress tokenIdentifier tax =
     \<lparr>txValue = Some (NumberValue 0),
      data = build (chained
                   [setFunction ''setAntiSpamTax'',
                    addArg (TokenIdentifierValue tokenIdentifier),
                    addArg (BigUIntValue tax)]
                   ContractCallPayloadBuilder),
      receiver = contractAddress this,
      gasLimit = 10000000,
      sender = senderAddress,
      chainID = clientChainID this\<rparr>"

definition setWhitelistIsEnabled :: "Client \<Rightarrow> Address \<Rightarrow> bool \<Rightarrow> Transaction" where
  "setWhitelistIsEnabled this senderAddress is_enabled =
     \<lparr>txValue = Some (NumberValue 0),
      data = build (chained
                   [setFunction ''setWhiteListEnabled'',
                    addArg (BooleanValue is_enabled)]
                   ContractCallPayloadBuilder),
      receiver = contractAddress this,
      gasLimit = 10000000,
      sender = senderAddress,
      chainID = clientChainID this\<rparr>"

text \<open>
  \<open>addresses.map((address) => new AddressValue(new Address(address)))\<close>: the SDK's
  \<open>new Address(text)\<close> is the parameter \<open>newAddress\<close>, and the first address it rejects
  throws.
\<close>

fun addressValues :: "(string \<Rightarrow> JsError + Address) \<Rightarrow> string list \<Rightarrow> JsError + TypedValue list" where
  "addressValues newAddress [] = Inr []"
| "addressValues newAddress (address # addresses) =
     (case newAddress address of
        Inl e \<Rightarrow> Inl e
      | Inr a \<Rightarrow>
          (case addressValues newAddress addresses of
             Inl e \<Rightarrow> Inl e
           | Inr vs \<Rightarrow> Inr (AddressValue a # vs)))"

text \<open>
  \<open>whitelist(senderAddress, addresses, gasLimit = 0)\<close>: the caller's extra gas is added,
  \<open>gasLimit: 10000000 + gasLimit\<close>, a sum of two numbers.
\<close>

definition whitelist ::
  "(string \<Rightarrow> JsError + Address) \<Rightarrow> Client \<Rightarrow> Address \<Rightarrow> string list \<Rightarrow> nat option
     \<Rightarrow> error + Transaction" where
  "whitelist newAddress this senderAddress addresses gasLimitOpt =
     (let extraGas = (case gasLimitOpt of None \<Rightarrow> 0 | Some g \<Rightarrow> g)
      in case addressValues newAddress addresses of
           Inl e \<Rightarrow> Inl (Thrown e)
         | Inr values \<Rightarrow> Inr
             \<lparr>txValue = Some (NumberValue 0),
              data = build (chained
                           [setFunction ''setWhiteListSpots'',
                            setArgs values]
                           ContractCallPayloadBuilder),
              receiver = contractAddress this,
              gasLimit = nearestDouble (10000000 + extraGas),
              sender = senderAddress,
              chainID = clientChainID this\<rparr>)"

text \<open>
  \<open>delist(senderAddress, addresses, gasLimit: 0)\<close>: the third parameter is declared with
  the literal type \<open>0\<close>, whose only value is the number 0.
\<close>

datatype ZeroLiteral = Zero

definition zeroLiteral :: "ZeroLiteral \<Rightarrow> nat" where
  "zeroLiteral z = 0"

definition delist ::
  "(string \<Rightarrow> JsError + Address) \<Rightarrow> Client \<Rightarrow> Address \<Rightarrow> string list \<Rightarrow> ZeroLiteral
     \<Rightarrow> error + Transaction" where
  "delist newAddress this senderAddress addresses gasLimitArg =
     (case addressValues newAddress addresses of
        Inl e \<Rightarrow> Inl (Thrown e)
      | Inr values \<Rightarrow> Inr
          \<lparr>txValue = Some (NumberValue 0),
           data = build (chained
                        [setFunction ''delist'',
                         setArgs values]
                        ContractCallPayloadBuilder),
           receiver = contractAddress this,
           gasLimit = 10000000 + zeroLiteral gasLimitArg,
           sender = senderAddress,
           chainID = clientChainID this\<rparr>)"

definition setMintTimeLimit :: "Client \<Rightarrow> Address \<Rightarrow> nat \<Rightarrow> Transaction" where
  "setMintTimeLimit this senderAddress timeLimit =
     \<lparr>txValue = Some (NumberValue 0),
      data = build (chained
                   [setFunction ''setMintTimeLimit'',
                    addArg (BigUIntValue timeLimit)]
                   ContractCallPayloadBuilder),
      receiver = contractAddress this,
      gasLimit = 10000000,
      sender = senderAddress,
      chainID = clientChainID this\<rparr>"

definition setAdministrator :: "Client \<Rightarrow> Address \<Rightarrow> Address \<Rightarrow> Transaction" where
  "setAdministrator this senderAddress newAdministrator =
     \<lparr>txValue = Some (NumberValue 0),
      data = build (chained
                   [setFunction ''setAdministrator'',
                    addArg (AddressValue newAdministrator)]
                   ContractCallPayloadBuilder),
      receiver = contractAddress this,
      gasLimit = 10000000,
      sender = senderAddress,
      chainID = clientChainID this\<rparr>"

definition setClaimsAddress :: "Client \<Rightarrow> Address \<Rightarrow> Address \<Rightarrow> Transaction" where
  "setClaimsAddress this senderAddress claimsAddress =
     \<lparr>txValue = Some (NumberValue 0),
      data = build (chained
                   [setFunction ''setClaimsAddress'',
                    addArg (AddressValue claimsAddress)]
                   ContractCallPayloadBuilder),
      receiver = contractAddress this,
      gasLimit = 10000000,
      sender = senderAddress,
      chainID = clientChainID this\<rparr>"

text \<open>\<open>claimRoyalties(senderAddress, tokenIdentifier, nonce = 0)\<close>.\<close>

definition claimRoyalties :: "Client \<Rightarrow> Address \<Rightarrow> string \<Rightarrow> nat option \<Rightarrow> Transaction" where
  "claimRoyalties this senderAddress tokenIdentifier nonceOpt =
     (let tokenNonce = (case nonceOpt of None \<Rightarrow> 0 | Some n \<Rightarrow> n)
      in
      \<lparr>txValue = Some (NumberValue 0),
       data = build (chained
                    [setFunction ''claimRoyalties'',
                     addArg (TokenIdentifierValue tokenIdentifier),
                     addArg (BigUIntValue tokenNonce)]
                    ContractCallPayloadBuilder),
       receiver = contractAddress this,
       gasLimit = 10000000,
       sender = senderAddress,
       chainID = clientChainID this\<rparr>)"

definition pauseCollection :: "Client \<Rightarrow> Address \<Rightarrow> Transaction" where
  "pauseCollection this senderAddress =
     \<lparr>txValue = Some (NumberValue 0),
      data = build (chained
                   [setFunction ''pause'']
                   ContractCallPayloadBuilder),
      receiver = contractAddress this,
      gasLimit = 10000000,
      sender = senderAddress,
      chainID = clientChainID this\<rparr>"

definition unpauseCollection :: "Client \<Rightarrow> Address \<Rightarrow> Transaction" where
  "unpauseCollection this senderAddress =
     \<lparr>txValue = Some (NumberValue 0),
      data = build (chained
                   [setFunction ''unpause'']
                   ContractCallPayloadBuilder),
      receiver = contractAddress this,
      gasLimit = 10000000,
      sender = senderAddress,
      chainID = clientChainID this\<rparr>"

definition freeze :: "Client \<Rightarrow> Address \<Rightarrow> Address \<Rightarrow> Transaction" where
  "freeze this senderAddress freezeAddress =
     \<lparr>txValue = Some (NumberValue 0),
      data = build (chained
                   [setFunction ''freeze'',
                    addArg (AddressValue freezeAddress)]
                   ContractCallPayloadBuilder),
      receiver = contractAddress this,
      gasLimit = 10000000,
      sender = senderAddress,
      chainID = clientChainID this\<rparr>"

definition unfreeze :: "Client \<Rightarrow> Address \<Rightarrow> Address \<Rightarrow> Transaction" where
  "unfreeze this senderAddress unfreezeAddress =
     \<lparr>txValue = Some (NumberValue 0),
      data = build (chained
                   [setFunction ''unfreeze'',
                    addArg (AddressValue unfreezeAddress)]
                   ContractCallPayloadBuilder),
      receiver = contractAddress this,
      gasLimit = 10000000,
      sender = senderAddress,
      chainID = clientChainID this\<rparr>"

definition freezeSingleNFT :: "Client \<Rightarrow> Address \<Rightarrow> nat \<Rightarrow> Address \<Rightarrow> Transaction" where
  "freezeSingleNFT this senderAddress tokenNonce freezeAddress =
     \<lparr>txValue = Some (NumberValue 0),
      data = build (chained
                   [setFunction ''freezeSingleNFT'',
                    addArg (U64Value tokenNonce),
                    addArg (AddressValue freezeAddress)]
                   ContractCallPayloadBuilder),
      receiver = contractAddress this,
      gasLimit = 10000000,
      sender = senderAddress,
      chainID = clientChainID this\<rparr>"

definition unFreezeSingleNFT :: "Client \<Rightarrow> Address \<Rightarrow> nat \<Rightarrow> Address \<Rightarrow> Transaction" where
  "unFreezeSingleNFT this senderAddress tokenNonce unfreezeAddress =
     \<lparr>txValue = Some (NumberValue 0),
      data = build (chained
                   [setFunction ''unFreezeSingleNFT'',
                    addArg (U64Value tokenNonce),
                    addArg (AddressValue unfreezeAddress)]
                   ContractCallPayloadBuilder),
      receiver = contractAddress this,
      gasLimit = 10000000,
      sender = senderAddress,
      chainID = clientChainID this\<rparr>"

definition wipeSingleNFT :: "Client \<Rightarrow> Address \<Rightarrow> nat \<Rightarrow> Address \<Rightarrow> Transaction" where
  "wipeSingleNFT this senderAddress tokenNonce wipeAddress =
     \<lparr>txValue = Some (NumberValue 0),
      data = build (chained
                   [setFunction ''wipeSingleNFT'',
                    addArg (U64Value tokenNonce),
                    addArg (AddressValue wipeAddress)]
                   ContractCallPayloadBuilder),
      receiver = contractAddress this,
      gasLimit = 10000000,
      sender = senderAddress,
      chainID = clientChainID this\<rparr>"

section \<open>Minting\<close>

text \<open>
  \<open>mint\<close> awaits a sequence of collaborators: the parameter validation of
  \<open>common/utils\<close>, the URL probes, the Data Marshal's \<open>/generate\<close> endpoint, the image
  service and the IPFS upload. Each is a parameter that answers a call by its arguments:
  a result, or the error it throws. \<open>'file\<close> is the type of \<open>File\<close> objects.
\<close>

record ValidationResult =
  allPassed :: bool
  validationMessages :: string

record AdvertiseResult =
  dataNftHash :: string
  dataNftStreamUrlEncrypted :: string

record 'file NftFiles =
  image :: 'file
  traits :: 'file

record IpfsUrls =
  imageOnIpfsUrl :: string
  metadataOnIpfsUrl :: string

record 'file MintCollaborators =
  validateSpecificParamsMint ::
    "Address \<Rightarrow> string \<Rightarrow> nat \<Rightarrow> nat \<Rightarrow> string \<Rightarrow> string \<Rightarrow> int \<Rightarrow> string list \<Rightarrow> ValidationResult"
  checkUrlIsUp :: "string \<Rightarrow> nat list \<Rightarrow> JsError option"
  dataNFTDataStreamAdvertise :: "string \<Rightarrow> string \<Rightarrow> string option \<Rightarrow> JsError + AdvertiseResult"
  createFileFromUrl :: "string \<Rightarrow> string \<Rightarrow> string \<Rightarrow> string \<Rightarrow> string \<Rightarrow> JsError + 'file NftFiles"
  storeToIpfs :: "string \<Rightarrow> 'file \<Rightarrow> 'file \<Rightarrow> JsError + IpfsUrls"
  checkTraitsUrl :: "string \<Rightarrow> JsError option"

record MintOptions =
  imageUrl :: "string option"
  traitsUrl :: "string option"
  nftStorageToken :: "string option"
  antiSpamTokenIdentifier :: "string option"

text \<open>\<open>!s\<close> for an optional string: \<open>undefined\<close> and the empty string are falsy.\<close>

definition falsy :: "string option \<Rightarrow> bool" where
  "falsy s = (case s of None \<Rightarrow> True | Some t \<Rightarrow> t = [])"

definition mandatoryMintParams :: "string list" where
  "mandatoryMintParams =
     [''senderAddress'', ''tokenName'', ''royalties'', ''supply'', ''datasetTitle'',
      ''datasetDescription'', ''antiSpamTax'']"

text \<open>
  The end of both \<open>mint\<close> methods (\<open>SftMinter.mint\<close> and \<open>DataNftMinter.mint\<close> have the same
  text there): the payload chosen by \<open>antiSpamTax > 0\<close>, and the transaction. The
  constructor call gives no \<open>value\<close>.
\<close>

definition mintPayload ::
  "string \<Rightarrow> int \<Rightarrow> string \<Rightarrow> string \<Rightarrow> string \<Rightarrow> string \<Rightarrow> string \<Rightarrow> string \<Rightarrow> nat \<Rightarrow> nat
     \<Rightarrow> string \<Rightarrow> string \<Rightarrow> TransactionPayload" where
  "mintPayload antiSpamToken antiSpamTax tokenName imageOnIpfs metadataOnIpfs dataMarshalUrl
       streamUrlEncrypted dataPreviewUrl royalties supply datasetTitle datasetDescription =
     (if antiSpamTax > 0 then
        build (chained
          [setFunction ''ESDTTransfer'',
           addArg (TokenIdentifierValue antiSpamToken),
           addArg (BigUIntValue (nat antiSpamTax)),
           addArg (StringValue ''mint''),
           addArg (StringValue tokenName),
           addArg (StringValue imageOnIpfs),
           addArg (StringValue metadataOnIpfs),
           addArg (StringValue dataMarshalUrl),
           addArg (StringValue streamUrlEncrypted),
           addArg (StringValue dataPreviewUrl),
           addArg (U64Value royalties),
           addArg (U64Value supply),
           addArg (StringValue datasetTitle),
           addArg (StringValue datasetDescription)]
          ContractCallPayloadBuilder)
      else
        build (chained
          [setFunction ''mint'',
           addArg (StringValue tokenName),
           addArg (StringValue imageOnIpfs),
           addArg (StringValue metadataOnIpfs),
           addArg (StringValue dataMarshalUrl),
           addArg (StringValue streamUrlEncrypted),
           addArg (StringValue dataPreviewUrl),
           addArg (U64Value royalties),
           addArg (U64Value supply),
           addArg (StringValue datasetTitle),
           addArg (StringValue datasetDescription)]
          ContractCallPayloadBuilder))"

definition mintTx :: "Client \<Rightarrow> Address \<Rightarrow> TransactionPayload \<Rightarrow> Transaction" where
  "mintTx this senderAddress payload =
     \<lparr>txValue = None,
      data = payload,
      receiver = contractAddress this,
      gasLimit = 60000000,
      sender = senderAddress,
      chainID = clientChainID this\<rparr>"

text \<open>
  The image and metadata URLs: generated and stored to IPFS when no \<open>imageUrl\<close> is given,
  the caller's own otherwise. \<open>SftMinter\<close> throws \<open>ErrArgumentNotSet\<close> for a missing option,
  \<open>DataNftMinter\<close> throws \<open>ErrBadType\<close>.
\<close>

definition SftMinter_media ::
  "'file MintCollaborators \<Rightarrow> Client \<Rightarrow> Address \<Rightarrow> string \<Rightarrow> string \<Rightarrow> string \<Rightarrow> string
     \<Rightarrow> MintOptions \<Rightarrow> error + IpfsUrls" where
  "SftMinter_media io this senderAddress dataNftHashValue datasetTitle datasetDescription
       dataPreviewUrl opts =
     (if falsy (imageUrl opts) then
        (if falsy (nftStorageToken opts) then
           Inl (ErrArgumentNotSet ''nftStorageToken''
                  ''NFT Storage token is required when not using custom image and traits'')
         else
           (case createFileFromUrl io
                   (imageServiceUrl this @ ''/v1/generateNFTArt?hash='' @ dataNftHashValue)
                   datasetTitle datasetDescription dataPreviewUrl (bech32 senderAddress) of
              Inl e \<Rightarrow> Inl (Thrown e)
            | Inr files \<Rightarrow>
                (case storeToIpfs io (case nftStorageToken opts of Some t \<Rightarrow> t | None \<Rightarrow> [])
                        (traits files) (image files) of
                   Inl e \<Rightarrow> Inl (Thrown e)
                 | Inr urls \<Rightarrow>
                     Inr \<lparr>imageOnIpfsUrl = imageOnIpfsUrl urls,
                          metadataOnIpfsUrl = metadataOnIpfsUrl urls\<rparr>)))
      else
        (if falsy (traitsUrl opts) then
           Inl (ErrArgumentNotSet ''traitsUrl'' ''Traits URL is required when using custom image'')
         else
           (case checkTraitsUrl io (case traitsUrl opts of Some t \<Rightarrow> t | None \<Rightarrow> []) of
              Some e \<Rightarrow> Inl (Thrown e)
            | None \<Rightarrow>
                Inr \<lparr>imageOnIpfsUrl = (case imageUrl opts of Some u \<Rightarrow> u | None \<Rightarrow> []),
                     metadataOnIpfsUrl = (case traitsUrl opts of Some t \<Rightarrow> t | None \<Rightarrow> [])\<rparr>)))"

definition DataNftMinter_media ::
  "'file MintCollaborators \<Rightarrow> Client \<Rightarrow> Address \<Rightarrow> string \<Rightarrow> string \<Rightarrow> string \<Rightarrow> string
     \<Rightarrow> MintOptions \<Rightarrow> error + IpfsUrls" where
  "DataNftMinter_media io this senderAddress dataNftHashValue datasetTitle datasetDescription
       dataPreviewUrl opts =
     (if falsy (imageUrl opts) then
        (if falsy (nftStorageToken opts) then
           Inl (ErrBadType ''nftStorageToken'' ''string'' (nftStorageToken opts)
                  ''NFT Storage token is required when not using custom image and traits'')
         else
           (case createFileFromUrl io
                   (imageServiceUrl this @ ''/v1/generateNFTArt?hash='' @ dataNftHashValue)
                   datasetTitle datasetDescription dataPreviewUrl (bech32 senderAddress) of
              Inl e \<Rightarrow> Inl (Thrown e)
            | Inr files \<Rightarrow>
                (case storeToIpfs io (case nftStorageToken opts of Some t \<Rightarrow> t | None \<Rightarrow> [])
                        (traits files) (image files) of
                   Inl e \<Rightarrow> Inl (Thrown e)
                 | Inr urls \<Rightarrow>
                     Inr \<lparr>imageOnIpfsUrl = imageOnIpfsUrl urls,
                          metadataOnIpfsUrl = metadataOnIpfsUrl urls\<rparr>)))
      else
        (if falsy (traitsUrl opts) then
           Inl (ErrBadType ''traitsUrl'' ''string'' (traitsUrl opts)
                  ''Traits URL is required when using custom image'')
         else
           (case checkTraitsUrl io (case traitsUrl opts of Some t \<Rightarrow> t | None \<Rightarrow> []) of
              Some e \<Rightarrow> Inl (Thrown e)
            | None \<Rightarrow>
                Inr \<lparr>imageOnIpfsUrl = (case imageUrl opts of Some u \<Rightarrow> u | None \<Rightarrow> []),
                     metadataOnIpfsUrl = (case traitsUrl opts of Some t \<Rightarrow> t | None \<Rightarrow> [])\<rparr>)))"

text \<open>\<open>const {..., antiSpamTokenIdentifier = itheumTokenIdentifier[this.env]} = options ?? {}\<close>.\<close>

definition mintOptions :: "MintOptions option \<Rightarrow> MintOptions" where
  "mintOptions options =
     (case options of
        None \<Rightarrow> \<lparr>imageUrl = None, traitsUrl = None, nftStorageToken = None,
                 antiSpamTokenIdentifier = None\<rparr>
      | Some opts \<Rightarrow> opts)"

definition antiSpamTokenOf :: "Client \<Rightarrow> MintOptions \<Rightarrow> string" where
  "antiSpamTokenOf this opts =
     (case antiSpamTokenIdentifier opts of None \<Rightarrow> itheumTokenIdentifier this | Some t \<Rightarrow> t)"

definition SftMinter_mint ::
  "'file MintCollaborators \<Rightarrow> Client \<Rightarrow> Address \<Rightarrow> string \<Rightarrow> string \<Rightarrow> string \<Rightarrow> string \<Rightarrow> nat \<Rightarrow> nat
     \<Rightarrow> string \<Rightarrow> string \<Rightarrow> int \<Rightarrow> MintOptions option \<Rightarrow> error + Transaction" where
  "SftMinter_mint io this senderAddress tokenName dataMarshalUrl dataStreamUrl dataPreviewUrl
       royalties supply datasetTitle datasetDescription antiSpamTax options =
     (let opts = mintOptions options;
          validation = validateSpecificParamsMint io senderAddress tokenName royalties supply
                         datasetTitle datasetDescription antiSpamTax mandatoryMintParams
      in if \<not> allPassed validation then
           Inl (Thrown (newError
                  (''Params have validation issues = '' @ validationMessages validation)))
         else
           (case checkUrlIsUp io dataStreamUrl [200, 403] of
              Some e \<Rightarrow> Inl (Thrown e)
            | None \<Rightarrow>
           (case checkUrlIsUp io dataPreviewUrl [200] of
              Some e \<Rightarrow> Inl (Thrown e)
            | None \<Rightarrow>
           (case checkUrlIsUp io (dataMarshalUrl @ ''/health-check'') [200] of
              Some e \<Rightarrow> Inl (Thrown e)
            | None \<Rightarrow>
           (case dataNFTDataStreamAdvertise io dataStreamUrl dataMarshalUrl
                   (Some (bech32 senderAddress)) of
              Inl e \<Rightarrow> Inl (Thrown e)
            | Inr advertised \<Rightarrow>
           (case SftMinter_media io this senderAddress (dataNftHash advertised) datasetTitle
                   datasetDescription dataPreviewUrl opts of
              Inl e \<Rightarrow> Inl e
            | Inr urls \<Rightarrow>
                Inr (mintTx this senderAddress
                       (mintPayload (antiSpamTokenOf this opts) antiSpamTax tokenName
                          (imageOnIpfsUrl urls) (metadataOnIpfsUrl urls) dataMarshalUrl
                          (dataNftStreamUrlEncrypted advertised) dataPreviewUrl royalties supply
                          datasetTitle datasetDescription))))))))"

text \<open>
  \<open>DataNftMinter.mint\<close>: the validation failure is an \<open>ErrParamValidation\<close>, and the private
  \<open>dataNFTDataStreamAdvertise\<close> takes no address.
\<close>

definition DataNftMinter_mint ::
  "'file MintCollaborators \<Rightarrow> Client \<Rightarrow> Address \<Rightarrow> string \<Rightarrow> string \<Rightarrow> string \<Rightarrow> string \<Rightarrow> nat \<Rightarrow> nat
     \<Rightarrow> string \<Rightarrow> string \<Rightarrow> int \<Rightarrow> MintOptions option \<Rightarrow> error + Transaction" where
  "DataNftMinter_mint io this senderAddress tokenName dataMarshalUrl dataStreamUrl dataPreviewUrl
       royalties supply datasetTitle datasetDescription antiSpamTax options =
     (let opts = mintOptions options;
          validation = validateSpecificParamsMint io senderAddress tokenName royalties supply
                         datasetTitle datasetDescription antiSpamTax mandatoryMintParams
      in if \<not> allPassed validation then
           Inl (ErrParamValidation (validationMessages validation))
         else
           (case checkUrlIsUp io dataStreamUrl [200, 403] of
              Some e \<Rightarrow> Inl (Thrown e)
            | None \<Rightarrow>
           (case checkUrlIsUp io dataPreviewUrl [200] of
              Some e \<Rightarrow> Inl (Thrown e)
            | None \<Rightarrow>
           (case checkUrlIsUp io (dataMarshalUrl @ ''/health-check'') [200] of
              Some e \<Rightarrow> Inl (Thrown e)
            | None \<Rightarrow>
           (case dataNFTDataStreamAdvertise io dataStreamUrl dataMarshalUrl None of
              Inl e \<Rightarrow> Inl (Thrown e)
            | Inr advertised \<Rightarrow>
           (case DataNftMinter_media io this senderAddress (dataNftHash advertised) datasetTitle
                   datasetDescription dataPreviewUrl opts of
              Inl e \<Rightarrow> Inl e
            | Inr urls \<Rightarrow>
                Inr (mintTx this senderAddress
                       (mintPayload (antiSpamTokenOf this opts) antiSpamTax tokenName
                          (imageOnIpfsUrl urls) (metadataOnIpfsUrl urls) dataMarshalUrl
                          (dataNftStreamUrlEncrypted advertised) dataPreviewUrl royalties supply
                          datasetTitle datasetDescription))))))))"

section \<open>Contract queries\<close>

text \<open>
  Every \<open>view\<close> method builds a query, awaits the network provider and hands the answer to
  \<open>ResultsParser.parseQueryResponse\<close>. The definitions start from the parsed response
  \<open>{firstValue, returnCode}\<close>: \<open>firstValue\<close> may be missing (the methods read it with \<open>?.\<close>),
  and the return code is observed through \<open>isSuccess()\<close> and \<open>toString()\<close>. A first value is
  given by its \<open>valueOf()\<close>, with a \<open>BigNumber\<close> (of an unsigned type of the ABI) as a
  natural number.
\<close>

text \<open>
  \<open>BigNumber.toString()\<close>, with the library's default setting: the decimal digits up to
  \<open>10^21\<close>, and from there on the exponential notation (the digits without their trailing
  zeros, a point after the first one when there are more, \<open>e+\<close> and the exponent).
\<close>

definition bigNumberToString :: "nat \<Rightarrow> string" where
  "bigNumberToString n =
     (if n < 10 ^ 21 then show_nat n
      else
        (let digits = show_nat n;
             coefficient = rev (dropWhile (\<lambda>c. c = CHR ''0'') (rev digits))
         in (if length coefficient > 1 then hd coefficient # CHR ''.'' # tl coefficient
             else coefficient)
            @ ''e+'' @ show_nat (length digits - 1)))"

record ReturnCode =
  isSuccess :: bool
  returnCodeText :: string

record 'v QueryResult =
  firstValue :: "'v option"
  returnCode :: ReturnCode

definition viewAddressListedOffers :: "('raw \<Rightarrow> 'offer) \<Rightarrow> 'raw list QueryResult \<Rightarrow> error + 'offer list" where
  "viewAddressListedOffers parseOffer response =
     (if isSuccess (returnCode response) then
        (case firstValue response of
           None \<Rightarrow> Inl (Thrown (typeError ''map''))
         | Some returnValue \<Rightarrow> Inr (map parseOffer returnValue))
      else Inl (ErrContractQuery ''viewAddressListedOffers'' (returnCodeText (returnCode response))))"

definition viewAddressPagedOffers :: "('raw \<Rightarrow> 'offer) \<Rightarrow> 'raw list QueryResult \<Rightarrow> error + 'offer list" where
  "viewAddressPagedOffers parseOffer response =
     (if isSuccess (returnCode response) then
        (case firstValue response of
           None \<Rightarrow> Inl (Thrown (typeError ''map''))
         | Some returnValue \<Rightarrow> Inr (map parseOffer returnValue))
      else Inl (ErrContractQuery ''viewAddressPagedOffers'' (returnCodeText (returnCode response))))"

definition viewAddressTotalOffers :: "nat QueryResult \<Rightarrow> error + JsNumber" where
  "viewAddressTotalOffers response =
     (if isSuccess (returnCode response) then
        (case firstValue response of
           None \<Rightarrow> Inl (Thrown (typeError ''toNumber''))
         | Some returnValue \<Rightarrow> Inr (toNumber returnValue))
      else Inl (ErrContractQuery ''viewAddressTotalOffers'' (returnCodeText (returnCode response))))"

definition viewAddressCancelledOffers :: "('raw \<Rightarrow> 'offer) \<Rightarrow> 'raw list QueryResult \<Rightarrow> error + 'offer list" where
  "viewAddressCancelledOffers parseOffer response =
     (if isSuccess (returnCode response) then
        (case firstValue response of
           None \<Rightarrow> Inl (Thrown (typeError ''map''))
         | Some returnValue \<Rightarrow> Inr (map parseOffer returnValue))
      else Inl (ErrContractQuery ''viewAddressCancelledOffers'' (returnCodeText (returnCode response))))"

definition viewPagedOffers :: "('raw \<Rightarrow> 'offer) \<Rightarrow> 'raw list QueryResult \<Rightarrow> error + 'offer list" where
  "viewPagedOffers parseOffer response =
     (if isSuccess (returnCode response) then
        (case firstValue response of
           None \<Rightarrow> Inl (Thrown (typeError ''map''))
         | Some returnValue \<Rightarrow> Inr (map parseOffer returnValue))
      else Inl (ErrContractQuery ''viewPagedOffers'' (returnCodeText (returnCode response))))"

text \<open>
  \<open>viewOffers\<close> decodes each pair of an index and an offer structure itself. The object it
  builds holds the index and the quantity as numbers (\<open>toNumber()\<close>), the two nonces as the
  text \<open>toString()\<close> gives and the two amounts as decoded.
\<close>

record Offer =
  index :: JsNumber
  owner :: string
  offeredTokenIdentifier :: string
  offeredTokenNonce :: string
  offeredTokenAmount :: nat
  wantedTokenIdentifier :: string
  wantedTokenNonce :: string
  wantedTokenAmount :: nat
  quantity :: JsNumber

type_synonym TokenStruct = "string \<times> nat \<times> nat"

type_synonym OfferStruct = "Address \<times> TokenStruct \<times> TokenStruct \<times> nat"

fun offerOfEntry :: "nat \<times> OfferStruct \<Rightarrow> Offer" where
  "offerOfEntry (i, ownerAddress, (offeredId, offeredNonce, offeredAmount),
                 (wantedId, wantedNonce, wantedAmount), qty) =
     \<lparr>index = toNumber i,
      owner = bech32 ownerAddress,
      offeredTokenIdentifier = offeredId,
      offeredTokenNonce = bigNumberToString offeredNonce,
      offeredTokenAmount = offeredAmount,
      wantedTokenIdentifier = wantedId,
      wantedTokenNonce = bigNumberToString wantedNonce,
      wantedTokenAmount = wantedAmount,
      quantity = toNumber qty\<rparr>"

definition viewOffers :: "(nat \<times> OfferStruct) list QueryResult \<Rightarrow> error + Offer list" where
  "viewOffers response =
     (if isSuccess (returnCode response) then
        (case firstValue response of
           None \<Rightarrow> Inl (Thrown (typeError ''map''))
         | Some returnValue \<Rightarrow> Inr (map offerOfEntry returnValue))
      else Inl (ErrContractQuery ''viewOffers'' (returnCodeText (returnCode response))))"

record MarketplaceRequirements =
  acceptedTokens :: "string list"
  acceptedPayments :: "string list"
  maximumPaymentFees :: "string list"
  buyerTaxPercentageDiscount :: JsNumber
  sellerTaxPercentageDiscount :: JsNumber
  buyerTaxPercentage :: JsNumber
  sellerTaxPercentage :: JsNumber

record RequirementsStruct =
  accepted_tokens :: "string list"
  accepted_payments :: "string list"
  maximum_payment_fees :: "nat list"
  discount_fee_percentage_buyer :: nat
  discount_fee_percentage_seller :: nat
  percentage_cut_from_buyer :: nat
  percentage_cut_from_seller :: nat

definition marketplaceRequirements :: "RequirementsStruct \<Rightarrow> MarketplaceRequirements" where
  "marketplaceRequirements returnValue =
     \<lparr>acceptedTokens = accepted_tokens returnValue,
      acceptedPayments = accepted_payments returnValue,
      maximumPaymentFees = map show_nat (maximum_payment_fees returnValue),
      buyerTaxPercentageDiscount = toNumber (discount_fee_percentage_buyer returnValue),
      sellerTaxPercentageDiscount = toNumber (discount_fee_percentage_seller returnValue),
      buyerTaxPercentage = toNumber (percentage_cut_from_buyer returnValue),
      sellerTaxPercentage = toNumber (percentage_cut_from_seller returnValue)\<rparr>"

definition viewRequirements :: "RequirementsStruct QueryResult \<Rightarrow> error + MarketplaceRequirements" where
  "viewRequirements response =
     (if isSuccess (returnCode response) then
        (case firstValue response of
           None \<Rightarrow> Inl (Thrown (typeError ''accepted_tokens''))
         | Some returnValue \<Rightarrow> Inr (marketplaceRequirements returnValue))
      else Inl (ErrContractQuery ''viewRequirements'' (returnCodeText (returnCode response))))"

text \<open>
  \<open>new U8Value(x).valueOf().toNumber()\<close> and \<open>new U64Value(x).valueOf().toNumber()\<close>: the SDK's
  numerical values reject a value that is not a number (\<open>undefined\<close>) with
  \<open>ErrInvalidArgument\<close> and hold any other value as a \<open>BigNumber\<close>, which \<open>toNumber()\<close> turns
  into a number. \<open>new BooleanValue(x).valueOf()\<close> gives \<open>x\<close> back, also when it is
  \<open>undefined\<close>.
\<close>

definition numericalValueToNumber :: "nat option \<Rightarrow> error + JsNumber" where
  "numericalValueToNumber x =
     (case x of None \<Rightarrow> Inl ErrInvalidArgument | Some n \<Rightarrow> Inr (toNumber n))"

definition booleanValueOf :: "bool option \<Rightarrow> error + bool option" where
  "booleanValueOf x = Inr x"

definition viewNumberOfOffers :: "nat QueryResult \<Rightarrow> error + JsNumber" where
  "viewNumberOfOffers response =
     (if isSuccess (returnCode response) then numericalValueToNumber (firstValue response)
      else Inl (ErrContractQuery ''viewNumberOfOffers'' (returnCodeText (returnCode response))))"

definition viewLastValidOfferId :: "nat QueryResult \<Rightarrow> error + JsNumber" where
  "viewLastValidOfferId response =
     (if isSuccess (returnCode response) then numericalValueToNumber (firstValue response)
      else Inl (ErrContractQuery ''viewLastValidOfferId'' (returnCodeText (returnCode response))))"

definition DataNftMarket_viewContractPauseState :: "bool QueryResult \<Rightarrow> error + bool option" where
  "DataNftMarket_viewContractPauseState response =
     (if isSuccess (returnCode response) then booleanValueOf (firstValue response)
      else Inl (ErrContractQuery ''viewContractPauseState'' (returnCodeText (returnCode response))))"

text \<open>
  \<open>viewMinterRequirements\<close> turns the amounts of the decoded structure into numbers
  (\<open>toNumber()\<close>), except \<open>last_mint_time\<close>, which it hands on as decoded.
\<close>

record MinterRequirements =
  antiSpamTaxValue :: JsNumber
  addressFrozen :: bool
  frozenNonces :: "JsNumber list"
  contractPaused :: bool
  userWhitelistedForMint :: bool
  lastUserMintTime :: nat
  maxRoyalties :: JsNumber
  maxSupply :: JsNumber
  minRoyalties :: JsNumber
  mintTimeLimit :: JsNumber
  numberOfMintsForUser :: JsNumber
  totalNumberOfMints :: JsNumber
  contractWhitelistEnabled :: bool

record UserDataOut =
  anti_spam_tax_value :: nat
  is_paused :: bool
  max_royalties :: nat
  min_royalties :: nat
  max_supply :: nat
  mint_time_limit :: nat
  last_mint_time :: nat
  is_whitelisted :: bool
  whitelist_enabled :: bool
  minted_per_user :: nat
  total_minted :: nat
  frozen :: bool
  frozen_nonces :: "nat list"

definition minterRequirements :: "UserDataOut \<Rightarrow> MinterRequirements" where
  "minterRequirements returnValue =
     \<lparr>antiSpamTaxValue = toNumber (anti_spam_tax_value returnValue),
      addressFrozen = frozen returnValue,
      frozenNonces = map toNumber (frozen_nonces returnValue),
      contractPaused = is_paused returnValue,
      userWhitelistedForMint = is_whitelisted returnValue,
      lastUserMintTime = last_mint_time returnValue,
      maxRoyalties = toNumber (max_royalties returnValue),
      maxSupply = toNumber (max_supply returnValue),
      minRoyalties = toNumber (min_royalties returnValue),
      mintTimeLimit = toNumber (mint_time_limit returnValue),
      numberOfMintsForUser = toNumber (minted_per_user returnValue),
      totalNumberOfMints = toNumber (total_minted returnValue),
      contractWhitelistEnabled = whitelist_enabled returnValue\<rparr>"

definition viewMinterRequirements :: "UserDataOut QueryResult \<Rightarrow> error + MinterRequirements" where
  "viewMinterRequirements response =
     (if isSuccess (returnCode response) then
        (case firstValue response of
           None \<Rightarrow> Inl (Thrown (typeError ''anti_spam_tax_value''))
         | Some returnValue \<Rightarrow> Inr (minterRequirements returnValue))
      else Inl (ErrContractQuery ''viewMinterRequirements'' (returnCodeText (returnCode response))))"

definition DataNftMinter_viewContractPauseState :: "bool QueryResult \<Rightarrow> error + bool option" where
  "DataNftMinter_viewContractPauseState response =
     (if isSuccess (returnCode response) then booleanValueOf (firstValue response)
      else Inl (ErrContractQuery ''viewContractPauseState'' (returnCodeText (returnCode response))))"

section \<open>DataNft: attribute decoding\<close>









section \<open>DataNft: the Data Marshal\<close>

text \<open>
  The static configuration of the class (\<open>DataNft.env\<close>, \<open>DataNft.apiConfiguration\<close>,
  \<open>DataNft.networkConfiguration\<close>), unset until \<open>setNetworkConfig\<close> runs, and the fields of an
  instance that the access methods read.
\<close>

record Config =
  configChainID :: string
  configNetworkProvider :: string

record DataNftStatics =
  staticEnv :: "string option"
  staticApiConfiguration :: "string option"
  staticNetworkConfiguration :: "Config option"

record DataNft =
  dataMarshal :: string
  collection :: string
  nonce :: nat

definition ensureNetworkConfigSet :: "DataNftStatics \<Rightarrow> error option" where
  "ensureNetworkConfigSet statics =
     (if falsy (staticEnv statics) \<or> falsy (staticApiConfiguration statics)
      then Some (ErrNetworkConfig None) else None)"

text \<open>
  A JavaScript object used as a dictionary is the list of its keys with their values; a
  value may be \<open>undefined\<close> (\<open>None\<close>), and reading a key that is not there gives \<open>undefined\<close>.
\<close>

type_synonym HeaderMap = "(string \<times> string option) list"

definition getProperty :: "HeaderMap \<Rightarrow> string \<Rightarrow> string option" where
  "getProperty obj k = (case map_of obj k of None \<Rightarrow> None | Some v \<Rightarrow> v)"

fun setProperty :: "string \<Rightarrow> string option \<Rightarrow> HeaderMap \<Rightarrow> HeaderMap" where
  "setProperty k v [] = [(k, v)]"
| "setProperty k v (entry # obj) =
     (if fst entry = k then (k, v) # obj else entry # setProperty k v obj)"

text \<open>
  A request as \<open>fetch\<close> receives it, and the response: its \<open>content-type\<close> header, its status
  and the outcome of reading its body (\<open>blob()\<close>, \<open>json()\<close>). \<open>fetch\<close>, \<open>checkStatus\<close> (of
  \<open>common/utils\<close>: \<open>Some e\<close> when it throws \<open>e\<close>) and \<open>numberToPaddedHex\<close> are parameters. Every
  method returns the requests it has sent, in order, beside its result.
\<close>

record FetchConfig =
  httpMethod :: string
  headers :: "HeaderMap option"

record Request =
  url :: string
  fetchConfig :: "FetchConfig option"

record Response =
  status :: nat
  statusText :: string
  responseContentType :: "string option"
  responseBody :: "JsError + string"

record ViewDataReturnType =
  blobData :: "string option"
  contentType :: string
  errorMessage :: "string option"

definition getMessageToSign ::
  "(Request \<Rightarrow> JsError + Response) \<Rightarrow> (Response \<Rightarrow> JsError option)
     \<Rightarrow> (string \<Rightarrow> JsError + string option) \<Rightarrow> DataNftStatics \<Rightarrow> DataNft
     \<Rightarrow> Request list \<times> (error + string option)" where
  "getMessageToSign fetch checkStatus parseNonce statics this =
     (case ensureNetworkConfigSet statics of
        Some e \<Rightarrow> ([], Inl e)
      | None \<Rightarrow>
          if dataMarshal this = [] then ([], Inl (ErrAttributeNotSet ''dataMarshal''))
          else
            (case staticNetworkConfiguration statics of
               None \<Rightarrow> ([], Inl (Thrown (typeError ''chainID'')))
             | Some config \<Rightarrow>
                 (let request =
                        \<lparr>url = dataMarshal this @ ''/preaccess?chainId=''
                                 @ (if configChainID config = ''D'' then ''ED''
                                    else configChainID config),
                         fetchConfig = None\<rparr>
                  in case fetch request of
                       Inl e \<Rightarrow> ([request], Inl (Thrown e))
                     | Inr res \<Rightarrow>
                         (case checkStatus res of
                            Some e \<Rightarrow> ([request], Inl (Thrown e))
                          | None \<Rightarrow>
                              (case responseBody res of
                                 Inl e \<Rightarrow> ([request], Inl (Thrown e))
                               | Inr text \<Rightarrow>
                                   (case parseNonce text of
                                      Inl e \<Rightarrow> ([request], Inl (Thrown e))
                                    | Inr nonceToSign \<Rightarrow> ([request], Inr nonceToSign)))))))"

text \<open>
  The parameters \<open>p\<close> of \<open>viewData\<close> and of \<open>viewDataViaMVXNativeAuth\<close>, each optional at run
  time. The validation of \<open>common/utils\<close> receives them with the flag
  \<open>_fwdHeaderMapLookupMustContainBearerAuthHeader\<close> and the list \<open>_mandatoryParamsList\<close>.
\<close>

datatype Signature = Buffer string | HexEncodable string | OtherSignature

record SignableMessage =
  messageSignature :: "Signature option"
  messageAddress :: "Address option"

record ViewDataParams =
  signedMessage :: "string option"
  signableMessage :: "SignableMessage option"
  stream :: "bool option"
  fwdAllHeaders :: "bool option"
  fwdHeaderKeys :: "string option"
  fwdHeaderMapLookup :: "HeaderMap option"
  nestedIdxToStream :: "nat option"
  mvxNativeAuthOrigins :: "string list option"
  mvxNativeAuthMaxExpirySeconds :: "nat option"

type_synonym Validator = "ViewDataParams \<Rightarrow> bool option \<Rightarrow> string list \<Rightarrow> ValidationResult"

text \<open>\<open>buffer.toString('hex')\<close>: two lower-case hexadecimal digits for each byte.\<close>

definition byteToHex :: "char \<Rightarrow> string" where
  "byteToHex c =
     [''0123456789abcdef'' ! (of_char c div 16), ''0123456789abcdef'' ! (of_char c mod 16)]"

definition bufferToHex :: "string \<Rightarrow> string" where
  "bufferToHex bytes = concat (map byteToHex bytes)"

record SignResult =
  signResultSignature :: string
  addrInHex :: string
  success :: bool
  exception :: string

definition signResultOf :: "SignableMessage option \<Rightarrow> SignResult" where
  "signResultOf message =
     (case message of
        None \<Rightarrow>
          \<lparr>signResultSignature = [], addrInHex = [], success = False,
           exception = ''Some Error''\<rparr>
      | Some m \<Rightarrow>
          (case (messageSignature m, messageAddress m) of
             (Some sig, Some addr) \<Rightarrow>
               \<lparr>signResultSignature =
                  (case sig of
                     Buffer bytes \<Rightarrow> bufferToHex bytes
                   | HexEncodable h \<Rightarrow> h
                   | OtherSignature \<Rightarrow> []),
                addrInHex = hex addr, success = True, exception = []\<rparr>
           | _ \<Rightarrow>
               \<lparr>signResultSignature = [], addrInHex = [], success = False,
                exception = ''Some Error''\<rparr>))"

text \<open>A template literal prints a missing value as \<open>undefined\<close>.\<close>

definition templateString :: "string option \<Rightarrow> string" where
  "templateString s = (case s of None \<Rightarrow> ''undefined'' | Some t \<Rightarrow> t)"

definition templateNumber :: "nat option \<Rightarrow> string" where
  "templateNumber n = (case n of None \<Rightarrow> ''undefined'' | Some k \<Rightarrow> show_nat k)"

text \<open>The optional query flags that both access methods append in the same way.\<close>

definition optionalFlags :: "ViewDataParams \<Rightarrow> string" where
  "optionalFlags p =
     (case stream p of None \<Rightarrow> [] | Some b \<Rightarrow> if b then ''&streamInLine=1'' else [])
     @ (case fwdAllHeaders p of None \<Rightarrow> [] | Some b \<Rightarrow> if b then ''&fwdAllHeaders=1'' else [])
     @ (case nestedIdxToStream p of
          None \<Rightarrow> []
        | Some n \<Rightarrow> ''&nestedIdxToStream='' @ show_nat n)"

text \<open>
  The end of both access methods: send the request, read the content type and the body,
  and turn a failing status into an error that carries the body's text.
\<close>

definition sendAccessRequest ::
  "(Request \<Rightarrow> JsError + Response) \<Rightarrow> (Response \<Rightarrow> JsError option) \<Rightarrow> Request
     \<Rightarrow> Request list \<times> (JsError + ViewDataReturnType)" where
  "sendAccessRequest fetch checkStatus request =
     (case fetch request of
        Inl e \<Rightarrow> ([request], Inl e)
      | Inr response \<Rightarrow>
          (case responseBody response of
             Inl e \<Rightarrow> ([request], Inl e)
           | Inr body \<Rightarrow>
               (case checkStatus response of
                  Some e \<Rightarrow>
                    ([request],
                     Inl (newError (errToString e @ ''. Detailed error trace follows : '' @ body)))
                | None \<Rightarrow>
                    ([request],
                     Inr \<lparr>blobData = Some body,
                          contentType =
                            (case responseContentType response of None \<Rightarrow> [] | Some c \<Rightarrow> c),
                          errorMessage = None\<rparr>))))"

text \<open>\<open>catch (err) { return {data: undefined, contentType: '', error: err.message} }\<close>.\<close>

definition caught ::
  "Request list \<times> (JsError + ViewDataReturnType) \<Rightarrow> Request list \<times> (error + ViewDataReturnType)" where
  "caught attempt =
     (case snd attempt of
        Inl e \<Rightarrow>
          (fst attempt,
           Inr \<lparr>blobData = None, contentType = [], errorMessage = Some (errMessage e)\<rparr>)
      | Inr outcome \<Rightarrow> (fst attempt, Inr outcome))"

subsection \<open>viewData\<close>

text \<open>
  \<open>Object.keys(p.fwdHeaderMapLookup).forEach(headerKey => fetchConfig.headers[headerKey] =
  p.fwdHeaderMapLookup?.[headerKey])\<close>, on the empty object.
\<close>

definition forwardedHeaders :: "HeaderMap \<Rightarrow> HeaderMap" where
  "forwardedHeaders lookup =
     fold (\<lambda>headerKey hs. setProperty headerKey (getProperty lookup headerKey) hs)
       (map fst lookup) []"

definition viewData_request ::
  "(nat \<Rightarrow> string) \<Rightarrow> Config \<Rightarrow> DataNft \<Rightarrow> ViewDataParams \<Rightarrow> SignResult \<Rightarrow> Request" where
  "viewData_request numberToPaddedHex config this p signResult =
     (let url0 = dataMarshal this @ ''/access?nonce='' @ templateString (signedMessage p)
                 @ ''&NFTId='' @ collection this @ ''-'' @ numberToPaddedHex (nonce this)
                 @ ''&signature='' @ signResultSignature signResult
                 @ ''&chainId=''
                 @ (if configChainID config = ''D'' then ''ED'' else configChainID config)
                 @ ''&accessRequesterAddr='' @ addrInHex signResult;
          url1 = url0 @ optionalFlags p
      in case fwdHeaderKeys p of
           None \<Rightarrow>
             \<lparr>url = url1, fetchConfig = Some \<lparr>httpMethod = ''GET'', headers = None\<rparr>\<rparr>
         | Some keys \<Rightarrow>
             \<lparr>url = url1 @ ''&fwdHeaderKeys='' @ keys,
              fetchConfig = Some
                \<lparr>httpMethod = ''GET'',
                 headers =
                   (case fwdHeaderMapLookup p of
                      None \<Rightarrow> None
                    | Some lookup \<Rightarrow>
                        if length (map fst lookup) > 0 then Some (forwardedHeaders lookup)
                        else None)\<rparr>\<rparr>)"

definition viewData_try ::
  "(nat \<Rightarrow> string) \<Rightarrow> (Request \<Rightarrow> JsError + Response) \<Rightarrow> (Response \<Rightarrow> JsError option)
     \<Rightarrow> DataNftStatics \<Rightarrow> DataNft \<Rightarrow> ViewDataParams \<Rightarrow> SignResult
     \<Rightarrow> Request list \<times> (JsError + ViewDataReturnType)" where
  "viewData_try numberToPaddedHex fetch checkStatus statics this p signResult =
     (case staticNetworkConfiguration statics of
        None \<Rightarrow> ([], Inl (typeError ''chainID''))
      | Some config \<Rightarrow>
          sendAccessRequest fetch checkStatus
            (viewData_request numberToPaddedHex config this p signResult))"

text \<open>
  The network configuration, the \<open>dataMarshal\<close> attribute and the validation are checked
  before the \<open>try\<close>: their failures are thrown to the caller.
\<close>

definition viewData ::
  "Validator \<Rightarrow> (nat \<Rightarrow> string) \<Rightarrow> (Request \<Rightarrow> JsError + Response)
     \<Rightarrow> (Response \<Rightarrow> JsError option) \<Rightarrow> DataNftStatics \<Rightarrow> DataNft \<Rightarrow> ViewDataParams
     \<Rightarrow> Request list \<times> (error + ViewDataReturnType)" where
  "viewData validateSpecificParamsViewData numberToPaddedHex fetch checkStatus statics this p =
     (case ensureNetworkConfigSet statics of
        Some e \<Rightarrow> ([], Inl e)
      | None \<Rightarrow>
          if dataMarshal this = [] then ([], Inl (ErrAttributeNotSet ''dataMarshal''))
          else
            (let validation =
                   validateSpecificParamsViewData
                     (p\<lparr>mvxNativeAuthOrigins := None, mvxNativeAuthMaxExpirySeconds := None\<rparr>)
                     None [''signedMessage'', ''signableMessage'']
             in if \<not> allPassed validation then
                  ([], Inl (Thrown (newError
                         (''params have validation issues = '' @ validationMessages validation))))
                else
                  caught (viewData_try numberToPaddedHex fetch checkStatus statics this p
                            (signResultOf (signableMessage p)))))"

subsection \<open>viewDataViaMVXNativeAuth\<close>

text \<open>
  \<open>p.mvxNativeAuthOrigins.join(',').trim().replaceAll(' ', '')\<close>, then \<open>window.btoa\<close> (a
  parameter, which may throw).
\<close>

definition joinComma :: "string list \<Rightarrow> string" where
  "joinComma xs = (case xs of [] \<Rightarrow> [] | y # ys \<Rightarrow> y @ concat (map (\<lambda>x. '','' @ x) ys))"

definition isWhiteSpace :: "char \<Rightarrow> bool" where
  "isWhiteSpace c = (of_char c \<in> {9, 10, 11, 12, 13, 32, 160 :: nat})"

definition trim :: "string \<Rightarrow> string" where
  "trim s = rev (dropWhile isWhiteSpace (rev (dropWhile isWhiteSpace s)))"

definition removeSpaces :: "string \<Rightarrow> string" where
  "removeSpaces s = filter (\<lambda>c. c \<noteq> CHR '' '') s"

text \<open>
  The \<open>authorization\<close> header first; then, when \<open>fwdHeaderKeys\<close> is given, every other
  key of the lookup map.
\<close>

definition nativeAuthHeaders :: "HeaderMap \<Rightarrow> string option \<Rightarrow> HeaderMap" where
  "nativeAuthHeaders lookup keys =
     (let hs = setProperty ''authorization'' (getProperty lookup ''authorization'') []
      in case keys of
           None \<Rightarrow> hs
         | Some _ \<Rightarrow>
             fold (\<lambda>headerKey hs'.
                     if headerKey \<noteq> ''authorization''
                     then setProperty headerKey (getProperty lookup headerKey) hs'
                     else hs')
               (map fst lookup) hs)"

definition nativeAuth_request ::
  "(nat \<Rightarrow> string) \<Rightarrow> Config \<Rightarrow> DataNft \<Rightarrow> ViewDataParams \<Rightarrow> string \<Rightarrow> Request" where
  "nativeAuth_request numberToPaddedHex config this p mvxNativeAuthOriginsToBase64 =
     (let url0 = dataMarshal this @ ''/access?NFTId='' @ collection this @ ''-''
                 @ numberToPaddedHex (nonce this)
                 @ ''&chainId=''
                 @ (if configChainID config = ''D'' then ''ED'' else configChainID config)
                 @ ''&mvxNativeAuthEnable=1&mvxNativeAuthMaxExpirySeconds=''
                 @ templateNumber (mvxNativeAuthMaxExpirySeconds p)
                 @ ''&mvxNativeAuthOrigins='' @ mvxNativeAuthOriginsToBase64;
          url1 = url0 @ optionalFlags p
      in case fwdHeaderMapLookup p of
           None \<Rightarrow>
             \<lparr>url = url1, fetchConfig = Some \<lparr>httpMethod = ''GET'', headers = None\<rparr>\<rparr>
         | Some lookup \<Rightarrow>
             if length (map fst lookup) > 0 then
               \<lparr>url = url1
                       @ (case fwdHeaderKeys p of
                            None \<Rightarrow> []
                          | Some keys \<Rightarrow> ''&fwdHeaderKeys='' @ keys),
                fetchConfig = Some
                  \<lparr>httpMethod = ''GET'',
                   headers = Some (nativeAuthHeaders lookup (fwdHeaderKeys p))\<rparr>\<rparr>
             else
               \<lparr>url = url1, fetchConfig = Some \<lparr>httpMethod = ''GET'', headers = None\<rparr>\<rparr>)"

definition viewDataViaMVXNativeAuth_try ::
  "Validator \<Rightarrow> (string \<Rightarrow> JsError + string) \<Rightarrow> (nat \<Rightarrow> string)
     \<Rightarrow> (Request \<Rightarrow> JsError + Response) \<Rightarrow> (Response \<Rightarrow> JsError option)
     \<Rightarrow> DataNftStatics \<Rightarrow> DataNft \<Rightarrow> ViewDataParams
     \<Rightarrow> Request list \<times> (JsError + ViewDataReturnType)" where
  "viewDataViaMVXNativeAuth_try validateSpecificParamsViewData btoa numberToPaddedHex fetch
       checkStatus statics this p =
     (let validation =
            validateSpecificParamsViewData
              (p\<lparr>signedMessage := None, signableMessage := None\<rparr>)
              (Some True)
              [''mvxNativeAuthOrigins'', ''mvxNativeAuthMaxExpirySeconds'',
               ''fwdHeaderMapLookup'']
      in if \<not> allPassed validation then
           ([], Inl (newError
                  (''params have validation issues = '' @ validationMessages validation)))
         else
           (case mvxNativeAuthOrigins p of
              None \<Rightarrow> ([], Inl (typeError ''join''))
            | Some origins \<Rightarrow>
                (case btoa (removeSpaces (trim (joinComma origins))) of
                   Inl e \<Rightarrow> ([], Inl e)
                 | Inr mvxNativeAuthOriginsToBase64 \<Rightarrow>
                     (case staticNetworkConfiguration statics of
                        None \<Rightarrow> ([], Inl (typeError ''chainID''))
                      | Some config \<Rightarrow>
                          sendAccessRequest fetch checkStatus
                            (nativeAuth_request numberToPaddedHex config this p
                               mvxNativeAuthOriginsToBase64)))))"

text \<open>The whole body is inside the \<open>try\<close>.\<close>

definition viewDataViaMVXNativeAuth ::
  "Validator \<Rightarrow> (string \<Rightarrow> JsError + string) \<Rightarrow> (nat \<Rightarrow> string)
     \<Rightarrow> (Request \<Rightarrow> JsError + Response) \<Rightarrow> (Response \<Rightarrow> JsError option)
     \<Rightarrow> DataNftStatics \<Rightarrow> DataNft \<Rightarrow> ViewDataParams
     \<Rightarrow> Request list \<times> (error + ViewDataReturnType)" where
  "viewDataViaMVXNativeAuth validateSpecificParamsViewData btoa numberToPaddedHex fetch
       checkStatus statics this p =
     caught (viewDataViaMVXNativeAuth_try validateSpecificParamsViewData btoa
               numberToPaddedHex fetch checkStatus statics this p)"

subsection \<open>Parameter validation\<close>

text \<open>
  Modelled from the spec: \<open>validateSpecificParamsViewData\<close> of \<open>common/utils\<close> is not among
  the sources. The spec's validation step: every field of the declared mandatory list must
  be present; for native auth, the header lookup map must also contain an \<open>authorization\<close>
  bearer entry; the violations are collected into a list of messages, and the result is
  \<open>{allPassed, validationMessages}\<close>. The spec does not give the wording of a message
  (the parameter \<open>describe\<close>); a bearer entry is taken to be an \<open>authorization\<close> value that
  starts with \<open>Bearer \<close>, as in the example of the method's documentation.
\<close>

datatype Violation = MissingParameter string | MissingBearerEntry

definition paramPresent :: "ViewDataParams \<Rightarrow> string \<Rightarrow> bool" where
  "paramPresent p name =
     (if name = ''signedMessage'' then signedMessage p \<noteq> None
      else if name = ''signableMessage'' then signableMessage p \<noteq> None
      else if name = ''stream'' then stream p \<noteq> None
      else if name = ''fwdAllHeaders'' then fwdAllHeaders p \<noteq> None
      else if name = ''fwdHeaderKeys'' then fwdHeaderKeys p \<noteq> None
      else if name = ''fwdHeaderMapLookup'' then fwdHeaderMapLookup p \<noteq> None
      else if name = ''nestedIdxToStream'' then nestedIdxToStream p \<noteq> None
      else if name = ''mvxNativeAuthOrigins'' then mvxNativeAuthOrigins p \<noteq> None
      else if name = ''mvxNativeAuthMaxExpirySeconds'' then mvxNativeAuthMaxExpirySeconds p \<noteq> None
      else False)"

definition hasBearerEntry :: "HeaderMap option \<Rightarrow> bool" where
  "hasBearerEntry lookup =
     (case lookup of
        None \<Rightarrow> False
      | Some obj \<Rightarrow>
          (case getProperty obj ''authorization'' of
             None \<Rightarrow> False
           | Some v \<Rightarrow> take 7 v = ''Bearer ''))"

definition violations :: "ViewDataParams \<Rightarrow> bool option \<Rightarrow> string list \<Rightarrow> Violation list" where
  "violations p mustContainBearer mandatoryParamsList =
     map MissingParameter (filter (\<lambda>name. \<not> paramPresent p name) mandatoryParamsList)
     @ (if mustContainBearer = Some True \<and> \<not> hasBearerEntry (fwdHeaderMapLookup p)
        then [MissingBearerEntry] else [])"

text \<open>
  Modelled from the spec: the result of the validation, \<open>{allPassed, validationMessages}\<close>,
  for the missing \<open>validateSpecificParamsViewData\<close>.
\<close>

definition spec_validateSpecificParamsViewData :: "(Violation \<Rightarrow> string) \<Rightarrow> Validator" where
  "spec_validateSpecificParamsViewData describe p mustContainBearer mandatoryParamsList =
     \<lparr>allPassed = (violations p mustContainBearer mandatoryParamsList = []),
      validationMessages =
        joinComma (map describe (violations p mustContainBearer mandatoryParamsList))\<rparr>"

section \<open>Properties as the specification words them\<close>

text \<open>
  A direct call: the value is 0, the receiver is the contract, the gas limit is \<open>gas\<close>.
\<close>

definition spec_directCall :: "Client \<Rightarrow> nat \<Rightarrow> Transaction \<Rightarrow> bool" where
  "spec_directCall this gas tx =
     (txValue tx = Some (NumberValue 0) \<and> receiver tx = contractAddress this \<and> gasLimit tx = gas)"

text \<open>
  The ten logical arguments of \<open>mint\<close>, and the shape of a mint transaction: the receiver
  is \<open>contract\<close>; with no tax the payload is the bare \<open>mint\<close> call with these arguments, with
  a tax it is the \<open>ESDTTransfer\<close> call with the tax token, the tax and the name \<open>mint\<close> before
  the same arguments.
\<close>
definition spec_mintArguments ::
  "string \<Rightarrow> string \<Rightarrow> string \<Rightarrow> string \<Rightarrow> string \<Rightarrow> string \<Rightarrow> nat \<Rightarrow> nat \<Rightarrow> string \<Rightarrow> string
     \<Rightarrow> TypedValue list" where
  "spec_mintArguments tokenName imageUrlText metadataUrl dataMarshalUrl encryptedStreamUrl
       dataPreviewUrl royalties supply datasetTitle datasetDescription =
     [StringValue tokenName, StringValue imageUrlText, StringValue metadataUrl,
      StringValue dataMarshalUrl, StringValue encryptedStreamUrl, StringValue dataPreviewUrl,
      U64Value royalties, U64Value supply, StringValue datasetTitle,
      StringValue datasetDescription]"

definition spec_mintShape :: "Address \<Rightarrow> string \<Rightarrow> int \<Rightarrow> TypedValue list \<Rightarrow> Transaction \<Rightarrow> bool" where
  "spec_mintShape contract taxToken tax arguments tx =
     (receiver tx = contract
      \<and> (tax = 0 \<longrightarrow>
           data tx = \<lparr>contractFunction = ''mint'', contractArgs = arguments\<rparr>)
      \<and> (tax > 0 \<longrightarrow>
           data tx =
             \<lparr>contractFunction = ''ESDTTransfer'',
              contractArgs =
                [TokenIdentifierValue taxToken, BigUIntValue (nat tax), StringValue ''mint'']
                @ arguments\<rparr>))"





section \<open>Example inputs\<close>

definition exampleContract :: Address where
  "exampleContract =
     \<lparr>bech32 = ''erd1qqqqqqqqqqqqqpgqcontract'', hex = ''00000000000000000500c0''\<rparr>"

definition exampleSender :: Address where
  "exampleSender = \<lparr>bech32 = ''erd1sender'', hex = ''a1b2c3''\<rparr>"

definition exampleClient :: Client where
  "exampleClient =
     \<lparr>contractAddress = exampleContract, clientChainID = ''D'',
      itheumTokenIdentifier = ''ITHEUM-a61317'',
      imageServiceUrl = ''https://api.itheumcloud-stg.com/datadexapi''\<rparr>"

definition exampleCollaborators :: "unit MintCollaborators" where
  "exampleCollaborators =
     \<lparr>validateSpecificParamsMint =
        (\<lambda>senderAddress tokenName royalties supply datasetTitle datasetDescription antiSpamTax
            mandatory. \<lparr>allPassed = True, validationMessages = []\<rparr>),
      checkUrlIsUp = (\<lambda>address statuses. None),
      dataNFTDataStreamAdvertise =
        (\<lambda>streamUrl marshalUrl address.
           Inr \<lparr>dataNftHash = ''c0ffee'', dataNftStreamUrlEncrypted = ''ENCRYPTED''\<rparr>),
      createFileFromUrl =
        (\<lambda>address datasetTitle datasetDescription previewUrl creatorAddress.
           Inr \<lparr>image = (), traits = ()\<rparr>),
      storeToIpfs =
        (\<lambda>token traitsFile imageFile.
           Inr \<lparr>imageOnIpfsUrl = ''https://ipfs.io/ipfs/cid/image.png'',
                metadataOnIpfsUrl = ''https://ipfs.io/ipfs/cid/metadata.json''\<rparr>),
      checkTraitsUrl = (\<lambda>address. None)\<rparr>"

definition exampleOptions :: MintOptions where
  "exampleOptions =
     \<lparr>imageUrl = None, traitsUrl = None, nftStorageToken = Some ''storage-token'',
      antiSpamTokenIdentifier = None\<rparr>"

definition exampleMintArguments :: "TypedValue list" where
  "exampleMintArguments =
     [StringValue ''TOKEN'', StringValue ''https://ipfs.io/ipfs/cid/image.png'',
      StringValue ''https://ipfs.io/ipfs/cid/metadata.json'', StringValue ''https://marshal'',
      StringValue ''ENCRYPTED'', StringValue ''https://preview'', U64Value 10, U64Value 5,
      StringValue ''A dataset title'', StringValue ''A dataset description'']"

definition exampleFailure :: ReturnCode where
  "exampleFailure = \<lparr>isSuccess = False, returnCodeText = ''user error''\<rparr>"

definition exampleSuccess :: ReturnCode where
  "exampleSuccess = \<lparr>isSuccess = True, returnCodeText = ''ok''\<rparr>"

definition exampleOfferEntry :: "nat \<times> OfferStruct" where
  "exampleOfferEntry = (3, exampleSender, (''DATA-X'', 12, 1), (''USDC-1'', 0, 100), 1)"

definition exampleRequirements :: RequirementsStruct where
  "exampleRequirements =
     \<lparr>accepted_tokens = [''DATANFTFT-e0b917''], accepted_payments = [''ITHEUM-a61317''],
      maximum_payment_fees = [1000000000000000000000],
      discount_fee_percentage_buyer = 0, discount_fee_percentage_seller = 0,
      percentage_cut_from_buyer = 200, percentage_cut_from_seller = 200\<rparr>"

definition exampleUserData :: UserDataOut where
  "exampleUserData =
     \<lparr>anti_spam_tax_value = 10000000000000000001, is_paused = False, max_royalties = 5000,
      min_royalties = 0, max_supply = 1000, mint_time_limit = 120,
      last_mint_time = 1700000000, is_whitelisted = True, whitelist_enabled = False,
      minted_per_user = 2, total_minted = 62, frozen = False, frozen_nonces = [7]\<rparr>"





definition exampleStatics :: "string \<Rightarrow> DataNftStatics" where
  "exampleStatics chain =
     \<lparr>staticEnv = Some ''devnet'',
      staticApiConfiguration = Some ''https://devnet-api.multiversx.com'',
      staticNetworkConfiguration =
        Some \<lparr>configChainID = chain,
              configNetworkProvider = ''https://devnet-api.multiversx.com''\<rparr>\<rparr>"

definition exampleNft :: DataNft where
  "exampleNft =
     \<lparr>dataMarshal = ''https://marshal/v1'', collection = ''DATANFTFT-e0b917'', nonce = 62\<rparr>"

definition examplePaddedHex :: "nat \<Rightarrow> string" where
  "examplePaddedHex n = (if n = 62 then ''3e'' else ''00'')"

definition exampleForbidden :: Response where
  "exampleForbidden =
     \<lparr>status = 403, statusText = ''Forbidden'',
      responseContentType = Some ''application/json'',
      responseBody = Inr ''{error: access denied}''\<rparr>"

definition exampleFetch :: "Request \<Rightarrow> JsError + Response" where
  "exampleFetch request = Inr exampleForbidden"

definition exampleCheckStatus :: "Response \<Rightarrow> JsError option" where
  "exampleCheckStatus response =
     (if status response = 200 then None
      else Some \<lparr>errName = ''Error'',
                 errMessage = ''Response was not ok: '' @ statusText response\<rparr>)"

text \<open>The class before \<open>setNetworkConfig\<close> has run.\<close>

definition exampleUnconfigured :: DataNftStatics where
  "exampleUnconfigured =
     \<lparr>staticEnv = None, staticApiConfiguration = None, staticNetworkConfiguration = None\<rparr>"

text \<open>
  A marshal that cannot be reached (\<open>fetch\<close> rejects), and one that serves the data.
\<close>

definition exampleUnreachable :: "Request \<Rightarrow> JsError + Response" where
  "exampleUnreachable request = Inl \<lparr>errName = ''TypeError'', errMessage = ''fetch failed''\<rparr>"

definition exampleData :: Response where
  "exampleData =
     \<lparr>status = 200, statusText = ''OK'',
      responseContentType = Some ''application/json'',
      responseBody = Inr ''[1, 2, 3]''\<rparr>"

definition exampleServing :: "Request \<Rightarrow> JsError + Response" where
  "exampleServing request = Inr exampleData"

definition exampleParseNonce :: "string \<Rightarrow> JsError + string option" where
  "exampleParseNonce text = Inr (Some text)"

definition exampleBtoa :: "string \<Rightarrow> JsError + string" where
  "exampleBtoa text = Inr ''aHR0cDovL2xvY2FsaG9zdA==''"

definition exampleDescribe :: "Violation \<Rightarrow> string" where
  "exampleDescribe v =
     (case v of
        MissingParameter name \<Rightarrow> name @ '' is missing''
      | MissingBearerEntry \<Rightarrow> ''fwdHeaderMapLookup needs an authorization bearer entry'')"

definition exampleSignable :: SignableMessage where
  "exampleSignable =
     \<lparr>messageSignature = Some (Buffer [CHR 0xAB, CHR 0x01]),
      messageAddress = Some exampleSender\<rparr>"

definition exampleViewDataParams :: ViewDataParams where
  "exampleViewDataParams =
     \<lparr>signedMessage = Some ''nonce123'',
      signableMessage = Some exampleSignable,
      stream = Some True,
      fwdAllHeaders = Some True,
      fwdHeaderKeys = Some ''cookie'',
      fwdHeaderMapLookup = Some [(''cookie'', Some ''xyz''), (''x-trace'', Some ''t1'')],
      nestedIdxToStream = None,
      mvxNativeAuthOrigins = None,
      mvxNativeAuthMaxExpirySeconds = None\<rparr>"

definition exampleNativeAuthParams :: ViewDataParams where
  "exampleNativeAuthParams =
     \<lparr>signedMessage = None,
      signableMessage = None,
      stream = None,
      fwdAllHeaders = None,
      fwdHeaderKeys = Some ''cookie'',
      fwdHeaderMapLookup =
        Some [(''cookie'', Some ''xyz''), (''authorization'', Some ''Bearer token'')],
      nestedIdxToStream = None,
      mvxNativeAuthOrigins = Some [''http://localhost''],
      mvxNativeAuthMaxExpirySeconds = Some 300\<rparr>"

section \<open>Properties\<close>

subsection \<open>JavaScript numbers\<close>

lemma bitLength_le: "n < 2 ^ k \<Longrightarrow> bitLength n \<le> k"
proof (induction k arbitrary: n)
  case 0
  then show ?case by (simp add: bitLength.simps)
next
  case (Suc k)
  have "n div 2 < 2 ^ k" using Suc.prems by simp
  then have "bitLength (n div 2) \<le> k" by (rule Suc.IH)
  then show ?case by (subst bitLength.simps) simp
qed

lemma bitLength_power: "bitLength (2 ^ k) = Suc k"
proof (induction k)
  case 0
  show ?case by (simp add: bitLength.simps [of "Suc 0"] bitLength.simps [of 0])
next
  case (Suc k)
  then show ?case by (subst bitLength.simps) simp
qed

lemma bitLength_upper: "n < 2 ^ bitLength n"
proof (induction n rule: bitLength.induct)
  case (1 n)
  show ?case
  proof (cases "n = 0")
    case True
    then show ?thesis by simp
  next
    case False
    then have "n div 2 < 2 ^ bitLength (n div 2)" by (rule 1)
    then have "n < 2 * 2 ^ bitLength (n div 2)" by arith
    moreover have "bitLength n = Suc (bitLength (n div 2))"
      using False by (subst bitLength.simps) simp
    ultimately show ?thesis by simp
  qed
qed

lemma bitLength_lower: "n \<noteq> 0 \<Longrightarrow> 2 ^ (bitLength n - 1) \<le> n"
proof (induction n rule: bitLength.induct)
  case (1 n)
  have step: "bitLength n = Suc (bitLength (n div 2))"
    using 1(2) by (subst bitLength.simps) simp
  show ?case
  proof (cases "n div 2 = 0")
    case True
    then have "bitLength (n div 2) = 0" by (simp add: bitLength.simps [of 0])
    then show ?thesis using step 1(2) by simp
  next
    case False
    then have IH: "2 ^ (bitLength (n div 2) - 1) \<le> n div 2" using 1 by simp
    have "bitLength (n div 2) \<noteq> 0"
      using False by (subst bitLength.simps) simp
    then obtain j where j: "bitLength (n div 2) = Suc j"
      by (cases "bitLength (n div 2)") simp_all
    have "(2::nat) ^ Suc j = 2 * 2 ^ j" by simp
    also have "\<dots> \<le> 2 * (n div 2)" using IH j by simp
    also have "\<dots> \<le> n" by simp
    finally show ?thesis using step j by simp
  qed
qed

lemma nearestDouble_safe: "n \<le> 2 ^ 53 \<Longrightarrow> nearestDouble n = n"
proof (cases "n = 2 ^ 53")
  case True
  have "(2::nat) ^ 53 mod 2 = 0" "(2::nat) ^ 53 div 2 = 2 ^ 52" by simp_all
  then show ?thesis
    using True bitLength_power [of 53] by (simp add: nearestDouble_def Let_def)
next
  case False
  assume "n \<le> 2 ^ 53"
  with False have "n < 2 ^ 53" by simp
  then show ?thesis using bitLength_le [of n 53] by (simp add: nearestDouble_def)
qed

text \<open>
  The nearest double is a multiple of the spacing of the doubles at the value
  (\<open>2^(bits - 53)\<close> for a value of \<open>bits\<close> bits), at most half a spacing away.
\<close>

lemma nearestDouble_nearest:
  "2 ^ (bitLength n - 53) dvd nearestDouble n
     \<and> (n \<le> nearestDouble n \<longrightarrow> 2 * (nearestDouble n - n) \<le> 2 ^ (bitLength n - 53))
     \<and> (nearestDouble n \<le> n \<longrightarrow> 2 * (n - nearestDouble n) \<le> 2 ^ (bitLength n - 53))"
proof -
  define k where "k = nearestDouble n"
  define ulp :: nat where "ulp = 2 ^ (bitLength n - 53)"
  define m where "m = n div ulp * ulp"
  define r where "r = n mod ulp"
  have n: "n = m + r" by (simp add: m_def r_def)
  have "0 < ulp" by (simp add: ulp_def)
  then have less: "r < ulp" by (simp add: r_def)
  have m: "ulp dvd m" by (simp add: m_def)
  have "k = (if bitLength n \<le> 53 then n
             else if 2 * r > ulp \<or> (2 * r = ulp \<and> odd (n div ulp)) then m + ulp else m)"
    by (simp add: k_def nearestDouble_def Let_def ulp_def m_def r_def)
  then consider (short) "bitLength n \<le> 53" "k = n"
    | (down) "k = m" "2 * r \<le> ulp"
    | (up) "k = m + ulp" "ulp \<le> 2 * r"
    by (auto split: if_splits)
  then have "ulp dvd k \<and> (n \<le> k \<longrightarrow> 2 * (k - n) \<le> ulp) \<and> (k \<le> n \<longrightarrow> 2 * (n - k) \<le> ulp)"
  proof cases
    case short
    then show ?thesis by (simp add: ulp_def)
  next
    case down
    then show ?thesis using n m by auto
  next
    case up
    then show ?thesis using n m less by auto
  qed
  then show ?thesis by (simp add: ulp_def k_def)
qed

lemma toNumber_safe: "n \<le> 2 ^ 53 \<Longrightarrow> toNumber n = Finite n"
proof -
  assume small: "n \<le> 2 ^ 53"
  have "(2::nat) ^ 53 < 2 ^ 1024" by simp
  with small have "n < 2 ^ 1024" by (rule le_less_trans)
  then show ?thesis using nearestDouble_safe [OF small] by (simp add: toNumber_def)
qed

subsection \<open>Payload builders\<close>

lemmas builder_simps =
  ContractCallPayloadBuilder_def setFunction_def addArg_def setArgs_def build_def

text \<open>
  C2. \<open>addOffer(sender, "DATA-X", 0, 1, "USDC-1", 0, 100, 50)\<close> is a transaction of value 0
  sent by the sender to the sender, whose payload is the \<open>ESDTNFTTransfer\<close> call with the
  arguments token \<open>DATA-X\<close>, nonce 0, amount 1, the marketplace contract address, the
  function name \<open>addOffer\<close>, payment token \<open>USDC-1\<close>, payment nonce 0, payment amount 100,
  minimum amount 50 and the quantity 1 (the data NFT amount again), in this order; and a
  call that leaves the minimum payment amount out is the call with the minimum amount 0.
\<close>

theorem addOffer_scenario_and_default:
  "txValue (addOffer this s ''DATA-X'' 0 1 ''USDC-1'' 0 100 (Some 50)) = Some (NumberValue 0)
   \<and> receiver (addOffer this s ''DATA-X'' 0 1 ''USDC-1'' 0 100 (Some 50)) = s
   \<and> sender (addOffer this s ''DATA-X'' 0 1 ''USDC-1'' 0 100 (Some 50)) = s
   \<and> data (addOffer this s ''DATA-X'' 0 1 ''USDC-1'' 0 100 (Some 50)) =
       \<lparr>contractFunction = ''ESDTNFTTransfer'',
        contractArgs =
          [TokenIdentifierValue ''DATA-X'', U64Value 0, BigUIntValue 1,
           AddressValue (contractAddress this), StringValue ''addOffer'',
           TokenIdentifierValue ''USDC-1'', U64Value 0, U64Value 100, U64Value 50,
           BigUIntValue 1]\<rparr>
   \<and> contractArgs (data (addOffer this s tok n a ptok pn pa (Some m))) ! 9 = BigUIntValue a
   \<and> contractArgs (data (addOffer this s tok n a ptok pn pa (Some m))) ! 2 = BigUIntValue a
   \<and> addOffer this s tok n a ptok pn pa None = addOffer this s tok n a ptok pn pa (Some 0)
   \<and> contractArgs (data (addOffer this s tok n a ptok pn pa None)) ! 8 = U64Value 0"
  by (simp add: addOffer_def builder_simps)

lemmas direct_call_defs =
  cancelOffer_def changeOfferPrice_def withdrawCancelledOffer_def
  SftMinter_initializeContract_def setTreasuryAddress_def setMaxSupply_def
  setLocalRoles_def setTransferRole_def unsetTransferRole_def pauseContract_def
  unpauseContract_def setMintTaxIsRequired_def setMintTax_def setWhitelistIsEnabled_def
  setMintTimeLimit_def setAdministrator_def setClaimsAddress_def claimRoyalties_def
  pauseCollection_def unpauseCollection_def freeze_def unfreeze_def freezeSingleNFT_def
  unFreezeSingleNFT_def wipeSingleNFT_def

lemma whitelist_direct:
  "whitelist newAddress this s as g = Inr tx \<Longrightarrow>
   spec_directCall this
     (nearestDouble (10000000 + (case g of None \<Rightarrow> 0 | Some extra \<Rightarrow> extra))) tx"
  by (auto simp: whitelist_def spec_directCall_def split: sum.splits)

lemma delist_direct:
  "delist newAddress this s as z = Inr tx \<Longrightarrow> spec_directCall this 10000000 tx"
  by (auto simp: delist_def zeroLiteral_def spec_directCall_def split: sum.splits)

text \<open>
  C8, as amended. Every direct-call operation (cancel offer, change offer price, withdraw,
  pause and unpause, freeze, unfreeze and wipe, role management, the other admin settings,
  delist) builds a transaction of value 0 to the contract address with a gas limit that is
  a constant of the operation, 10,000,000 or 12,000,000; \<open>whitelist\<close> builds one of value 0
  to the contract address whose gas limit is 10,000,000 plus the gas limit argument of the
  call (0 when it is left out): the sum as JavaScript computes it, which is the exact sum
  up to \<open>2^53\<close>.
\<close>

theorem direct_calls:
  "spec_directCall this 10000000 (cancelOffer this s offerId sendBack)
   \<and> spec_directCall this 10000000 (changeOfferPrice this s offerId newPrice newMinimum)
   \<and> spec_directCall this 12000000 (withdrawCancelledOffer this s offerId)
   \<and> spec_directCall this 10000000
        (SftMinter_initializeContract this s collectionName ticker taxToken taxAmount mintLimit treasury)
   \<and> spec_directCall this 10000000 (setTreasuryAddress this s treasury)
   \<and> spec_directCall this 10000000 (setMaxSupply this s maxSupplyValue)
   \<and> spec_directCall this 10000000 (setLocalRoles this s)
   \<and> spec_directCall this 10000000 (setTransferRole this s a)
   \<and> spec_directCall this 10000000 (unsetTransferRole this s a)
   \<and> spec_directCall this 10000000 (pauseContract this s)
   \<and> spec_directCall this 10000000 (unpauseContract this s)
   \<and> spec_directCall this 10000000 (setMintTaxIsRequired this s required)
   \<and> spec_directCall this 10000000 (setMintTax this s taxToken taxAmount)
   \<and> spec_directCall this 10000000 (setWhitelistIsEnabled this s enabled)
   \<and> spec_directCall this 10000000 (setMintTimeLimit this s timeLimit)
   \<and> spec_directCall this 10000000 (setAdministrator this s a)
   \<and> spec_directCall this 10000000 (setClaimsAddress this s a)
   \<and> spec_directCall this 10000000 (claimRoyalties this s taxToken royaltyNonce)
   \<and> spec_directCall this 10000000 (pauseCollection this s)
   \<and> spec_directCall this 10000000 (unpauseCollection this s)
   \<and> spec_directCall this 10000000 (freeze this s a)
   \<and> spec_directCall this 10000000 (unfreeze this s a)
   \<and> spec_directCall this 10000000 (freezeSingleNFT this s n a)
   \<and> spec_directCall this 10000000 (unFreezeSingleNFT this s n a)
   \<and> spec_directCall this 10000000 (wipeSingleNFT this s n a)
   \<and> (delist newAddress this s addresses z = Inr delistTx
        \<longrightarrow> spec_directCall this 10000000 delistTx)
   \<and> (whitelist newAddress this s addresses extraGas = Inr whitelistTx
        \<longrightarrow> spec_directCall this
              (nearestDouble (10000000 + (case extraGas of None \<Rightarrow> 0 | Some g \<Rightarrow> g)))
              whitelistTx)
   \<and> (gas \<le> 9007199254740992 \<longrightarrow> nearestDouble gas = gas)"
  using whitelist_direct [of newAddress this s addresses extraGas whitelistTx]
        delist_direct [of newAddress this s addresses z delistTx]
        nearestDouble_safe [of gas]
  by (simp add: spec_directCall_def direct_call_defs)

theorem direct_calls_witness:
  "(\<forall>newAddress.
      whitelist newAddress exampleClient exampleSender [] (Some 5) =
        Inr \<lparr>txValue = Some (NumberValue 0),
             data = \<lparr>contractFunction = ''setWhiteListSpots'', contractArgs = []\<rparr>,
             receiver = exampleContract, gasLimit = 10000005, sender = exampleSender,
             chainID = ''D''\<rparr>)
   \<and> (\<forall>newAddress.
      spec_directCall exampleClient 10000005
        (projr (whitelist newAddress exampleClient exampleSender [] (Some 5))))
   \<and> (\<forall>newAddress.
      delist newAddress exampleClient exampleSender [] Zero =
        Inr \<lparr>txValue = Some (NumberValue 0),
             data = \<lparr>contractFunction = ''delist'', contractArgs = []\<rparr>,
             receiver = exampleContract, gasLimit = 10000000, sender = exampleSender,
             chainID = ''D''\<rparr>)
   \<and> (\<forall>newAddress.
      spec_directCall exampleClient 10000000
        (projr (delist newAddress exampleClient exampleSender [] Zero)))
   \<and> spec_directCall exampleClient 10000000 (cancelOffer exampleClient exampleSender 7 (Some True))
   \<and> spec_directCall exampleClient 12000000 (withdrawCancelledOffer exampleClient exampleSender 7)"
proof -
  have w: "whitelist newAddress exampleClient exampleSender [] (Some 5) =
        Inr \<lparr>txValue = Some (NumberValue 0),
             data = \<lparr>contractFunction = ''setWhiteListSpots'', contractArgs = []\<rparr>,
             receiver = exampleContract, gasLimit = 10000005, sender = exampleSender,
             chainID = ''D''\<rparr>" for newAddress
    by (simp add: whitelist_def exampleClient_def builder_simps nearestDouble_safe)
  have d: "delist newAddress exampleClient exampleSender [] Zero =
        Inr \<lparr>txValue = Some (NumberValue 0),
             data = \<lparr>contractFunction = ''delist'', contractArgs = []\<rparr>,
             receiver = exampleContract, gasLimit = 10000000, sender = exampleSender,
             chainID = ''D''\<rparr>" for newAddress
    by (simp add: delist_def zeroLiteral_def exampleClient_def builder_simps)
  have calls: "spec_directCall exampleClient 10000005
        (projr (whitelist newAddress exampleClient exampleSender [] (Some 5)))
    \<and> spec_directCall exampleClient 10000000
        (projr (delist newAddress exampleClient exampleSender [] Zero))
    \<and> spec_directCall exampleClient 10000000 (cancelOffer exampleClient exampleSender 7 (Some True))
    \<and> spec_directCall exampleClient 12000000 (withdrawCancelledOffer exampleClient exampleSender 7)"
    for newAddress
    using direct_calls [where this = exampleClient and s = exampleSender
         and newAddress = newAddress and addresses = "[]" and z = Zero
         and delistTx = "projr (delist newAddress exampleClient exampleSender [] Zero)"
         and extraGas = "Some 5"
         and whitelistTx = "projr (whitelist newAddress exampleClient exampleSender [] (Some 5))"
         and offerId = 7 and sendBack = "Some True" and gas = 10000005]
    by (simp add: w d nearestDouble_safe)
  show ?thesis
    using w d calls by simp
qed

text \<open>
  C8, as stated, fails: the gas limit of \<open>whitelist\<close> follows its third argument. With
  the empty list of addresses no address is constructed, so the call builds its transaction
  whatever the SDK's \<open>new Address\<close> does.
\<close>

theorem whitelist_gas_counterexample:
  "(\<forall>newAddress.
      whitelist newAddress exampleClient exampleSender [] (Some 5) =
        Inr \<lparr>txValue = Some (NumberValue 0),
             data = \<lparr>contractFunction = ''setWhiteListSpots'', contractArgs = []\<rparr>,
             receiver = exampleContract, gasLimit = 10000005, sender = exampleSender,
             chainID = ''D''\<rparr>)
   \<and> (\<forall>newAddress.
      whitelist newAddress exampleClient exampleSender [] None =
        Inr \<lparr>txValue = Some (NumberValue 0),
             data = \<lparr>contractFunction = ''setWhiteListSpots'', contractArgs = []\<rparr>,
             receiver = exampleContract, gasLimit = 10000000, sender = exampleSender,
             chainID = ''D''\<rparr>)"
  by (simp add: whitelist_def exampleClient_def builder_simps nearestDouble_safe)

lemma mintPayload_shape:
  "mintPayload token tax tn img meta dmu enc dpu r su ti de =
     (if tax > 0 then
        \<lparr>contractFunction = ''ESDTTransfer'',
         contractArgs = [TokenIdentifierValue token, BigUIntValue (nat tax), StringValue ''mint'']
                        @ spec_mintArguments tn img meta dmu enc dpu r su ti de\<rparr>
      else
        \<lparr>contractFunction = ''mint'',
         contractArgs = spec_mintArguments tn img meta dmu enc dpu r su ti de\<rparr>)"
  by (simp add: mintPayload_def spec_mintArguments_def builder_simps)

lemma SftMinter_mint_valid:
  assumes "allPassed (validateSpecificParamsMint io s tn r su ti de tax mandatoryMintParams)"
    and "checkUrlIsUp io dsu [200, 403] = None"
    and "checkUrlIsUp io dpu [200] = None"
    and "checkUrlIsUp io (dmu @ ''/health-check'') [200] = None"
    and "dataNFTDataStreamAdvertise io dsu dmu (Some (bech32 s)) = Inr adv"
    and "SftMinter_media io this s (dataNftHash adv) ti de dpu (mintOptions options) = Inr urls"
  shows "SftMinter_mint io this s tn dmu dsu dpu r su ti de tax options =
     Inr (mintTx this s
            (mintPayload (antiSpamTokenOf this (mintOptions options)) tax tn
               (imageOnIpfsUrl urls) (metadataOnIpfsUrl urls) dmu
               (dataNftStreamUrlEncrypted adv) dpu r su ti de))"
  using assms by (simp add: SftMinter_mint_def Let_def)

lemma DataNftMinter_mint_valid:
  assumes "allPassed (validateSpecificParamsMint io s tn r su ti de tax mandatoryMintParams)"
    and "checkUrlIsUp io dsu [200, 403] = None"
    and "checkUrlIsUp io dpu [200] = None"
    and "checkUrlIsUp io (dmu @ ''/health-check'') [200] = None"
    and "dataNFTDataStreamAdvertise io dsu dmu None = Inr adv"
    and "DataNftMinter_media io this s (dataNftHash adv) ti de dpu (mintOptions options) = Inr urls"
  shows "DataNftMinter_mint io this s tn dmu dsu dpu r su ti de tax options =
     Inr (mintTx this s
            (mintPayload (antiSpamTokenOf this (mintOptions options)) tax tn
               (imageOnIpfsUrl urls) (metadataOnIpfsUrl urls) dmu
               (dataNftStreamUrlEncrypted adv) dpu r su ti de))"
  using assms by (simp add: DataNftMinter_mint_def Let_def)

lemma mintTx_shape:
  "spec_mintShape (contractAddress this) token tax
     (spec_mintArguments tn img meta dmu enc dpu r su ti de)
     (mintTx this s (mintPayload token tax tn img meta dmu enc dpu r su ti de))"
  by (simp add: spec_mintShape_def mintTx_def mintPayload_shape)

text \<open>
  C1, as amended. For every valid mint input (the validation passes and every collaborator
  answers), \<open>mint\<close> of \<open>SftMinter\<close> and of \<open>DataNftMinter\<close> produces a transaction whose
  receiver is the minter contract address, whatever the tax. When the anti-spam tax is 0 its
  payload is the bare \<open>mint\<close> call with the ten logical arguments (tokenName, imageUrl,
  metadataUrl, dataMarshalUrl, encryptedStreamUrl, dataPreviewUrl, royalties, supply,
  datasetTitle, datasetDescription); when the tax is greater than 0 its payload is the
  \<open>ESDTTransfer\<close> call with (antiSpamTokenIdentifier, antiSpamTax, \<open>mint\<close>) before the same
  ten arguments.
\<close>

theorem mint_transaction_shape:
  "(allPassed (validateSpecificParamsMint io s tn r su ti de tax mandatoryMintParams)
    \<and> checkUrlIsUp io dsu [200, 403] = None
    \<and> checkUrlIsUp io dpu [200] = None
    \<and> checkUrlIsUp io (dmu @ ''/health-check'') [200] = None
    \<and> dataNFTDataStreamAdvertise io dsu dmu (Some (bech32 s)) = Inr adv
    \<and> SftMinter_media io this s (dataNftHash adv) ti de dpu (mintOptions options) = Inr urls
    \<longrightarrow> (\<exists>tx. SftMinter_mint io this s tn dmu dsu dpu r su ti de tax options = Inr tx
          \<and> spec_mintShape (contractAddress this) (antiSpamTokenOf this (mintOptions options)) tax
              (spec_mintArguments tn (imageOnIpfsUrl urls) (metadataOnIpfsUrl urls) dmu
                 (dataNftStreamUrlEncrypted adv) dpu r su ti de) tx))
   \<and> (allPassed (validateSpecificParamsMint io s tn r su ti de tax mandatoryMintParams)
    \<and> checkUrlIsUp io dsu [200, 403] = None
    \<and> checkUrlIsUp io dpu [200] = None
    \<and> checkUrlIsUp io (dmu @ ''/health-check'') [200] = None
    \<and> dataNFTDataStreamAdvertise io dsu dmu None = Inr adv'
    \<and> DataNftMinter_media io this s (dataNftHash adv') ti de dpu (mintOptions options) = Inr urls'
    \<longrightarrow> (\<exists>tx. DataNftMinter_mint io this s tn dmu dsu dpu r su ti de tax options = Inr tx
          \<and> spec_mintShape (contractAddress this) (antiSpamTokenOf this (mintOptions options)) tax
              (spec_mintArguments tn (imageOnIpfsUrl urls') (metadataOnIpfsUrl urls') dmu
                 (dataNftStreamUrlEncrypted adv') dpu r su ti de) tx))"
  using SftMinter_mint_valid [of io s tn r su ti de tax dsu dpu dmu adv this options urls]
        DataNftMinter_mint_valid [of io s tn r su ti de tax dsu dpu dmu adv' this options urls']
  by (auto simp: mintTx_shape)

lemmas example_mint_defs =
  SftMinter_mint_def DataNftMinter_mint_def SftMinter_media_def DataNftMinter_media_def
  mintOptions_def antiSpamTokenOf_def falsy_def mintTx_def mintPayload_shape
  spec_mintArguments_def exampleCollaborators_def exampleOptions_def exampleClient_def
  exampleMintArguments_def

lemma example_sft_mint:
  "SftMinter_mint exampleCollaborators exampleClient exampleSender ''TOKEN'' ''https://marshal''
     ''https://stream'' ''https://preview'' 10 5 ''A dataset title'' ''A dataset description''
     tax (Some exampleOptions) =
   Inr \<lparr>txValue = None,
        data = (if tax > 0 then
                  \<lparr>contractFunction = ''ESDTTransfer'',
                   contractArgs = [TokenIdentifierValue ''ITHEUM-a61317'', BigUIntValue (nat tax),
                                   StringValue ''mint''] @ exampleMintArguments\<rparr>
                else \<lparr>contractFunction = ''mint'', contractArgs = exampleMintArguments\<rparr>),
        receiver = exampleContract, gasLimit = 60000000, sender = exampleSender,
        chainID = ''D''\<rparr>"
  by (simp add: example_mint_defs)

lemma example_datanft_mint:
  "DataNftMinter_mint exampleCollaborators exampleClient exampleSender ''TOKEN'' ''https://marshal''
     ''https://stream'' ''https://preview'' 10 5 ''A dataset title'' ''A dataset description''
     tax (Some exampleOptions) =
   Inr \<lparr>txValue = None,
        data = (if tax > 0 then
                  \<lparr>contractFunction = ''ESDTTransfer'',
                   contractArgs = [TokenIdentifierValue ''ITHEUM-a61317'', BigUIntValue (nat tax),
                                   StringValue ''mint''] @ exampleMintArguments\<rparr>
                else \<lparr>contractFunction = ''mint'', contractArgs = exampleMintArguments\<rparr>),
        receiver = exampleContract, gasLimit = 60000000, sender = exampleSender,
        chainID = ''D''\<rparr>"
  by (simp add: example_mint_defs)

theorem mint_transaction_shape_witness:
  "spec_mintShape exampleContract ''ITHEUM-a61317'' 0 exampleMintArguments
     (projr (SftMinter_mint exampleCollaborators exampleClient exampleSender ''TOKEN''
        ''https://marshal'' ''https://stream'' ''https://preview'' 10 5 ''A dataset title''
        ''A dataset description'' 0 (Some exampleOptions)))
   \<and> spec_mintShape exampleContract ''ITHEUM-a61317'' 7 exampleMintArguments
     (projr (SftMinter_mint exampleCollaborators exampleClient exampleSender ''TOKEN''
        ''https://marshal'' ''https://stream'' ''https://preview'' 10 5 ''A dataset title''
        ''A dataset description'' 7 (Some exampleOptions)))
   \<and> spec_mintShape exampleContract ''ITHEUM-a61317'' 0 exampleMintArguments
     (projr (DataNftMinter_mint exampleCollaborators exampleClient exampleSender ''TOKEN''
        ''https://marshal'' ''https://stream'' ''https://preview'' 10 5 ''A dataset title''
        ''A dataset description'' 0 (Some exampleOptions)))
   \<and> spec_mintShape exampleContract ''ITHEUM-a61317'' 7 exampleMintArguments
     (projr (DataNftMinter_mint exampleCollaborators exampleClient exampleSender ''TOKEN''
        ''https://marshal'' ''https://stream'' ''https://preview'' 10 5 ''A dataset title''
        ''A dataset description'' 7 (Some exampleOptions)))"
proof -
  let ?adv = "\<lparr>dataNftHash = ''c0ffee'', dataNftStreamUrlEncrypted = ''ENCRYPTED''\<rparr>"
  let ?urls = "\<lparr>imageOnIpfsUrl = ''https://ipfs.io/ipfs/cid/image.png'',
                metadataOnIpfsUrl = ''https://ipfs.io/ipfs/cid/metadata.json''\<rparr>"
  have passed:
    "allPassed (validateSpecificParamsMint exampleCollaborators exampleSender ''TOKEN'' 10 5
       ''A dataset title'' ''A dataset description'' tax mandatoryMintParams)" for tax
    by (simp add: example_mint_defs)
  have valid:
    "checkUrlIsUp exampleCollaborators ''https://stream'' [200, 403] = None"
    "checkUrlIsUp exampleCollaborators ''https://preview'' [200] = None"
    "checkUrlIsUp exampleCollaborators (''https://marshal'' @ ''/health-check'') [200] = None"
    "dataNFTDataStreamAdvertise exampleCollaborators ''https://stream'' ''https://marshal''
       (Some (bech32 exampleSender)) = Inr ?adv"
    "dataNFTDataStreamAdvertise exampleCollaborators ''https://stream'' ''https://marshal''
       None = Inr ?adv"
    "SftMinter_media exampleCollaborators exampleClient exampleSender (dataNftHash ?adv)
       ''A dataset title'' ''A dataset description'' ''https://preview''
       (mintOptions (Some exampleOptions)) = Inr ?urls"
    "DataNftMinter_media exampleCollaborators exampleClient exampleSender (dataNftHash ?adv)
       ''A dataset title'' ''A dataset description'' ''https://preview''
       (mintOptions (Some exampleOptions)) = Inr ?urls"
    by (simp_all add: example_mint_defs)
  have args: "spec_mintArguments ''TOKEN'' (imageOnIpfsUrl ?urls) (metadataOnIpfsUrl ?urls)
       ''https://marshal'' (dataNftStreamUrlEncrypted ?adv) ''https://preview'' 10 5
       ''A dataset title'' ''A dataset description'' = exampleMintArguments"
    by (simp add: spec_mintArguments_def exampleMintArguments_def)
  have token: "antiSpamTokenOf exampleClient (mintOptions (Some exampleOptions)) = ''ITHEUM-a61317''"
    by (simp add: example_mint_defs)
  have contract: "contractAddress exampleClient = exampleContract"
    by (simp add: exampleClient_def)
  note inst = mint_transaction_shape [where io = exampleCollaborators and s = exampleSender
      and tn = "''TOKEN''" and r = 10 and su = 5 and ti = "''A dataset title''"
      and de = "''A dataset description''" and dsu = "''https://stream''"
      and dpu = "''https://preview''" and dmu = "''https://marshal''" and adv = ?adv
      and adv' = ?adv and this = exampleClient and options = "Some exampleOptions"
      and urls = ?urls and urls' = ?urls]
  show ?thesis
    using inst [where tax = 0] inst [where tax = 7] passed [of 0] passed [of 7] valid
    unfolding args token contract
    by auto
qed

text \<open>
  C1, as stated, fails: with a tax of 7 the receiver is the contract address, not the tax
  token.
\<close>

theorem mint_receiver_counterexample:
  "SftMinter_mint exampleCollaborators exampleClient exampleSender ''TOKEN'' ''https://marshal''
     ''https://stream'' ''https://preview'' 10 5 ''A dataset title'' ''A dataset description''
     7 (Some exampleOptions) =
   Inr \<lparr>txValue = None,
        data = \<lparr>contractFunction = ''ESDTTransfer'',
                contractArgs = [TokenIdentifierValue ''ITHEUM-a61317'', BigUIntValue 7,
                                StringValue ''mint''] @ exampleMintArguments\<rparr>,
        receiver = exampleContract, gasLimit = 60000000, sender = exampleSender,
        chainID = ''D''\<rparr>
   \<and> exampleContract = contractAddress exampleClient
   \<and> bech32 exampleContract \<noteq> ''ITHEUM-a61317''
   \<and> hex exampleContract \<noteq> ''ITHEUM-a61317''"
  using example_sft_mint [of 7] by (simp add: exampleClient_def exampleContract_def)

subsection \<open>Contract queries\<close>

lemmas view_defs =
  viewAddressListedOffers_def viewAddressPagedOffers_def viewAddressTotalOffers_def
  viewAddressCancelledOffers_def viewPagedOffers_def viewOffers_def viewRequirements_def
  viewNumberOfOffers_def viewLastValidOfferId_def DataNftMarket_viewContractPauseState_def
  viewMinterRequirements_def DataNftMinter_viewContractPauseState_def
  numericalValueToNumber_def booleanValueOf_def

lemma offerOfEntry_lambda:
  "offerOfEntry =
     (\<lambda>(i, ownerAddress, (offeredId, offeredNonce, offeredAmount),
                (wantedId, wantedNonce, wantedAmount), qty).
             \<lparr>index = toNumber i, owner = bech32 ownerAddress,
              offeredTokenIdentifier = offeredId,
              offeredTokenNonce = bigNumberToString offeredNonce,
              offeredTokenAmount = offeredAmount,
              wantedTokenIdentifier = wantedId,
              wantedTokenNonce = bigNumberToString wantedNonce,
              wantedTokenAmount = wantedAmount, quantity = toNumber qty\<rparr>)"
  by (auto simp: fun_eq_iff)

text \<open>
  C4. For every contract query operation (the \<open>view\<close> methods of the marketplace and minter
  clients), a parsed response whose return code does not signal success makes the operation
  raise a contract-query error that carries the operation's name and the text of the return
  code, whatever the response holds otherwise: no domain object is returned and nothing is
  decoded. A response whose return code signals success and that carries a first value
  makes the operation return the domain object decoded from that value: the offers that
  \<open>parseOffer\<close> makes of the entries, the object built of the fields of the decoded structure,
  or the number that \<open>toNumber()\<close> makes of the decoded amount, which is the amount itself up
  to \<open>2^53\<close>.
\<close>

theorem contract_query_policy:
  "(\<not> isSuccess rc \<longrightarrow>
      viewAddressListedOffers parseOffer \<lparr>firstValue = fvOffers, returnCode = rc\<rparr>
        = Inl (ErrContractQuery ''viewAddressListedOffers'' (returnCodeText rc))
    \<and> viewAddressPagedOffers parseOffer \<lparr>firstValue = fvOffers, returnCode = rc\<rparr>
        = Inl (ErrContractQuery ''viewAddressPagedOffers'' (returnCodeText rc))
    \<and> viewAddressTotalOffers \<lparr>firstValue = fvCount, returnCode = rc\<rparr>
        = Inl (ErrContractQuery ''viewAddressTotalOffers'' (returnCodeText rc))
    \<and> viewAddressCancelledOffers parseOffer \<lparr>firstValue = fvOffers, returnCode = rc\<rparr>
        = Inl (ErrContractQuery ''viewAddressCancelledOffers'' (returnCodeText rc))
    \<and> viewPagedOffers parseOffer \<lparr>firstValue = fvOffers, returnCode = rc\<rparr>
        = Inl (ErrContractQuery ''viewPagedOffers'' (returnCodeText rc))
    \<and> viewOffers \<lparr>firstValue = fvEntries, returnCode = rc\<rparr>
        = Inl (ErrContractQuery ''viewOffers'' (returnCodeText rc))
    \<and> viewRequirements \<lparr>firstValue = fvRequirements, returnCode = rc\<rparr>
        = Inl (ErrContractQuery ''viewRequirements'' (returnCodeText rc))
    \<and> viewNumberOfOffers \<lparr>firstValue = fvCount, returnCode = rc\<rparr>
        = Inl (ErrContractQuery ''viewNumberOfOffers'' (returnCodeText rc))
    \<and> viewLastValidOfferId \<lparr>firstValue = fvCount, returnCode = rc\<rparr>
        = Inl (ErrContractQuery ''viewLastValidOfferId'' (returnCodeText rc))
    \<and> DataNftMarket_viewContractPauseState \<lparr>firstValue = fvPaused, returnCode = rc\<rparr>
        = Inl (ErrContractQuery ''viewContractPauseState'' (returnCodeText rc))
    \<and> viewMinterRequirements \<lparr>firstValue = fvUserData, returnCode = rc\<rparr>
        = Inl (ErrContractQuery ''viewMinterRequirements'' (returnCodeText rc))
    \<and> DataNftMinter_viewContractPauseState \<lparr>firstValue = fvPaused, returnCode = rc\<rparr>
        = Inl (ErrContractQuery ''viewContractPauseState'' (returnCodeText rc)))
   \<and> (isSuccess rc \<longrightarrow>
      viewAddressListedOffers parseOffer \<lparr>firstValue = Some raws, returnCode = rc\<rparr>
        = Inr (map parseOffer raws)
    \<and> viewAddressPagedOffers parseOffer \<lparr>firstValue = Some raws, returnCode = rc\<rparr>
        = Inr (map parseOffer raws)
    \<and> viewAddressTotalOffers \<lparr>firstValue = Some n, returnCode = rc\<rparr> = Inr (toNumber n)
    \<and> viewAddressCancelledOffers parseOffer \<lparr>firstValue = Some raws, returnCode = rc\<rparr>
        = Inr (map parseOffer raws)
    \<and> viewPagedOffers parseOffer \<lparr>firstValue = Some raws, returnCode = rc\<rparr>
        = Inr (map parseOffer raws)
    \<and> viewOffers \<lparr>firstValue = Some entries, returnCode = rc\<rparr>
        = Inr (map (\<lambda>(i, ownerAddress, (offeredId, offeredNonce, offeredAmount),
                         (wantedId, wantedNonce, wantedAmount), qty).
                      \<lparr>index = toNumber i, owner = bech32 ownerAddress,
                       offeredTokenIdentifier = offeredId,
                       offeredTokenNonce = bigNumberToString offeredNonce,
                       offeredTokenAmount = offeredAmount,
                       wantedTokenIdentifier = wantedId,
                       wantedTokenNonce = bigNumberToString wantedNonce,
                       wantedTokenAmount = wantedAmount, quantity = toNumber qty\<rparr>) entries)
    \<and> viewRequirements \<lparr>firstValue = Some requirements, returnCode = rc\<rparr>
        = Inr \<lparr>acceptedTokens = accepted_tokens requirements,
                acceptedPayments = accepted_payments requirements,
                maximumPaymentFees = map show_nat (maximum_payment_fees requirements),
                buyerTaxPercentageDiscount =
                  toNumber (discount_fee_percentage_buyer requirements),
                sellerTaxPercentageDiscount =
                  toNumber (discount_fee_percentage_seller requirements),
                buyerTaxPercentage = toNumber (percentage_cut_from_buyer requirements),
                sellerTaxPercentage = toNumber (percentage_cut_from_seller requirements)\<rparr>
    \<and> viewNumberOfOffers \<lparr>firstValue = Some n, returnCode = rc\<rparr> = Inr (toNumber n)
    \<and> viewLastValidOfferId \<lparr>firstValue = Some n, returnCode = rc\<rparr> = Inr (toNumber n)
    \<and> DataNftMarket_viewContractPauseState \<lparr>firstValue = Some paused, returnCode = rc\<rparr>
        = Inr (Some paused)
    \<and> viewMinterRequirements \<lparr>firstValue = Some userData, returnCode = rc\<rparr>
        = Inr \<lparr>antiSpamTaxValue = toNumber (anti_spam_tax_value userData),
                addressFrozen = frozen userData,
                frozenNonces = map toNumber (frozen_nonces userData),
                contractPaused = is_paused userData,
                userWhitelistedForMint = is_whitelisted userData,
                lastUserMintTime = last_mint_time userData,
                maxRoyalties = toNumber (max_royalties userData),
                maxSupply = toNumber (max_supply userData),
                minRoyalties = toNumber (min_royalties userData),
                mintTimeLimit = toNumber (mint_time_limit userData),
                numberOfMintsForUser = toNumber (minted_per_user userData),
                totalNumberOfMints = toNumber (total_minted userData),
                contractWhitelistEnabled = whitelist_enabled userData\<rparr>
    \<and> DataNftMinter_viewContractPauseState \<lparr>firstValue = Some paused, returnCode = rc\<rparr>
        = Inr (Some paused))
   \<and> (n \<le> 9007199254740992 \<longrightarrow> toNumber n = Finite n)"
  using toNumber_safe [of n]
  by (simp add: view_defs offerOfEntry_lambda marketplaceRequirements_def
      minterRequirements_def)

theorem contract_query_policy_witness:
  "viewAddressListedOffers Suc \<lparr>firstValue = None, returnCode = exampleFailure\<rparr>
     = Inl (ErrContractQuery ''viewAddressListedOffers'' ''user error'')
   \<and> viewAddressTotalOffers \<lparr>firstValue = None, returnCode = exampleFailure\<rparr>
     = Inl (ErrContractQuery ''viewAddressTotalOffers'' ''user error'')
   \<and> viewOffers \<lparr>firstValue = Some [exampleOfferEntry], returnCode = exampleFailure\<rparr>
     = Inl (ErrContractQuery ''viewOffers'' ''user error'')
   \<and> viewMinterRequirements \<lparr>firstValue = Some exampleUserData, returnCode = exampleFailure\<rparr>
     = Inl (ErrContractQuery ''viewMinterRequirements'' ''user error'')
   \<and> viewAddressListedOffers Suc \<lparr>firstValue = Some [1, 2], returnCode = exampleSuccess\<rparr>
     = Inr [2, 3]
   \<and> viewAddressTotalOffers \<lparr>firstValue = Some 4, returnCode = exampleSuccess\<rparr>
     = Inr (Finite 4)
   \<and> viewLastValidOfferId
       \<lparr>firstValue = Some 18446744073709551615, returnCode = exampleSuccess\<rparr>
     = Inr (Finite 18446744073709551616)
   \<and> viewOffers \<lparr>firstValue = Some [exampleOfferEntry], returnCode = exampleSuccess\<rparr>
     = Inr [\<lparr>index = Finite 3, owner = ''erd1sender'', offeredTokenIdentifier = ''DATA-X'',
             offeredTokenNonce = ''12'', offeredTokenAmount = 1,
             wantedTokenIdentifier = ''USDC-1'', wantedTokenNonce = ''0'',
             wantedTokenAmount = 100, quantity = Finite 1\<rparr>]
   \<and> viewRequirements \<lparr>firstValue = Some exampleRequirements, returnCode = exampleSuccess\<rparr>
     = Inr \<lparr>acceptedTokens = [''DATANFTFT-e0b917''], acceptedPayments = [''ITHEUM-a61317''],
            maximumPaymentFees = [''1000000000000000000000''],
            buyerTaxPercentageDiscount = Finite 0, sellerTaxPercentageDiscount = Finite 0,
            buyerTaxPercentage = Finite 200, sellerTaxPercentage = Finite 200\<rparr>
   \<and> viewMinterRequirements \<lparr>firstValue = Some exampleUserData, returnCode = exampleSuccess\<rparr>
     = Inr \<lparr>antiSpamTaxValue = Finite 10000000000000000000, addressFrozen = False,
            frozenNonces = [Finite 7], contractPaused = False, userWhitelistedForMint = True,
            lastUserMintTime = 1700000000, maxRoyalties = Finite 5000, maxSupply = Finite 1000,
            minRoyalties = Finite 0, mintTimeLimit = Finite 120, numberOfMintsForUser = Finite 2,
            totalNumberOfMints = Finite 62, contractWhitelistEnabled = False\<rparr>
   \<and> DataNftMarket_viewContractPauseState \<lparr>firstValue = Some True, returnCode = exampleSuccess\<rparr>
     = Inr (Some True)
   \<and> toNumber 9007199254740992 = Finite 9007199254740992
   \<and> toNumber 9007199254740993 = Finite 9007199254740992
   \<and> toNumber 9007199254740995 = Finite 9007199254740996
   \<and> toNumber 18446744073709551615 = Finite 18446744073709551616
   \<and> toNumber 10000000000000000001 = Finite 10000000000000000000
   \<and> toNumber (2 ^ 1024) = Infinity
   \<and> bigNumberToString 18446744073709551615 = ''18446744073709551615''
   \<and> bigNumberToString 1234500000000000000000 = ''1.2345e+21''"
proof -
  have f: "\<not> isSuccess exampleFailure" and t: "isSuccess exampleSuccess"
    by (simp_all add: exampleFailure_def exampleSuccess_def)
  have rct: "returnCodeText exampleFailure = ''user error''"
    by (simp add: exampleFailure_def)
  have small: "toNumber 0 = Finite 0" "toNumber (Suc 0) = Finite (Suc 0)" "toNumber 2 = Finite 2"
    "toNumber 3 = Finite 3" "toNumber 4 = Finite 4" "toNumber 7 = Finite 7"
    "toNumber 62 = Finite 62" "toNumber 120 = Finite 120" "toNumber 200 = Finite 200"
    "toNumber 1000 = Finite 1000" "toNumber 5000 = Finite 5000"
    by (simp_all add: toNumber_safe)
  have safe: "toNumber 9007199254740992 = Finite 9007199254740992"
    using contract_query_policy [where rc = exampleSuccess and parseOffer = Suc and fvOffers = None
        and fvCount = None and fvEntries = None and fvUserData = None and fvRequirements = None
        and fvPaused = None and raws = "[1, 2]" and n = 9007199254740992 and entries = "[exampleOfferEntry]"
        and paused = True and requirements = exampleRequirements
        and userData = exampleUserData,
        THEN conjunct2, THEN conjunct2]
    by simp
  have big: "toNumber 9007199254740993 = Finite 9007199254740992"
    "toNumber 9007199254740995 = Finite 9007199254740996"
    "toNumber 18446744073709551615 = Finite 18446744073709551616"
    "toNumber 10000000000000000001 = Finite 10000000000000000000"
    by (simp_all add: toNumber_def nearestDouble_def bitLength.simps Let_def)
  have huge: "toNumber (2 ^ 1024) = Infinity"
    using bitLength_power [of 1024] by (simp add: toNumber_def nearestDouble_def Let_def)
  have texts: "bigNumberToString 12 = ''12''" "bigNumberToString 0 = ''0''"
    "show_nat 1000000000000000000000 = ''1000000000000000000000''"
    by (simp_all add: bigNumberToString_def show_nat.simps Let_def)
  have printed: "bigNumberToString 18446744073709551615 = ''18446744073709551615''
      \<and> bigNumberToString 1234500000000000000000 = ''1.2345e+21''"
    by (simp add: bigNumberToString_def show_nat.simps Let_def)
  have failing: "viewAddressListedOffers Suc \<lparr>firstValue = None, returnCode = exampleFailure\<rparr>
     = Inl (ErrContractQuery ''viewAddressListedOffers'' ''user error'')
      \<and> viewAddressTotalOffers \<lparr>firstValue = None, returnCode = exampleFailure\<rparr>
     = Inl (ErrContractQuery ''viewAddressTotalOffers'' ''user error'')
      \<and> viewOffers \<lparr>firstValue = Some [exampleOfferEntry], returnCode = exampleFailure\<rparr>
     = Inl (ErrContractQuery ''viewOffers'' ''user error'')
      \<and> viewMinterRequirements \<lparr>firstValue = Some exampleUserData, returnCode = exampleFailure\<rparr>
     = Inl (ErrContractQuery ''viewMinterRequirements'' ''user error'')"
    using contract_query_policy [where rc = exampleFailure and parseOffer = Suc and fvOffers = None
        and fvCount = None and fvEntries = "Some [exampleOfferEntry]"
        and fvUserData = "Some exampleUserData" and fvRequirements = None and fvPaused = None
        and raws = "[]" and n = 0 and entries = "[]" and paused = True
        and requirements = exampleRequirements and userData = exampleUserData,
        THEN conjunct1, THEN mp, OF f]
    by (simp add: rct)
  have succeeding: "viewAddressListedOffers Suc \<lparr>firstValue = Some [1, 2], returnCode = exampleSuccess\<rparr>
     = Inr [2, 3]
      \<and> viewAddressTotalOffers \<lparr>firstValue = Some 4, returnCode = exampleSuccess\<rparr>
     = Inr (Finite 4)
      \<and> viewLastValidOfferId
       \<lparr>firstValue = Some 18446744073709551615, returnCode = exampleSuccess\<rparr>
     = Inr (Finite 18446744073709551616)
      \<and> viewOffers \<lparr>firstValue = Some [exampleOfferEntry], returnCode = exampleSuccess\<rparr>
     = Inr [\<lparr>index = Finite 3, owner = ''erd1sender'', offeredTokenIdentifier = ''DATA-X'',
             offeredTokenNonce = ''12'', offeredTokenAmount = 1,
             wantedTokenIdentifier = ''USDC-1'', wantedTokenNonce = ''0'',
             wantedTokenAmount = 100, quantity = Finite 1\<rparr>]
      \<and> viewRequirements \<lparr>firstValue = Some exampleRequirements, returnCode = exampleSuccess\<rparr>
     = Inr \<lparr>acceptedTokens = [''DATANFTFT-e0b917''], acceptedPayments = [''ITHEUM-a61317''],
            maximumPaymentFees = [''1000000000000000000000''],
            buyerTaxPercentageDiscount = Finite 0, sellerTaxPercentageDiscount = Finite 0,
            buyerTaxPercentage = Finite 200, sellerTaxPercentage = Finite 200\<rparr>
      \<and> viewMinterRequirements \<lparr>firstValue = Some exampleUserData, returnCode = exampleSuccess\<rparr>
     = Inr \<lparr>antiSpamTaxValue = Finite 10000000000000000000, addressFrozen = False,
            frozenNonces = [Finite 7], contractPaused = False, userWhitelistedForMint = True,
            lastUserMintTime = 1700000000, maxRoyalties = Finite 5000, maxSupply = Finite 1000,
            minRoyalties = Finite 0, mintTimeLimit = Finite 120, numberOfMintsForUser = Finite 2,
            totalNumberOfMints = Finite 62, contractWhitelistEnabled = False\<rparr>
      \<and> DataNftMarket_viewContractPauseState \<lparr>firstValue = Some True, returnCode = exampleSuccess\<rparr>
     = Inr (Some True)"
    using contract_query_policy [where rc = exampleSuccess and parseOffer = Suc and fvOffers = None
        and fvCount = None and fvEntries = None and fvUserData = None and fvRequirements = None
        and fvPaused = None and raws = "[1, 2]" and n = 4 and entries = "[exampleOfferEntry]"
        and paused = True and requirements = exampleRequirements
        and userData = exampleUserData,
        THEN conjunct2, THEN conjunct1, THEN mp, OF t]
      contract_query_policy [where rc = exampleSuccess and parseOffer = Suc and fvOffers = None
        and fvCount = None and fvEntries = None and fvUserData = None and fvRequirements = None
        and fvPaused = None and raws = "[1, 2]" and n = 18446744073709551615 and entries = "[exampleOfferEntry]"
        and paused = True and requirements = exampleRequirements
        and userData = exampleUserData,
        THEN conjunct2, THEN conjunct1, THEN mp, OF t]
    by (simp add: small big texts exampleOfferEntry_def exampleSender_def
        exampleRequirements_def exampleUserData_def)
  have numbers: "toNumber 9007199254740992 = Finite 9007199254740992
      \<and> toNumber 9007199254740993 = Finite 9007199254740992
      \<and> toNumber 9007199254740995 = Finite 9007199254740996
      \<and> toNumber 18446744073709551615 = Finite 18446744073709551616
      \<and> toNumber 10000000000000000001 = Finite 10000000000000000000
      \<and> toNumber (2 ^ 1024) = Infinity"
    using safe big huge by blast
  show ?thesis
    using failing succeeding numbers printed by blast
qed

subsection \<open>Attribute decoding\<close>







subsection \<open>Reading query parameters\<close>










subsection \<open>The access methods\<close>

lemma fst_caught: "fst (caught attempt) = fst attempt"
  by (simp add: caught_def split: sum.splits)

lemma caught_returns: "\<exists>outcome. snd (caught attempt) = Inr outcome"
  by (simp add: caught_def split: sum.splits)

lemma caught_outcome:
  "\<exists>outcome. snd (caught (requests, attempt)) = Inr outcome
     \<and> (attempt = Inr outcome
         \<or> (\<exists>e. attempt = Inl e
              \<and> outcome = \<lparr>blobData = None, contentType = [], errorMessage = Some (errMessage e)\<rparr>))"
  by (cases attempt) (simp_all add: caught_def)

lemma caught_shape:
  "\<exists>outcome. snd (caught attempt) = Inr outcome
     \<and> (snd attempt = Inr outcome \<or> (blobData outcome = None \<and> contentType outcome = []
          \<and> errorMessage outcome \<noteq> None))"
  by (cases "snd attempt") (simp_all add: caught_def)

lemma fst_sendAccessRequest: "fst (sendAccessRequest fetch checkStatus request) = [request]"
  by (simp add: sendAccessRequest_def split: sum.splits option.splits)

lemma sendAccessRequest_failure:
  assumes "fetch request = Inr response" and "responseBody response = Inr body"
    and "checkStatus response = Some e"
  shows "snd (caught (sendAccessRequest fetch checkStatus request)) =
     Inr \<lparr>blobData = None, contentType = [],
          errorMessage = Some (errToString e @ ''. Detailed error trace follows : '' @ body)\<rparr>"
  using assms by (simp add: sendAccessRequest_def caught_def newError_def)

lemma sendAccessRequest_success_shape:
  "snd (sendAccessRequest fetch checkStatus request) = Inr outcome \<Longrightarrow> errorMessage outcome = None"
  by (auto simp: sendAccessRequest_def split: sum.splits option.splits)

lemma viewData_reached:
  assumes "ensureNetworkConfigSet statics = None" and "dataMarshal this \<noteq> []"
    and "allPassed (validate
           (p\<lparr>mvxNativeAuthOrigins := None, mvxNativeAuthMaxExpirySeconds := None\<rparr>)
           None [''signedMessage'', ''signableMessage''])"
    and "staticNetworkConfiguration statics = Some config"
  shows "viewData validate pad fetch checkStatus statics this p =
     caught (sendAccessRequest fetch checkStatus
               (viewData_request pad config this p (signResultOf (signableMessage p))))"
  using assms by (simp add: viewData_def viewData_try_def Let_def)


lemma nativeAuth_reached:
  assumes "allPassed (validate (p\<lparr>signedMessage := None, signableMessage := None\<rparr>) (Some True)
             [''mvxNativeAuthOrigins'', ''mvxNativeAuthMaxExpirySeconds'', ''fwdHeaderMapLookup''])"
    and "mvxNativeAuthOrigins p = Some origins"
    and "btoa (removeSpaces (trim (joinComma origins))) = Inr encodedOrigins"
    and "staticNetworkConfiguration statics = Some config"
  shows "viewDataViaMVXNativeAuth validate btoa pad fetch checkStatus statics this p =
     caught (sendAccessRequest fetch checkStatus (nativeAuth_request pad config this p encodedOrigins))"
  using assms
  by (simp add: viewDataViaMVXNativeAuth_def viewDataViaMVXNativeAuth_try_def Let_def)


lemma nativeAuth_try_success_shape:
  "snd (viewDataViaMVXNativeAuth_try validate btoa pad fetch checkStatus statics this p)
     = Inr outcome \<Longrightarrow> errorMessage outcome = None"
  by (auto simp: viewDataViaMVXNativeAuth_try_def Let_def
      dest: sendAccessRequest_success_shape split: if_splits option.splits sum.splits)




lemma viewData_request_headers:
  "fetchConfig (viewData_request pad config this p signResult) =
     Some \<lparr>httpMethod = ''GET'',
           headers =
             (case fwdHeaderKeys p of
                None \<Rightarrow> None
              | Some keys \<Rightarrow>
                  (case fwdHeaderMapLookup p of
                     None \<Rightarrow> None
                   | Some lookup \<Rightarrow> if lookup = [] then None else Some (forwardedHeaders lookup)))\<rparr>"
  by (simp add: viewData_request_def Let_def split: option.splits)

lemma nativeAuth_request_headers:
  assumes "fwdHeaderMapLookup p = Some lookup" and "lookup \<noteq> []"
  shows "fetchConfig (nativeAuth_request pad config this p encodedOrigins) =
     Some \<lparr>httpMethod = ''GET'', headers = Some (nativeAuthHeaders lookup (fwdHeaderKeys p))\<rparr>"
  using assms by (simp add: nativeAuth_request_def Let_def)

lemma spec_validation_needs_bearer:
  "\<not> hasBearerEntry (fwdHeaderMapLookup p) \<Longrightarrow>
   \<not> allPassed (spec_validateSpecificParamsViewData describe
                  (p\<lparr>signedMessage := None, signableMessage := None\<rparr>) (Some True) mandatory)"
  by (simp add: spec_validateSpecificParamsViewData_def violations_def)

subsection \<open>Header objects\<close>

lemma setProperty_fresh: "k \<notin> fst ` set hs \<Longrightarrow> setProperty k v hs = hs @ [(k, v)]"
  by (induction hs) auto

lemma map_of_setProperty: "map_of (setProperty k v hs) = (map_of hs)(k \<mapsto> v)"
  by (induction hs) (auto simp: fun_eq_iff)

lemma keys_setProperty: "fst ` set (setProperty k v hs) = insert k (fst ` set hs)"
  by (induction hs) auto

lemma distinct_setProperty:
  "distinct (map fst hs) \<Longrightarrow> distinct (map fst (setProperty k v hs))"
  by (induction hs) (auto simp: keys_setProperty)

lemma fold_setProperty_fresh:
  "distinct ks \<Longrightarrow> set ks \<inter> fst ` set acc = {} \<Longrightarrow>
   fold (\<lambda>k hs. setProperty k (g k) hs) ks acc = acc @ map (\<lambda>k. (k, g k)) ks"
proof (induction ks arbitrary: acc)
  case Nil
  then show ?case by simp
next
  case (Cons k ks)
  from Cons.prems have fresh: "k \<notin> fst ` set acc" by auto
  from Cons.prems have "distinct ks" and "set ks \<inter> fst ` set (acc @ [(k, g k)]) = {}"
    by auto
  then have "fold (\<lambda>k hs. setProperty k (g k) hs) ks (acc @ [(k, g k)]) =
      (acc @ [(k, g k)]) @ map (\<lambda>k. (k, g k)) ks"
    by (rule Cons.IH)
  then show ?case by (simp add: setProperty_fresh [OF fresh])
qed

lemma getProperty_entry:
  "distinct (map fst obj) \<Longrightarrow> (k, v) \<in> set obj \<Longrightarrow> getProperty obj k = v"
  by (simp add: getProperty_def)

lemma forwardedHeaders_distinct:
  assumes "distinct (map fst lookup)"
  shows "forwardedHeaders lookup = lookup"
proof -
  have "forwardedHeaders lookup = map (\<lambda>k. (k, getProperty lookup k)) (map fst lookup)"
    using assms fold_setProperty_fresh [of "map fst lookup" "[]" "getProperty lookup"]
    by (simp add: forwardedHeaders_def)
  also have "\<dots> = map (\<lambda>entry. entry) lookup"
    unfolding map_map
    by (rule map_cong) (auto simp: getProperty_entry [OF assms])
  finally show ?thesis by simp
qed

lemma map_of_fold_setProperty:
  "map_of (fold (\<lambda>k hs. if P k then setProperty k (g k) hs else hs) ks acc) k' =
     (if k' \<in> set ks \<and> P k' then Some (g k') else map_of acc k')"
  by (induction ks arbitrary: acc) (auto simp: map_of_setProperty)

lemma distinct_fold_setProperty:
  "distinct (map fst acc) \<Longrightarrow>
   distinct (map fst (fold (\<lambda>k hs. if P k then setProperty k (g k) hs else hs) ks acc))"
  by (induction ks arbitrary: acc) (auto simp: distinct_setProperty)

lemma getProperty_map_of:
  "k \<in> fst ` set obj \<Longrightarrow> Some (getProperty obj k) = map_of obj k"
  by (auto simp: getProperty_def map_of_eq_None_iff split: option.splits)

lemma nativeAuthHeaders_authorization:
  "map_of (nativeAuthHeaders lookup keys) ''authorization'' =
     Some (getProperty lookup ''authorization'')"
  by (cases keys) (simp_all add: nativeAuthHeaders_def Let_def map_of_fold_setProperty)

lemma nativeAuthHeaders_distinct: "distinct (map fst (nativeAuthHeaders lookup keys))"
  by (cases keys) (simp_all add: nativeAuthHeaders_def Let_def distinct_fold_setProperty)

lemma nativeAuthHeaders_others:
  assumes "k \<noteq> ''authorization''"
  shows "map_of (nativeAuthHeaders lookup keys) k =
     (case keys of None \<Rightarrow> None | Some _ \<Rightarrow> map_of lookup k)"
proof (cases keys)
  case None
  with assms show ?thesis by (simp add: nativeAuthHeaders_def)
next
  case (Some ks)
  show ?thesis
  proof (cases "k \<in> fst ` set lookup")
    case True
    with assms Some show ?thesis
      by (simp add: nativeAuthHeaders_def Let_def map_of_fold_setProperty getProperty_map_of)
  next
    case False
    then have "map_of lookup k = None" by (simp add: map_of_eq_None_iff)
    with assms Some False show ?thesis
      by (simp add: nativeAuthHeaders_def Let_def map_of_fold_setProperty)
  qed
qed

subsection \<open>The example requests\<close>

lemmas example_flow_defs =
  exampleStatics_def exampleNft_def examplePaddedHex_def exampleForbidden_def exampleFetch_def
  exampleCheckStatus_def exampleParseNonce_def exampleBtoa_def exampleDescribe_def
  exampleSignable_def exampleViewDataParams_def exampleNativeAuthParams_def exampleSender_def

lemmas flow_defs =
  getMessageToSign_def viewData_def viewData_try_def viewData_request_def
  viewDataViaMVXNativeAuth_def viewDataViaMVXNativeAuth_try_def nativeAuth_request_def
  sendAccessRequest_def caught_def ensureNetworkConfigSet_def falsy_def signResultOf_def
  bufferToHex_def byteToHex_def templateString_def templateNumber_def optionalFlags_def
  forwardedHeaders_def nativeAuthHeaders_def getProperty_def joinComma_def trim_def
  removeSpaces_def isWhiteSpace_def newError_def errToString_def typeError_def
  spec_validateSpecificParamsViewData_def violations_def paramPresent_def hasBearerEntry_def


lemma example_viewData:
  "viewData (spec_validateSpecificParamsViewData exampleDescribe) examplePaddedHex exampleFetch
     exampleCheckStatus (exampleStatics chain) exampleNft exampleViewDataParams =
   ([\<lparr>url = ''https://marshal/v1/access?nonce=nonce123&NFTId=DATANFTFT-e0b917-3e&signature=ab01&chainId=''
             @ (if chain = ''D'' then ''ED'' else chain)
             @ ''&accessRequesterAddr=a1b2c3&streamInLine=1&fwdAllHeaders=1&fwdHeaderKeys=cookie'',
       fetchConfig = Some \<lparr>httpMethod = ''GET'',
         headers = Some [(''cookie'', Some ''xyz''), (''x-trace'', Some ''t1'')]\<rparr>\<rparr>],
    Inr \<lparr>blobData = None, contentType = [],
         errorMessage = Some ''Error: Response was not ok: Forbidden. Detailed error trace follows : {error: access denied}''\<rparr>)"
  by (simp add: flow_defs example_flow_defs)

lemma example_viewData_no_keys:
  "fst (viewData (spec_validateSpecificParamsViewData exampleDescribe) examplePaddedHex
          exampleFetch exampleCheckStatus (exampleStatics ''D'') exampleNft
          (exampleViewDataParams\<lparr>fwdHeaderKeys := None\<rparr>)) =
   [\<lparr>url = ''https://marshal/v1/access?nonce=nonce123&NFTId=DATANFTFT-e0b917-3e&signature=ab01&chainId=ED&accessRequesterAddr=a1b2c3&streamInLine=1&fwdAllHeaders=1'',
     fetchConfig = Some \<lparr>httpMethod = ''GET'', headers = None\<rparr>\<rparr>]"
  by (simp add: flow_defs example_flow_defs)

lemma example_nativeAuth:
  "viewDataViaMVXNativeAuth (spec_validateSpecificParamsViewData exampleDescribe) exampleBtoa
     examplePaddedHex exampleFetch exampleCheckStatus (exampleStatics chain) exampleNft
     exampleNativeAuthParams =
   ([\<lparr>url = ''https://marshal/v1/access?NFTId=DATANFTFT-e0b917-3e&chainId=''
             @ (if chain = ''D'' then ''ED'' else chain)
             @ ''&mvxNativeAuthEnable=1&mvxNativeAuthMaxExpirySeconds=300&mvxNativeAuthOrigins=aHR0cDovL2xvY2FsaG9zdA==&fwdHeaderKeys=cookie'',
       fetchConfig = Some \<lparr>httpMethod = ''GET'',
         headers = Some [(''authorization'', Some ''Bearer token''), (''cookie'', Some ''xyz'')]\<rparr>\<rparr>],
    Inr \<lparr>blobData = None, contentType = [],
         errorMessage = Some ''Error: Response was not ok: Forbidden. Detailed error trace follows : {error: access denied}''\<rparr>)"
  by (simp add: flow_defs example_flow_defs show_nat.simps)

lemma example_nativeAuth_no_keys:
  "fst (viewDataViaMVXNativeAuth (spec_validateSpecificParamsViewData exampleDescribe) exampleBtoa
     examplePaddedHex exampleFetch exampleCheckStatus (exampleStatics ''D'') exampleNft
     (exampleNativeAuthParams\<lparr>fwdHeaderKeys := None\<rparr>)) =
   [\<lparr>url = ''https://marshal/v1/access?NFTId=DATANFTFT-e0b917-3e&chainId=ED&mvxNativeAuthEnable=1&mvxNativeAuthMaxExpirySeconds=300&mvxNativeAuthOrigins=aHR0cDovL2xvY2FsaG9zdA=='',
       fetchConfig = Some \<lparr>httpMethod = ''GET'',
         headers = Some [(''authorization'', Some ''Bearer token'')]\<rparr>\<rparr>]"
  by (simp add: flow_defs example_flow_defs show_nat.simps)

lemma example_nativeAuth_no_bearer:
  "viewDataViaMVXNativeAuth (spec_validateSpecificParamsViewData exampleDescribe) exampleBtoa
     examplePaddedHex exampleFetch exampleCheckStatus (exampleStatics ''D'') exampleNft
     (exampleNativeAuthParams\<lparr>fwdHeaderMapLookup := Some [(''cookie'', Some ''xyz'')]\<rparr>) =
   ([], Inr \<lparr>blobData = None, contentType = [],
            errorMessage = Some ''params have validation issues = fwdHeaderMapLookup needs an authorization bearer entry''\<rparr>)"
  by (simp add: flow_defs example_flow_defs)

lemma example_validation:
  "allPassed (spec_validateSpecificParamsViewData exampleDescribe
      (exampleViewDataParams\<lparr>fwdHeaderKeys := keys, mvxNativeAuthOrigins := None,
         mvxNativeAuthMaxExpirySeconds := None\<rparr>)
      None [''signedMessage'', ''signableMessage''])"
  "allPassed (spec_validateSpecificParamsViewData exampleDescribe
      (exampleNativeAuthParams\<lparr>fwdHeaderKeys := keys, signedMessage := None,
         signableMessage := None\<rparr>)
      (Some True)
      [''mvxNativeAuthOrigins'', ''mvxNativeAuthMaxExpirySeconds'', ''fwdHeaderMapLookup''])"
  by (simp_all add: flow_defs example_flow_defs)

lemma example_invalid:
  "\<not> allPassed (spec_validateSpecificParamsViewData exampleDescribe
        (exampleViewDataParams\<lparr>signedMessage := None, signableMessage := None\<rparr>) (Some True)
        [''mvxNativeAuthOrigins'', ''mvxNativeAuthMaxExpirySeconds'', ''fwdHeaderMapLookup''])"
  "validationMessages (spec_validateSpecificParamsViewData exampleDescribe
        (exampleViewDataParams\<lparr>signedMessage := None, signableMessage := None\<rparr>) (Some True)
        [''mvxNativeAuthOrigins'', ''mvxNativeAuthMaxExpirySeconds'', ''fwdHeaderMapLookup''])
     = ''mvxNativeAuthOrigins is missing,mvxNativeAuthMaxExpirySeconds is missing,fwdHeaderMapLookup needs an authorization bearer entry''"
  "\<not> allPassed (spec_validateSpecificParamsViewData exampleDescribe
        (exampleNativeAuthParams\<lparr>mvxNativeAuthOrigins := None,
           mvxNativeAuthMaxExpirySeconds := None\<rparr>)
        None [''signedMessage'', ''signableMessage''])"
  "validationMessages (spec_validateSpecificParamsViewData exampleDescribe
        (exampleNativeAuthParams\<lparr>mvxNativeAuthOrigins := None,
           mvxNativeAuthMaxExpirySeconds := None\<rparr>)
        None [''signedMessage'', ''signableMessage''])
     = ''signedMessage is missing,signableMessage is missing''"
  by (simp_all add: flow_defs example_flow_defs)

lemma example_reach:
  "ensureNetworkConfigSet (exampleStatics chain) = None"
  "dataMarshal exampleNft \<noteq> []"
  "staticNetworkConfiguration (exampleStatics chain) =
     Some \<lparr>configChainID = chain,
           configNetworkProvider = ''https://devnet-api.multiversx.com''\<rparr>"
  "btoa = exampleBtoa \<Longrightarrow> btoa (removeSpaces (trim (joinComma [''http://localhost'']))) =
     Inr ''aHR0cDovL2xvY2FsaG9zdA==''"
  by (simp_all add: flow_defs example_flow_defs)

lemma example_viewData_request:
  "viewData_request examplePaddedHex
     \<lparr>configChainID = ''D'', configNetworkProvider = ''https://devnet-api.multiversx.com''\<rparr>
     exampleNft exampleViewDataParams (signResultOf (signableMessage exampleViewDataParams)) =
   \<lparr>url = ''https://marshal/v1/access?nonce=nonce123&NFTId=DATANFTFT-e0b917-3e&signature=ab01&chainId=ED&accessRequesterAddr=a1b2c3&streamInLine=1&fwdAllHeaders=1&fwdHeaderKeys=cookie'',
     fetchConfig = Some \<lparr>httpMethod = ''GET'',
       headers = Some [(''cookie'', Some ''xyz''), (''x-trace'', Some ''t1'')]\<rparr>\<rparr>"
  by (simp add: flow_defs example_flow_defs)

lemma example_nativeAuth_request:
  "nativeAuth_request examplePaddedHex
     \<lparr>configChainID = ''D'', configNetworkProvider = ''https://devnet-api.multiversx.com''\<rparr>
     exampleNft exampleNativeAuthParams ''aHR0cDovL2xvY2FsaG9zdA=='' =
   \<lparr>url = ''https://marshal/v1/access?NFTId=DATANFTFT-e0b917-3e&chainId=ED&mvxNativeAuthEnable=1&mvxNativeAuthMaxExpirySeconds=300&mvxNativeAuthOrigins=aHR0cDovL2xvY2FsaG9zdA==&fwdHeaderKeys=cookie'',
     fetchConfig = Some \<lparr>httpMethod = ''GET'',
       headers = Some [(''authorization'', Some ''Bearer token''), (''cookie'', Some ''xyz'')]\<rparr>\<rparr>"
  by (simp add: flow_defs example_flow_defs show_nat.simps)

subsection \<open>The Data Marshal\<close>



text \<open>
  C6. In the signature-based flow, when \<open>viewData\<close> reaches the marshal (the network
  configuration and the \<open>dataMarshal\<close> attribute are set and the validation passes): with
  \<open>fwdHeaderKeys\<close> given and a non-empty header lookup map, the headers of the request are
  exactly the entries of the lookup map and nothing else, whatever \<open>fwdAllHeaders\<close> is (so
  also when it is set); with \<open>fwdHeaderKeys\<close> absent the request carries no headers,
  whatever \<open>fwdAllHeaders\<close> and the lookup map are.
\<close>

theorem viewData_forwarded_headers:
  "ensureNetworkConfigSet statics = None \<and> dataMarshal this \<noteq> []
   \<and> allPassed (validate
         (p\<lparr>mvxNativeAuthOrigins := None, mvxNativeAuthMaxExpirySeconds := None\<rparr>)
         None [''signedMessage'', ''signableMessage''])
   \<and> staticNetworkConfiguration statics = Some config
   \<longrightarrow> (fwdHeaderKeys p = Some keys \<and> fwdHeaderMapLookup p = Some lookup \<and> lookup \<noteq> []
         \<and> distinct (map fst lookup)
        \<longrightarrow> (\<exists>address. fst (viewData validate pad fetch checkStatus statics this p) =
               [\<lparr>url = address,
                 fetchConfig = Some \<lparr>httpMethod = ''GET'', headers = Some lookup\<rparr>\<rparr>]))
     \<and> (fwdHeaderKeys p = None
        \<longrightarrow> (\<exists>address. fst (viewData validate pad fetch checkStatus statics this p) =
               [\<lparr>url = address,
                 fetchConfig = Some \<lparr>httpMethod = ''GET'', headers = None\<rparr>\<rparr>]))"
proof (intro impI conjI)
  assume reach: "ensureNetworkConfigSet statics = None \<and> dataMarshal this \<noteq> []
   \<and> allPassed (validate
         (p\<lparr>mvxNativeAuthOrigins := None, mvxNativeAuthMaxExpirySeconds := None\<rparr>)
         None [''signedMessage'', ''signableMessage''])
   \<and> staticNetworkConfiguration statics = Some config"
  let ?request = "viewData_request pad config this p (signResultOf (signableMessage p))"
  have sent: "fst (viewData validate pad fetch checkStatus statics this p) = [?request]"
    using reach viewData_reached [of statics this validate p config pad fetch checkStatus]
    by (simp add: fst_caught fst_sendAccessRequest)
  have request: "?request = \<lparr>url = url ?request, fetchConfig = fetchConfig ?request\<rparr>"
    by simp
  {
    assume "fwdHeaderKeys p = Some keys \<and> fwdHeaderMapLookup p = Some lookup \<and> lookup \<noteq> []
         \<and> distinct (map fst lookup)"
    then have "fetchConfig ?request = Some \<lparr>httpMethod = ''GET'', headers = Some lookup\<rparr>"
      by (simp add: viewData_request_headers forwardedHeaders_distinct)
    with sent request
    show "\<exists>address. fst (viewData validate pad fetch checkStatus statics this p) =
               [\<lparr>url = address,
                 fetchConfig = Some \<lparr>httpMethod = ''GET'', headers = Some lookup\<rparr>\<rparr>]"
      by metis
  }
  {
    assume "fwdHeaderKeys p = None"
    then have "fetchConfig ?request = Some \<lparr>httpMethod = ''GET'', headers = None\<rparr>"
      by (simp add: viewData_request_headers)
    with sent request
    show "\<exists>address. fst (viewData validate pad fetch checkStatus statics this p) =
               [\<lparr>url = address,
                 fetchConfig = Some \<lparr>httpMethod = ''GET'', headers = None\<rparr>\<rparr>]"
      by metis
  }
qed

theorem viewData_forwarded_headers_witness:
  "fst (viewData (spec_validateSpecificParamsViewData exampleDescribe) examplePaddedHex
          exampleFetch exampleCheckStatus (exampleStatics ''D'') exampleNft
          exampleViewDataParams) =
     [\<lparr>url = ''https://marshal/v1/access?nonce=nonce123&NFTId=DATANFTFT-e0b917-3e&signature=ab01&chainId=ED&accessRequesterAddr=a1b2c3&streamInLine=1&fwdAllHeaders=1&fwdHeaderKeys=cookie'',
       fetchConfig = Some \<lparr>httpMethod = ''GET'',
         headers = Some [(''cookie'', Some ''xyz''), (''x-trace'', Some ''t1'')]\<rparr>\<rparr>]
   \<and> fst (viewData (spec_validateSpecificParamsViewData exampleDescribe) examplePaddedHex
          exampleFetch exampleCheckStatus (exampleStatics ''D'') exampleNft
          (exampleViewDataParams\<lparr>fwdHeaderKeys := None\<rparr>)) =
     [\<lparr>url = ''https://marshal/v1/access?nonce=nonce123&NFTId=DATANFTFT-e0b917-3e&signature=ab01&chainId=ED&accessRequesterAddr=a1b2c3&streamInLine=1&fwdAllHeaders=1'',
       fetchConfig = Some \<lparr>httpMethod = ''GET'', headers = None\<rparr>\<rparr>]"
proof -
  let ?validate = "spec_validateSpecificParamsViewData exampleDescribe"
  let ?lookup = "[(''cookie'', Some ''xyz''), (''x-trace'', Some ''t1'')]"
  have reach: "ensureNetworkConfigSet (exampleStatics ''D'') = None \<and> dataMarshal exampleNft \<noteq> []
     \<and> allPassed (?validate
          (exampleViewDataParams\<lparr>mvxNativeAuthOrigins := None,
             mvxNativeAuthMaxExpirySeconds := None\<rparr>)
          None [''signedMessage'', ''signableMessage''])
     \<and> staticNetworkConfiguration (exampleStatics ''D'') =
          Some \<lparr>configChainID = ''D'',
                configNetworkProvider = ''https://devnet-api.multiversx.com''\<rparr>"
    using example_validation(1) [of "Some ''cookie''"]
    by (simp add: example_reach exampleViewDataParams_def)
  have reach': "ensureNetworkConfigSet (exampleStatics ''D'') = None \<and> dataMarshal exampleNft \<noteq> []
     \<and> allPassed (?validate
          (exampleViewDataParams\<lparr>fwdHeaderKeys := None, mvxNativeAuthOrigins := None,
             mvxNativeAuthMaxExpirySeconds := None\<rparr>)
          None [''signedMessage'', ''signableMessage''])
     \<and> staticNetworkConfiguration (exampleStatics ''D'') =
          Some \<lparr>configChainID = ''D'',
                configNetworkProvider = ''https://devnet-api.multiversx.com''\<rparr>"
    using example_validation(1) [of None] by (simp add: example_reach)
  have keyed: "fwdHeaderKeys exampleViewDataParams = Some ''cookie''
     \<and> fwdHeaderMapLookup exampleViewDataParams = Some ?lookup \<and> ?lookup \<noteq> []
     \<and> distinct (map fst ?lookup)"
    by (simp add: exampleViewDataParams_def)
  have unkeyed: "fwdHeaderKeys (exampleViewDataParams\<lparr>fwdHeaderKeys := None\<rparr>) = None"
    by simp
  show ?thesis
    using viewData_forwarded_headers [where validate = ?validate and pad = examplePaddedHex
        and fetch = exampleFetch and checkStatus = exampleCheckStatus
        and statics = "exampleStatics ''D''" and this = exampleNft
        and p = exampleViewDataParams and keys = "''cookie''" and lookup = ?lookup,
        THEN mp, OF reach, THEN conjunct1, THEN mp, OF keyed]
      viewData_forwarded_headers [where validate = ?validate and pad = examplePaddedHex
        and fetch = exampleFetch and checkStatus = exampleCheckStatus
        and statics = "exampleStatics ''D''" and this = exampleNft
        and p = "exampleViewDataParams\<lparr>fwdHeaderKeys := None\<rparr>",
        THEN mp, OF reach', THEN conjunct2, THEN mp, OF unkeyed]
      example_viewData [of "''D''"] example_viewData_no_keys
    by simp
qed

text \<open>
  C7. In both access flows, when the marshal answers with a failing HTTP status
  (\<open>checkStatus\<close> throws \<open>e\<close>) and a body that reads as \<open>body\<close>, the call returns the
  outcome \<open>{data: undefined, contentType: '', error}\<close> whose error is the text of \<open>e\<close>,
  then \<open>. Detailed error trace follows : \<close>, then the body: the failure is returned, not
  raised.
\<close>

theorem marshal_failure_outcome:
  "(ensureNetworkConfigSet statics = None \<and> dataMarshal this \<noteq> []
    \<and> allPassed (validate
          (p\<lparr>mvxNativeAuthOrigins := None, mvxNativeAuthMaxExpirySeconds := None\<rparr>)
          None [''signedMessage'', ''signableMessage''])
    \<and> staticNetworkConfiguration statics = Some config
    \<and> fetch (viewData_request pad config this p (signResultOf (signableMessage p))) = Inr response
    \<and> responseBody response = Inr body
    \<and> checkStatus response = Some e
    \<longrightarrow> snd (viewData validate pad fetch checkStatus statics this p) =
          Inr \<lparr>blobData = None, contentType = [],
               errorMessage =
                 Some (errToString e @ ''. Detailed error trace follows : '' @ body)\<rparr>)
   \<and> (allPassed (validate (p\<lparr>signedMessage := None, signableMessage := None\<rparr>) (Some True)
          [''mvxNativeAuthOrigins'', ''mvxNativeAuthMaxExpirySeconds'', ''fwdHeaderMapLookup''])
    \<and> mvxNativeAuthOrigins p = Some origins
    \<and> btoa (removeSpaces (trim (joinComma origins))) = Inr encodedOrigins
    \<and> staticNetworkConfiguration statics = Some config
    \<and> fetch (nativeAuth_request pad config this p encodedOrigins) = Inr response
    \<and> responseBody response = Inr body
    \<and> checkStatus response = Some e
    \<longrightarrow> snd (viewDataViaMVXNativeAuth validate btoa pad fetch checkStatus statics this p) =
          Inr \<lparr>blobData = None, contentType = [],
               errorMessage =
                 Some (errToString e @ ''. Detailed error trace follows : '' @ body)\<rparr>)"
  using viewData_reached [of statics this validate p config pad fetch checkStatus]
    nativeAuth_reached [of validate p origins btoa encodedOrigins statics config pad fetch checkStatus this]
    sendAccessRequest_failure [of fetch _ response body checkStatus e]
  by auto

theorem marshal_failure_outcome_witness:
  "snd (viewData (spec_validateSpecificParamsViewData exampleDescribe) examplePaddedHex
          exampleFetch exampleCheckStatus (exampleStatics ''D'') exampleNft
          exampleViewDataParams) =
     Inr \<lparr>blobData = None, contentType = [],
          errorMessage = Some ''Error: Response was not ok: Forbidden. Detailed error trace follows : {error: access denied}''\<rparr>
   \<and> snd (viewDataViaMVXNativeAuth (spec_validateSpecificParamsViewData exampleDescribe)
          exampleBtoa examplePaddedHex exampleFetch exampleCheckStatus (exampleStatics ''D'')
          exampleNft exampleNativeAuthParams) =
     Inr \<lparr>blobData = None, contentType = [],
          errorMessage = Some ''Error: Response was not ok: Forbidden. Detailed error trace follows : {error: access denied}''\<rparr>"
proof -
  let ?validate = "spec_validateSpecificParamsViewData exampleDescribe"
  let ?config = "\<lparr>configChainID = ''D'',
                  configNetworkProvider = ''https://devnet-api.multiversx.com''\<rparr>"
  let ?e = "\<lparr>errName = ''Error'', errMessage = ''Response was not ok: Forbidden''\<rparr>"
  have failing: "exampleFetch request = Inr exampleForbidden"
    "responseBody exampleForbidden = Inr ''{error: access denied}''"
    "exampleCheckStatus exampleForbidden = Some ?e" for request
    by (simp_all add: exampleFetch_def exampleForbidden_def exampleCheckStatus_def)
  have signature: "ensureNetworkConfigSet (exampleStatics ''D'') = None
    \<and> dataMarshal exampleNft \<noteq> []
    \<and> allPassed (?validate
          (exampleViewDataParams\<lparr>mvxNativeAuthOrigins := None,
             mvxNativeAuthMaxExpirySeconds := None\<rparr>)
          None [''signedMessage'', ''signableMessage''])
    \<and> staticNetworkConfiguration (exampleStatics ''D'') = Some ?config
    \<and> exampleFetch (viewData_request examplePaddedHex ?config exampleNft exampleViewDataParams
          (signResultOf (signableMessage exampleViewDataParams))) = Inr exampleForbidden
    \<and> responseBody exampleForbidden = Inr ''{error: access denied}''
    \<and> exampleCheckStatus exampleForbidden = Some ?e"
    using example_validation(1) [of "Some ''cookie''"]
    by (simp add: example_reach failing exampleViewDataParams_def)
  have native: "allPassed (?validate
          (exampleNativeAuthParams\<lparr>signedMessage := None, signableMessage := None\<rparr>)
          (Some True)
          [''mvxNativeAuthOrigins'', ''mvxNativeAuthMaxExpirySeconds'', ''fwdHeaderMapLookup''])
    \<and> mvxNativeAuthOrigins exampleNativeAuthParams = Some [''http://localhost'']
    \<and> exampleBtoa (removeSpaces (trim (joinComma [''http://localhost''])))
        = Inr ''aHR0cDovL2xvY2FsaG9zdA==''
    \<and> staticNetworkConfiguration (exampleStatics ''D'') = Some ?config
    \<and> exampleFetch (nativeAuth_request examplePaddedHex ?config exampleNft
          exampleNativeAuthParams ''aHR0cDovL2xvY2FsaG9zdA=='') = Inr exampleForbidden
    \<and> responseBody exampleForbidden = Inr ''{error: access denied}''
    \<and> exampleCheckStatus exampleForbidden = Some ?e"
    using example_validation(2) [of "Some ''cookie''"]
    by (simp add: example_reach failing exampleNativeAuthParams_def)
  have message_text: "errToString ?e @ ''. Detailed error trace follows : '' @ ''{error: access denied}''
      = ''Error: Response was not ok: Forbidden. Detailed error trace follows : {error: access denied}''"
    by (simp add: errToString_def)
  show ?thesis
    using marshal_failure_outcome [where validate = ?validate and pad = examplePaddedHex
        and fetch = exampleFetch and checkStatus = exampleCheckStatus
        and statics = "exampleStatics ''D''" and this = exampleNft and config = ?config
        and p = exampleViewDataParams and response = exampleForbidden
        and body = "''{error: access denied}''" and e = ?e,
        THEN conjunct1, THEN mp, OF signature]
      marshal_failure_outcome [where validate = ?validate and pad = examplePaddedHex
        and fetch = exampleFetch and checkStatus = exampleCheckStatus
        and statics = "exampleStatics ''D''" and this = exampleNft and config = ?config
        and p = exampleNativeAuthParams and response = exampleForbidden
        and body = "''{error: access denied}''" and e = ?e and btoa = exampleBtoa
        and origins = "[''http://localhost'']" and encodedOrigins = "''aHR0cDovL2xvY2FsaG9zdA==''",
        THEN conjunct2, THEN mp, OF native]
    unfolding message_text by simp
qed

lemmas access_defs =
  viewDataViaMVXNativeAuth_def viewDataViaMVXNativeAuth_try_def viewData_def viewData_try_def
  Let_def caught_def sendAccessRequest_def newError_def

lemma nativeAuth_never_raises:
  "\<exists>outcome. snd (viewDataViaMVXNativeAuth validate btoa pad fetch checkStatus statics this p)
        = Inr outcome
      \<and> (errorMessage outcome = None
          \<or> (blobData outcome = None \<and> contentType outcome = []
              \<and> errorMessage outcome \<noteq> None))"
proof -
  let ?attempt = "viewDataViaMVXNativeAuth_try validate btoa pad fetch checkStatus statics this p"
  from caught_shape [of ?attempt] obtain outcome where
    "snd (caught ?attempt) = Inr outcome"
    "snd ?attempt = Inr outcome \<or> (blobData outcome = None \<and> contentType outcome = []
          \<and> errorMessage outcome \<noteq> None)"
    by blast
  then show ?thesis
    using nativeAuth_try_success_shape [of validate btoa pad fetch checkStatus statics this p
        outcome]
    by (auto simp: viewDataViaMVXNativeAuth_def)
qed

text \<open>
  C10. \<open>viewDataViaMVXNativeAuth\<close> never raises: for every input it returns an outcome,
  which is either a success (no error) or \<open>{data: undefined, contentType: '', error}\<close>. Every
  failure is returned as such an outcome with the message of its cause: a validation
  failure (before any request), an error thrown by \<open>btoa\<close> or by reading a missing value,
  a rejected \<open>fetch\<close>, a body that cannot be read, and a failing status (with the body's
  text); only a response that passes \<open>checkStatus\<close> gives the data and no error.
  \<open>viewData\<close> raises what it checks before its \<open>try\<close>: the unset network configuration,
  the missing \<open>dataMarshal\<close> and the validation failure, each before any request; every
  failure after the validation is returned as an outcome in the same way.
\<close>

theorem nativeAuth_returns_viewData_raises:
  "(\<exists>outcome. snd (viewDataViaMVXNativeAuth validate btoa pad fetch checkStatus statics this p)
        = Inr outcome
      \<and> (errorMessage outcome = None
          \<or> (blobData outcome = None \<and> contentType outcome = []
              \<and> errorMessage outcome \<noteq> None)))
   \<and> (\<not> allPassed (validate (p\<lparr>signedMessage := None, signableMessage := None\<rparr>) (Some True)
          [''mvxNativeAuthOrigins'', ''mvxNativeAuthMaxExpirySeconds'', ''fwdHeaderMapLookup''])
      \<longrightarrow> viewDataViaMVXNativeAuth validate btoa pad fetch checkStatus statics this p =
            ([], Inr \<lparr>blobData = None, contentType = [],
                  errorMessage = Some (''params have validation issues = ''
                       @ validationMessages
                           (validate (p\<lparr>signedMessage := None, signableMessage := None\<rparr>)
                              (Some True)
                              [''mvxNativeAuthOrigins'', ''mvxNativeAuthMaxExpirySeconds'',
                               ''fwdHeaderMapLookup'']))\<rparr>))
   \<and> (allPassed (validate (p\<lparr>signedMessage := None, signableMessage := None\<rparr>) (Some True)
          [''mvxNativeAuthOrigins'', ''mvxNativeAuthMaxExpirySeconds'', ''fwdHeaderMapLookup''])
      \<and> mvxNativeAuthOrigins p = None
      \<longrightarrow> viewDataViaMVXNativeAuth validate btoa pad fetch checkStatus statics this p =
            ([], Inr \<lparr>blobData = None, contentType = [],
                  errorMessage = Some (errMessage (typeError ''join''))\<rparr>))
   \<and> (allPassed (validate (p\<lparr>signedMessage := None, signableMessage := None\<rparr>) (Some True)
          [''mvxNativeAuthOrigins'', ''mvxNativeAuthMaxExpirySeconds'', ''fwdHeaderMapLookup''])
      \<and> mvxNativeAuthOrigins p = Some origins
      \<and> btoa (removeSpaces (trim (joinComma origins))) = Inl e
      \<longrightarrow> viewDataViaMVXNativeAuth validate btoa pad fetch checkStatus statics this p =
            ([], Inr \<lparr>blobData = None, contentType = [],
                  errorMessage = Some (errMessage e)\<rparr>))
   \<and> (allPassed (validate (p\<lparr>signedMessage := None, signableMessage := None\<rparr>) (Some True)
          [''mvxNativeAuthOrigins'', ''mvxNativeAuthMaxExpirySeconds'', ''fwdHeaderMapLookup''])
      \<and> mvxNativeAuthOrigins p = Some origins
      \<and> btoa (removeSpaces (trim (joinComma origins))) = Inr encodedOrigins
      \<and> staticNetworkConfiguration statics = None
      \<longrightarrow> viewDataViaMVXNativeAuth validate btoa pad fetch checkStatus statics this p =
            ([], Inr \<lparr>blobData = None, contentType = [],
                  errorMessage = Some (errMessage (typeError ''chainID''))\<rparr>))
   \<and> (allPassed (validate (p\<lparr>signedMessage := None, signableMessage := None\<rparr>) (Some True)
          [''mvxNativeAuthOrigins'', ''mvxNativeAuthMaxExpirySeconds'', ''fwdHeaderMapLookup''])
      \<and> mvxNativeAuthOrigins p = Some origins
      \<and> btoa (removeSpaces (trim (joinComma origins))) = Inr encodedOrigins
      \<and> staticNetworkConfiguration statics = Some config
      \<and> fetch (nativeAuth_request pad config this p encodedOrigins) = Inl e
      \<longrightarrow> viewDataViaMVXNativeAuth validate btoa pad fetch checkStatus statics this p =
            ([nativeAuth_request pad config this p encodedOrigins],
             Inr \<lparr>blobData = None, contentType = [],
                  errorMessage = Some (errMessage e)\<rparr>))
   \<and> (allPassed (validate (p\<lparr>signedMessage := None, signableMessage := None\<rparr>) (Some True)
          [''mvxNativeAuthOrigins'', ''mvxNativeAuthMaxExpirySeconds'', ''fwdHeaderMapLookup''])
      \<and> mvxNativeAuthOrigins p = Some origins
      \<and> btoa (removeSpaces (trim (joinComma origins))) = Inr encodedOrigins
      \<and> staticNetworkConfiguration statics = Some config
      \<and> fetch (nativeAuth_request pad config this p encodedOrigins) = Inr response
      \<and> responseBody response = Inl e
      \<longrightarrow> viewDataViaMVXNativeAuth validate btoa pad fetch checkStatus statics this p =
            ([nativeAuth_request pad config this p encodedOrigins],
             Inr \<lparr>blobData = None, contentType = [],
                  errorMessage = Some (errMessage e)\<rparr>))
   \<and> (allPassed (validate (p\<lparr>signedMessage := None, signableMessage := None\<rparr>) (Some True)
          [''mvxNativeAuthOrigins'', ''mvxNativeAuthMaxExpirySeconds'', ''fwdHeaderMapLookup''])
      \<and> mvxNativeAuthOrigins p = Some origins
      \<and> btoa (removeSpaces (trim (joinComma origins))) = Inr encodedOrigins
      \<and> staticNetworkConfiguration statics = Some config
      \<and> fetch (nativeAuth_request pad config this p encodedOrigins) = Inr response
      \<and> responseBody response = Inr body
      \<and> checkStatus response = Some e
      \<longrightarrow> viewDataViaMVXNativeAuth validate btoa pad fetch checkStatus statics this p =
            ([nativeAuth_request pad config this p encodedOrigins],
             Inr \<lparr>blobData = None, contentType = [],
                  errorMessage = Some (errToString e @ ''. Detailed error trace follows : '' @ body)\<rparr>))
   \<and> (allPassed (validate (p\<lparr>signedMessage := None, signableMessage := None\<rparr>) (Some True)
          [''mvxNativeAuthOrigins'', ''mvxNativeAuthMaxExpirySeconds'', ''fwdHeaderMapLookup''])
      \<and> mvxNativeAuthOrigins p = Some origins
      \<and> btoa (removeSpaces (trim (joinComma origins))) = Inr encodedOrigins
      \<and> staticNetworkConfiguration statics = Some config
      \<and> fetch (nativeAuth_request pad config this p encodedOrigins) = Inr response
      \<and> responseBody response = Inr body
      \<and> checkStatus response = None
      \<longrightarrow> viewDataViaMVXNativeAuth validate btoa pad fetch checkStatus statics this p =
            ([nativeAuth_request pad config this p encodedOrigins],
             Inr \<lparr>blobData = Some body,
                      contentType = (case responseContentType response of None \<Rightarrow> [] | Some c \<Rightarrow> c),
                      errorMessage = None\<rparr>))
   \<and> (ensureNetworkConfigSet statics = Some raised
      \<longrightarrow> viewData validate pad fetch checkStatus statics this p = ([], Inl raised))
   \<and> (ensureNetworkConfigSet statics = None \<and> dataMarshal this = []
      \<longrightarrow> viewData validate pad fetch checkStatus statics this p =
            ([], Inl (ErrAttributeNotSet ''dataMarshal'')))
   \<and> (ensureNetworkConfigSet statics = None \<and> dataMarshal this \<noteq> []
      \<and> \<not> allPassed (validate
            (p\<lparr>mvxNativeAuthOrigins := None, mvxNativeAuthMaxExpirySeconds := None\<rparr>)
            None [''signedMessage'', ''signableMessage''])
      \<longrightarrow> viewData validate pad fetch checkStatus statics this p =
            ([], Inl (Thrown (newError (''params have validation issues = ''
                       @ validationMessages
                           (validate
                              (p\<lparr>mvxNativeAuthOrigins := None,
                                 mvxNativeAuthMaxExpirySeconds := None\<rparr>)
                              None [''signedMessage'', ''signableMessage'']))))))
   \<and> (ensureNetworkConfigSet statics = None \<and> dataMarshal this \<noteq> []
      \<and> allPassed (validate
            (p\<lparr>mvxNativeAuthOrigins := None, mvxNativeAuthMaxExpirySeconds := None\<rparr>)
            None [''signedMessage'', ''signableMessage''])
      \<longrightarrow> (\<exists>outcome. snd (viewData validate pad fetch checkStatus statics this p) = Inr outcome))
   \<and> (ensureNetworkConfigSet statics = None \<and> dataMarshal this \<noteq> []
      \<and> allPassed (validate
            (p\<lparr>mvxNativeAuthOrigins := None, mvxNativeAuthMaxExpirySeconds := None\<rparr>)
            None [''signedMessage'', ''signableMessage''])
      \<and> staticNetworkConfiguration statics = None
      \<longrightarrow> viewData validate pad fetch checkStatus statics this p =
            ([], Inr \<lparr>blobData = None, contentType = [],
                  errorMessage = Some (errMessage (typeError ''chainID''))\<rparr>))
   \<and> (ensureNetworkConfigSet statics = None \<and> dataMarshal this \<noteq> []
      \<and> allPassed (validate
            (p\<lparr>mvxNativeAuthOrigins := None, mvxNativeAuthMaxExpirySeconds := None\<rparr>)
            None [''signedMessage'', ''signableMessage''])
      \<and> staticNetworkConfiguration statics = Some config
      \<and> fetch (viewData_request pad config this p (signResultOf (signableMessage p))) = Inl e
      \<longrightarrow> viewData validate pad fetch checkStatus statics this p =
            ([viewData_request pad config this p (signResultOf (signableMessage p))],
             Inr \<lparr>blobData = None, contentType = [],
                  errorMessage = Some (errMessage e)\<rparr>))
   \<and> (ensureNetworkConfigSet statics = None \<and> dataMarshal this \<noteq> []
      \<and> allPassed (validate
            (p\<lparr>mvxNativeAuthOrigins := None, mvxNativeAuthMaxExpirySeconds := None\<rparr>)
            None [''signedMessage'', ''signableMessage''])
      \<and> staticNetworkConfiguration statics = Some config
      \<and> fetch (viewData_request pad config this p (signResultOf (signableMessage p))) = Inr response
      \<and> responseBody response = Inl e
      \<longrightarrow> viewData validate pad fetch checkStatus statics this p =
            ([viewData_request pad config this p (signResultOf (signableMessage p))],
             Inr \<lparr>blobData = None, contentType = [],
                  errorMessage = Some (errMessage e)\<rparr>))
   \<and> (ensureNetworkConfigSet statics = None \<and> dataMarshal this \<noteq> []
      \<and> allPassed (validate
            (p\<lparr>mvxNativeAuthOrigins := None, mvxNativeAuthMaxExpirySeconds := None\<rparr>)
            None [''signedMessage'', ''signableMessage''])
      \<and> staticNetworkConfiguration statics = Some config
      \<and> fetch (viewData_request pad config this p (signResultOf (signableMessage p))) = Inr response
      \<and> responseBody response = Inr body
      \<and> checkStatus response = Some e
      \<longrightarrow> viewData validate pad fetch checkStatus statics this p =
            ([viewData_request pad config this p (signResultOf (signableMessage p))],
             Inr \<lparr>blobData = None, contentType = [],
                  errorMessage = Some (errToString e @ ''. Detailed error trace follows : '' @ body)\<rparr>))
   \<and> (ensureNetworkConfigSet statics = None \<and> dataMarshal this \<noteq> []
      \<and> allPassed (validate
            (p\<lparr>mvxNativeAuthOrigins := None, mvxNativeAuthMaxExpirySeconds := None\<rparr>)
            None [''signedMessage'', ''signableMessage''])
      \<and> staticNetworkConfiguration statics = Some config
      \<and> fetch (viewData_request pad config this p (signResultOf (signableMessage p))) = Inr response
      \<and> responseBody response = Inr body
      \<and> checkStatus response = None
      \<longrightarrow> viewData validate pad fetch checkStatus statics this p =
            ([viewData_request pad config this p (signResultOf (signableMessage p))],
             Inr \<lparr>blobData = Some body,
                      contentType = (case responseContentType response of None \<Rightarrow> [] | Some c \<Rightarrow> c),
                      errorMessage = None\<rparr>))"
  apply (intro conjI impI)
  subgoal by (rule nativeAuth_never_raises)
  subgoal by (simp add: access_defs)
  subgoal by (simp add: access_defs)
  subgoal by (simp add: access_defs)
  subgoal by (simp add: access_defs)
  subgoal by (simp add: access_defs)
  subgoal by (simp add: access_defs)
  subgoal by (simp add: access_defs)
  subgoal by (simp add: access_defs)
  subgoal by (simp add: access_defs)
  subgoal by (simp add: access_defs)
  subgoal by (simp add: access_defs)
  subgoal using caught_returns by (simp add: viewData_def Let_def)
  subgoal by (simp add: access_defs)
  subgoal by (simp add: access_defs)
  subgoal by (simp add: access_defs)
  subgoal by (simp add: access_defs)
  subgoal by (simp add: access_defs)
  done

theorem nativeAuth_returns_viewData_raises_witness:
  "viewDataViaMVXNativeAuth (spec_validateSpecificParamsViewData exampleDescribe) exampleBtoa
       examplePaddedHex exampleFetch exampleCheckStatus (exampleStatics ''D'') exampleNft
       exampleViewDataParams =
     ([], Inr \<lparr>blobData = None, contentType = [],
              errorMessage = Some ''params have validation issues = mvxNativeAuthOrigins is missing,mvxNativeAuthMaxExpirySeconds is missing,fwdHeaderMapLookup needs an authorization bearer entry''\<rparr>)
   \<and> viewData (spec_validateSpecificParamsViewData exampleDescribe) examplePaddedHex exampleFetch
       exampleCheckStatus (exampleStatics ''D'') exampleNft exampleNativeAuthParams =
     ([], Inl (Thrown \<lparr>errName = ''Error'',
                       errMessage = ''params have validation issues = signedMessage is missing,signableMessage is missing''\<rparr>))
   \<and> viewData (spec_validateSpecificParamsViewData exampleDescribe) examplePaddedHex exampleFetch
       exampleCheckStatus (exampleStatics ''D'') exampleNft exampleViewDataParams =
     ([\<lparr>url = ''https://marshal/v1/access?nonce=nonce123&NFTId=DATANFTFT-e0b917-3e&signature=ab01&chainId=ED&accessRequesterAddr=a1b2c3&streamInLine=1&fwdAllHeaders=1&fwdHeaderKeys=cookie'',
        fetchConfig = Some \<lparr>httpMethod = ''GET'',
          headers = Some [(''cookie'', Some ''xyz''), (''x-trace'', Some ''t1'')]\<rparr>\<rparr>],
      Inr \<lparr>blobData = None, contentType = [], errorMessage = Some ''Error: Response was not ok: Forbidden. Detailed error trace follows : {error: access denied}''\<rparr>)
   \<and> viewDataViaMVXNativeAuth (spec_validateSpecificParamsViewData exampleDescribe) exampleBtoa
       examplePaddedHex exampleFetch exampleCheckStatus (exampleStatics ''D'') exampleNft
       exampleNativeAuthParams =
     ([\<lparr>url = ''https://marshal/v1/access?NFTId=DATANFTFT-e0b917-3e&chainId=ED&mvxNativeAuthEnable=1&mvxNativeAuthMaxExpirySeconds=300&mvxNativeAuthOrigins=aHR0cDovL2xvY2FsaG9zdA==&fwdHeaderKeys=cookie'',
        fetchConfig = Some \<lparr>httpMethod = ''GET'',
          headers = Some [(''authorization'', Some ''Bearer token''), (''cookie'', Some ''xyz'')]\<rparr>\<rparr>],
      Inr \<lparr>blobData = None, contentType = [], errorMessage = Some ''Error: Response was not ok: Forbidden. Detailed error trace follows : {error: access denied}''\<rparr>)
   \<and> viewDataViaMVXNativeAuth (spec_validateSpecificParamsViewData exampleDescribe) exampleBtoa
       examplePaddedHex exampleUnreachable exampleCheckStatus (exampleStatics ''D'') exampleNft
       exampleNativeAuthParams =
     ([\<lparr>url = ''https://marshal/v1/access?NFTId=DATANFTFT-e0b917-3e&chainId=ED&mvxNativeAuthEnable=1&mvxNativeAuthMaxExpirySeconds=300&mvxNativeAuthOrigins=aHR0cDovL2xvY2FsaG9zdA==&fwdHeaderKeys=cookie'',
        fetchConfig = Some \<lparr>httpMethod = ''GET'',
          headers = Some [(''authorization'', Some ''Bearer token''), (''cookie'', Some ''xyz'')]\<rparr>\<rparr>],
      Inr \<lparr>blobData = None, contentType = [], errorMessage = Some ''fetch failed''\<rparr>)
   \<and> viewData (spec_validateSpecificParamsViewData exampleDescribe) examplePaddedHex exampleUnreachable
       exampleCheckStatus (exampleStatics ''D'') exampleNft exampleViewDataParams =
     ([\<lparr>url = ''https://marshal/v1/access?nonce=nonce123&NFTId=DATANFTFT-e0b917-3e&signature=ab01&chainId=ED&accessRequesterAddr=a1b2c3&streamInLine=1&fwdAllHeaders=1&fwdHeaderKeys=cookie'',
        fetchConfig = Some \<lparr>httpMethod = ''GET'',
          headers = Some [(''cookie'', Some ''xyz''), (''x-trace'', Some ''t1'')]\<rparr>\<rparr>],
      Inr \<lparr>blobData = None, contentType = [], errorMessage = Some ''fetch failed''\<rparr>)
   \<and> viewDataViaMVXNativeAuth (spec_validateSpecificParamsViewData exampleDescribe) exampleBtoa
       examplePaddedHex exampleServing exampleCheckStatus (exampleStatics ''D'') exampleNft
       exampleNativeAuthParams =
     ([\<lparr>url = ''https://marshal/v1/access?NFTId=DATANFTFT-e0b917-3e&chainId=ED&mvxNativeAuthEnable=1&mvxNativeAuthMaxExpirySeconds=300&mvxNativeAuthOrigins=aHR0cDovL2xvY2FsaG9zdA==&fwdHeaderKeys=cookie'',
        fetchConfig = Some \<lparr>httpMethod = ''GET'',
          headers = Some [(''authorization'', Some ''Bearer token''), (''cookie'', Some ''xyz'')]\<rparr>\<rparr>],
      Inr \<lparr>blobData = Some ''[1, 2, 3]'', contentType = ''application/json'', errorMessage = None\<rparr>)
   \<and> viewData (spec_validateSpecificParamsViewData exampleDescribe) examplePaddedHex exampleServing
       exampleCheckStatus (exampleStatics ''D'') exampleNft exampleViewDataParams =
     ([\<lparr>url = ''https://marshal/v1/access?nonce=nonce123&NFTId=DATANFTFT-e0b917-3e&signature=ab01&chainId=ED&accessRequesterAddr=a1b2c3&streamInLine=1&fwdAllHeaders=1&fwdHeaderKeys=cookie'',
        fetchConfig = Some \<lparr>httpMethod = ''GET'',
          headers = Some [(''cookie'', Some ''xyz''), (''x-trace'', Some ''t1'')]\<rparr>\<rparr>],
      Inr \<lparr>blobData = Some ''[1, 2, 3]'', contentType = ''application/json'', errorMessage = None\<rparr>)
   \<and> viewData (spec_validateSpecificParamsViewData exampleDescribe) examplePaddedHex exampleFetch
       exampleCheckStatus exampleUnconfigured exampleNft exampleViewDataParams =
     ([], Inl (ErrNetworkConfig None))
   \<and> viewDataViaMVXNativeAuth (spec_validateSpecificParamsViewData exampleDescribe) exampleBtoa
       examplePaddedHex exampleFetch exampleCheckStatus exampleUnconfigured exampleNft
       exampleNativeAuthParams =
     ([], Inr \<lparr>blobData = None, contentType = [], errorMessage = Some (errMessage (typeError ''chainID''))\<rparr>)"
proof -
  let ?validate = "spec_validateSpecificParamsViewData exampleDescribe"
  let ?config = "\<lparr>configChainID = ''D'',
                  configNetworkProvider = ''https://devnet-api.multiversx.com''\<rparr>"
  let ?e = "\<lparr>errName = ''Error'', errMessage = ''Response was not ok: Forbidden''\<rparr>"
  let ?rejection = "\<lparr>errName = ''TypeError'', errMessage = ''fetch failed''\<rparr>"
  note inst = nativeAuth_returns_viewData_raises [where validate = ?validate and btoa = exampleBtoa and pad = examplePaddedHex
      and checkStatus = exampleCheckStatus and this = exampleNft]
  have raises: "ensureNetworkConfigSet (exampleStatics ''D'') = None
      \<and> dataMarshal exampleNft \<noteq> []
      \<and> \<not> allPassed (?validate
            (exampleNativeAuthParams\<lparr>mvxNativeAuthOrigins := None,
               mvxNativeAuthMaxExpirySeconds := None\<rparr>)
            None [''signedMessage'', ''signableMessage''])"
    by (simp add: example_reach example_invalid)
  have unset: "ensureNetworkConfigSet exampleUnconfigured = Some (ErrNetworkConfig None)"
    by (simp add: ensureNetworkConfigSet_def falsy_def exampleUnconfigured_def)
  have n_unset: "allPassed (?validate
          (exampleNativeAuthParams\<lparr>signedMessage := None, signableMessage := None\<rparr>)
          (Some True)
          [''mvxNativeAuthOrigins'', ''mvxNativeAuthMaxExpirySeconds'', ''fwdHeaderMapLookup''])
    \<and> mvxNativeAuthOrigins exampleNativeAuthParams = Some [''http://localhost'']
    \<and> exampleBtoa (removeSpaces (trim (joinComma [''http://localhost''])))
        = Inr ''aHR0cDovL2xvY2FsaG9zdA==''
    \<and> staticNetworkConfiguration exampleUnconfigured = None"
    using example_validation(2) [of "Some ''cookie''"]
    by (simp add: example_reach exampleNativeAuthParams_def exampleUnconfigured_def)
  have n_failing: "allPassed (?validate
          (exampleNativeAuthParams\<lparr>signedMessage := None, signableMessage := None\<rparr>)
          (Some True)
          [''mvxNativeAuthOrigins'', ''mvxNativeAuthMaxExpirySeconds'', ''fwdHeaderMapLookup''])
    \<and> mvxNativeAuthOrigins exampleNativeAuthParams = Some [''http://localhost'']
    \<and> exampleBtoa (removeSpaces (trim (joinComma [''http://localhost''])))
        = Inr ''aHR0cDovL2xvY2FsaG9zdA==''
    \<and> staticNetworkConfiguration (exampleStatics ''D'') = Some ?config
    \<and> exampleFetch (nativeAuth_request examplePaddedHex ?config exampleNft
          exampleNativeAuthParams ''aHR0cDovL2xvY2FsaG9zdA=='') = Inr exampleForbidden
    \<and> responseBody exampleForbidden = Inr ''{error: access denied}''
    \<and> exampleCheckStatus exampleForbidden = Some ?e"
    using example_validation(1) [of "Some ''cookie''"] example_validation(2) [of "Some ''cookie''"]
    by (simp add: example_reach exampleViewDataParams_def exampleNativeAuthParams_def
        exampleFetch_def exampleUnreachable_def exampleServing_def exampleForbidden_def
        exampleData_def exampleCheckStatus_def)
  have n_rejected: "allPassed (?validate
          (exampleNativeAuthParams\<lparr>signedMessage := None, signableMessage := None\<rparr>)
          (Some True)
          [''mvxNativeAuthOrigins'', ''mvxNativeAuthMaxExpirySeconds'', ''fwdHeaderMapLookup''])
    \<and> mvxNativeAuthOrigins exampleNativeAuthParams = Some [''http://localhost'']
    \<and> exampleBtoa (removeSpaces (trim (joinComma [''http://localhost''])))
        = Inr ''aHR0cDovL2xvY2FsaG9zdA==''
    \<and> staticNetworkConfiguration (exampleStatics ''D'') = Some ?config
    \<and> exampleUnreachable (nativeAuth_request examplePaddedHex ?config exampleNft
          exampleNativeAuthParams ''aHR0cDovL2xvY2FsaG9zdA=='') = Inl ?rejection"
    using example_validation(1) [of "Some ''cookie''"] example_validation(2) [of "Some ''cookie''"]
    by (simp add: example_reach exampleViewDataParams_def exampleNativeAuthParams_def
        exampleFetch_def exampleUnreachable_def exampleServing_def exampleForbidden_def
        exampleData_def exampleCheckStatus_def)
  have n_served: "allPassed (?validate
          (exampleNativeAuthParams\<lparr>signedMessage := None, signableMessage := None\<rparr>)
          (Some True)
          [''mvxNativeAuthOrigins'', ''mvxNativeAuthMaxExpirySeconds'', ''fwdHeaderMapLookup''])
    \<and> mvxNativeAuthOrigins exampleNativeAuthParams = Some [''http://localhost'']
    \<and> exampleBtoa (removeSpaces (trim (joinComma [''http://localhost''])))
        = Inr ''aHR0cDovL2xvY2FsaG9zdA==''
    \<and> staticNetworkConfiguration (exampleStatics ''D'') = Some ?config
    \<and> exampleServing (nativeAuth_request examplePaddedHex ?config exampleNft
          exampleNativeAuthParams ''aHR0cDovL2xvY2FsaG9zdA=='') = Inr exampleData
    \<and> responseBody exampleData = Inr ''[1, 2, 3]''
    \<and> exampleCheckStatus exampleData = None"
    using example_validation(1) [of "Some ''cookie''"] example_validation(2) [of "Some ''cookie''"]
    by (simp add: example_reach exampleViewDataParams_def exampleNativeAuthParams_def
        exampleFetch_def exampleUnreachable_def exampleServing_def exampleForbidden_def
        exampleData_def exampleCheckStatus_def)
  have d_failing: "ensureNetworkConfigSet (exampleStatics ''D'') = None
    \<and> dataMarshal exampleNft \<noteq> []
    \<and> allPassed (?validate
          (exampleViewDataParams\<lparr>mvxNativeAuthOrigins := None,
             mvxNativeAuthMaxExpirySeconds := None\<rparr>)
          None [''signedMessage'', ''signableMessage''])
    \<and> staticNetworkConfiguration (exampleStatics ''D'') = Some ?config
    \<and> exampleFetch (viewData_request examplePaddedHex ?config exampleNft exampleViewDataParams
          (signResultOf (signableMessage exampleViewDataParams))) = Inr exampleForbidden
    \<and> responseBody exampleForbidden = Inr ''{error: access denied}''
    \<and> exampleCheckStatus exampleForbidden = Some ?e"
    using example_validation(1) [of "Some ''cookie''"] example_validation(2) [of "Some ''cookie''"]
    by (simp add: example_reach exampleViewDataParams_def exampleNativeAuthParams_def
        exampleFetch_def exampleUnreachable_def exampleServing_def exampleForbidden_def
        exampleData_def exampleCheckStatus_def)
  have d_rejected: "ensureNetworkConfigSet (exampleStatics ''D'') = None
    \<and> dataMarshal exampleNft \<noteq> []
    \<and> allPassed (?validate
          (exampleViewDataParams\<lparr>mvxNativeAuthOrigins := None,
             mvxNativeAuthMaxExpirySeconds := None\<rparr>)
          None [''signedMessage'', ''signableMessage''])
    \<and> staticNetworkConfiguration (exampleStatics ''D'') = Some ?config
    \<and> exampleUnreachable (viewData_request examplePaddedHex ?config exampleNft exampleViewDataParams
          (signResultOf (signableMessage exampleViewDataParams))) = Inl ?rejection"
    using example_validation(1) [of "Some ''cookie''"] example_validation(2) [of "Some ''cookie''"]
    by (simp add: example_reach exampleViewDataParams_def exampleNativeAuthParams_def
        exampleFetch_def exampleUnreachable_def exampleServing_def exampleForbidden_def
        exampleData_def exampleCheckStatus_def)
  have d_served: "ensureNetworkConfigSet (exampleStatics ''D'') = None
    \<and> dataMarshal exampleNft \<noteq> []
    \<and> allPassed (?validate
          (exampleViewDataParams\<lparr>mvxNativeAuthOrigins := None,
             mvxNativeAuthMaxExpirySeconds := None\<rparr>)
          None [''signedMessage'', ''signableMessage''])
    \<and> staticNetworkConfiguration (exampleStatics ''D'') = Some ?config
    \<and> exampleServing (viewData_request examplePaddedHex ?config exampleNft exampleViewDataParams
          (signResultOf (signableMessage exampleViewDataParams))) = Inr exampleData
    \<and> responseBody exampleData = Inr ''[1, 2, 3]''
    \<and> exampleCheckStatus exampleData = None"
    using example_validation(1) [of "Some ''cookie''"] example_validation(2) [of "Some ''cookie''"]
    by (simp add: example_reach exampleViewDataParams_def exampleNativeAuthParams_def
        exampleFetch_def exampleUnreachable_def exampleServing_def exampleForbidden_def
        exampleData_def exampleCheckStatus_def)
  have message_text: "errToString ?e @ ''. Detailed error trace follows : '' @ ''{error: access denied}''
      = ''Error: Response was not ok: Forbidden. Detailed error trace follows : {error: access denied}''"
    by (simp add: errToString_def)
  have content: "responseContentType exampleData = Some ''application/json''"
    by (simp add: exampleData_def)
  show ?thesis
    using
      inst [where p = exampleViewDataParams and fetch = exampleFetch and statics = "exampleStatics ''D''",
        THEN conjunct2, THEN conjunct1, THEN mp, OF example_invalid(1)]
      inst [where p = exampleNativeAuthParams and fetch = exampleFetch and statics = "exampleStatics ''D''",
        THEN conjunct2, THEN conjunct2, THEN conjunct2, THEN conjunct2, THEN conjunct2, THEN conjunct2, THEN conjunct2, THEN conjunct2, THEN conjunct2, THEN conjunct2, THEN conjunct2, THEN conjunct1, THEN mp, OF raises]
      inst [where p = exampleViewDataParams and fetch = exampleFetch and statics = "exampleStatics ''D''" and config = ?config and origins = "[''http://localhost'']"
        and encodedOrigins = "''aHR0cDovL2xvY2FsaG9zdA==''" and response = exampleForbidden and body = "''{error: access denied}''" and e = ?e,
        THEN conjunct2, THEN conjunct2, THEN conjunct2, THEN conjunct2, THEN conjunct2, THEN conjunct2, THEN conjunct2, THEN conjunct2, THEN conjunct2, THEN conjunct2, THEN conjunct2, THEN conjunct2, THEN conjunct2, THEN conjunct2, THEN conjunct2, THEN conjunct2, THEN conjunct1, THEN mp, OF d_failing]
      inst [where p = exampleNativeAuthParams and fetch = exampleFetch and statics = "exampleStatics ''D''" and config = ?config and origins = "[''http://localhost'']"
        and encodedOrigins = "''aHR0cDovL2xvY2FsaG9zdA==''" and response = exampleForbidden and body = "''{error: access denied}''" and e = ?e,
        THEN conjunct2, THEN conjunct2, THEN conjunct2, THEN conjunct2, THEN conjunct2, THEN conjunct2, THEN conjunct2, THEN conjunct1, THEN mp, OF n_failing]
      inst [where p = exampleNativeAuthParams and fetch = exampleUnreachable and statics = "exampleStatics ''D''" and config = ?config and origins = "[''http://localhost'']"
        and encodedOrigins = "''aHR0cDovL2xvY2FsaG9zdA==''" and e = ?rejection,
        THEN conjunct2, THEN conjunct2, THEN conjunct2, THEN conjunct2, THEN conjunct2, THEN conjunct1, THEN mp, OF n_rejected]
      inst [where p = exampleViewDataParams and fetch = exampleUnreachable and statics = "exampleStatics ''D''" and config = ?config and origins = "[''http://localhost'']"
        and encodedOrigins = "''aHR0cDovL2xvY2FsaG9zdA==''" and e = ?rejection,
        THEN conjunct2, THEN conjunct2, THEN conjunct2, THEN conjunct2, THEN conjunct2, THEN conjunct2, THEN conjunct2, THEN conjunct2, THEN conjunct2, THEN conjunct2, THEN conjunct2, THEN conjunct2, THEN conjunct2, THEN conjunct2, THEN conjunct1, THEN mp, OF d_rejected]
      inst [where p = exampleNativeAuthParams and fetch = exampleServing and statics = "exampleStatics ''D''" and config = ?config and origins = "[''http://localhost'']"
        and encodedOrigins = "''aHR0cDovL2xvY2FsaG9zdA==''" and response = exampleData and body = "''[1, 2, 3]''",
        THEN conjunct2, THEN conjunct2, THEN conjunct2, THEN conjunct2, THEN conjunct2, THEN conjunct2, THEN conjunct2, THEN conjunct2, THEN conjunct1, THEN mp, OF n_served]
      inst [where p = exampleViewDataParams and fetch = exampleServing and statics = "exampleStatics ''D''" and config = ?config and origins = "[''http://localhost'']"
        and encodedOrigins = "''aHR0cDovL2xvY2FsaG9zdA==''" and response = exampleData and body = "''[1, 2, 3]''",
        THEN conjunct2, THEN conjunct2, THEN conjunct2, THEN conjunct2, THEN conjunct2, THEN conjunct2, THEN conjunct2, THEN conjunct2, THEN conjunct2, THEN conjunct2, THEN conjunct2, THEN conjunct2, THEN conjunct2, THEN conjunct2, THEN conjunct2, THEN conjunct2, THEN conjunct2, THEN mp, OF d_served]
      inst [where p = exampleViewDataParams and fetch = exampleFetch and statics = exampleUnconfigured and raised = "ErrNetworkConfig None",
        THEN conjunct2, THEN conjunct2, THEN conjunct2, THEN conjunct2, THEN conjunct2, THEN conjunct2, THEN conjunct2, THEN conjunct2, THEN conjunct2, THEN conjunct1, THEN mp, OF unset]
      inst [where p = exampleNativeAuthParams and fetch = exampleFetch and statics = exampleUnconfigured and origins = "[''http://localhost'']"
        and encodedOrigins = "''aHR0cDovL2xvY2FsaG9zdA==''",
        THEN conjunct2, THEN conjunct2, THEN conjunct2, THEN conjunct2, THEN conjunct1, THEN mp, OF n_unset]
    unfolding message_text
    by (simp add: example_invalid newError_def content example_nativeAuth_request
        example_viewData_request)
qed

text \<open>
  C5. In the native-auth flow, when the request is sent with a non-empty header lookup map,
  its headers hold \<open>authorization\<close> with the value the map gives it, exactly once (no key is
  attached twice), and every other key of the map is attached exactly when \<open>fwdHeaderKeys\<close>
  is supplied. With the validation of the specification, an input whose lookup map
  has no \<open>authorization\<close> bearer entry fails validation: no request is sent and the failure
  is the returned outcome.
\<close>

theorem nativeAuth_headers:
  "(allPassed (validate (p\<lparr>signedMessage := None, signableMessage := None\<rparr>) (Some True)
       [''mvxNativeAuthOrigins'', ''mvxNativeAuthMaxExpirySeconds'', ''fwdHeaderMapLookup''])
    \<and> mvxNativeAuthOrigins p = Some origins
    \<and> btoa (removeSpaces (trim (joinComma origins))) = Inr encodedOrigins
    \<and> staticNetworkConfiguration statics = Some config
    \<and> fwdHeaderMapLookup p = Some lookup \<and> lookup \<noteq> []
    \<longrightarrow> (\<exists>address hs.
          fst (viewDataViaMVXNativeAuth validate btoa pad fetch checkStatus statics this p) =
            [\<lparr>url = address, fetchConfig = Some \<lparr>httpMethod = ''GET'', headers = Some hs\<rparr>\<rparr>]
          \<and> map_of hs ''authorization'' = Some (getProperty lookup ''authorization'')
          \<and> distinct (map fst hs)
          \<and> (\<forall>k. k \<noteq> ''authorization'' \<longrightarrow>
                map_of hs k = (case fwdHeaderKeys p of None \<Rightarrow> None | Some keys \<Rightarrow> map_of lookup k))))
   \<and> (\<not> hasBearerEntry (fwdHeaderMapLookup p)
      \<longrightarrow> viewDataViaMVXNativeAuth (spec_validateSpecificParamsViewData describe) btoa pad
            fetch checkStatus statics this p =
          ([], Inr \<lparr>blobData = None, contentType = [],
                 errorMessage = Some (''params have validation issues = ''
                   @ validationMessages (spec_validateSpecificParamsViewData describe
                       (p\<lparr>signedMessage := None, signableMessage := None\<rparr>) (Some True)
                       [''mvxNativeAuthOrigins'', ''mvxNativeAuthMaxExpirySeconds'',
                        ''fwdHeaderMapLookup'']))\<rparr>))"
proof (intro conjI impI)
  assume reach: "allPassed (validate (p\<lparr>signedMessage := None, signableMessage := None\<rparr>) (Some True)
       [''mvxNativeAuthOrigins'', ''mvxNativeAuthMaxExpirySeconds'', ''fwdHeaderMapLookup''])
    \<and> mvxNativeAuthOrigins p = Some origins
    \<and> btoa (removeSpaces (trim (joinComma origins))) = Inr encodedOrigins
    \<and> staticNetworkConfiguration statics = Some config
    \<and> fwdHeaderMapLookup p = Some lookup \<and> lookup \<noteq> []"
  let ?request = "nativeAuth_request pad config this p encodedOrigins"
  let ?hs = "nativeAuthHeaders lookup (fwdHeaderKeys p)"
  have "fst (viewDataViaMVXNativeAuth validate btoa pad fetch checkStatus statics this p)
      = [?request]"
    using reach
      nativeAuth_reached [of validate p origins btoa encodedOrigins statics config pad fetch checkStatus this]
    by (simp add: fst_caught fst_sendAccessRequest)
  moreover have "?request = \<lparr>url = url ?request, fetchConfig = fetchConfig ?request\<rparr>"
    by simp
  moreover have "fetchConfig ?request = Some \<lparr>httpMethod = ''GET'', headers = Some ?hs\<rparr>"
    using reach by (simp add: nativeAuth_request_headers)
  ultimately have sent:
    "fst (viewDataViaMVXNativeAuth validate btoa pad fetch checkStatus statics this p) =
       [\<lparr>url = url ?request, fetchConfig = Some \<lparr>httpMethod = ''GET'', headers = Some ?hs\<rparr>\<rparr>]"
    by simp
  have "\<forall>k. k \<noteq> ''authorization'' \<longrightarrow>
      map_of ?hs k = (case fwdHeaderKeys p of None \<Rightarrow> None | Some keys \<Rightarrow> map_of lookup k)"
    by (simp add: nativeAuthHeaders_others)
  with sent nativeAuthHeaders_authorization [of lookup "fwdHeaderKeys p"]
    nativeAuthHeaders_distinct [of lookup "fwdHeaderKeys p"]
  show "\<exists>address hs.
          fst (viewDataViaMVXNativeAuth validate btoa pad fetch checkStatus statics this p) =
            [\<lparr>url = address, fetchConfig = Some \<lparr>httpMethod = ''GET'', headers = Some hs\<rparr>\<rparr>]
          \<and> map_of hs ''authorization'' = Some (getProperty lookup ''authorization'')
          \<and> distinct (map fst hs)
          \<and> (\<forall>k. k \<noteq> ''authorization'' \<longrightarrow>
                map_of hs k = (case fwdHeaderKeys p of None \<Rightarrow> None | Some keys \<Rightarrow> map_of lookup k))"
    by blast
next
  assume "\<not> hasBearerEntry (fwdHeaderMapLookup p)"
  then show "viewDataViaMVXNativeAuth (spec_validateSpecificParamsViewData describe) btoa pad
            fetch checkStatus statics this p =
          ([], Inr \<lparr>blobData = None, contentType = [],
                 errorMessage = Some (''params have validation issues = ''
                   @ validationMessages (spec_validateSpecificParamsViewData describe
                       (p\<lparr>signedMessage := None, signableMessage := None\<rparr>) (Some True)
                       [''mvxNativeAuthOrigins'', ''mvxNativeAuthMaxExpirySeconds'',
                        ''fwdHeaderMapLookup'']))\<rparr>)"
    using spec_validation_needs_bearer [of p describe]
    by (simp add: viewDataViaMVXNativeAuth_def viewDataViaMVXNativeAuth_try_def Let_def
        caught_def newError_def)
qed

theorem nativeAuth_headers_witness:
  "fst (viewDataViaMVXNativeAuth (spec_validateSpecificParamsViewData exampleDescribe) exampleBtoa
     examplePaddedHex exampleFetch exampleCheckStatus (exampleStatics ''D'') exampleNft
     exampleNativeAuthParams) =
     [\<lparr>url = ''https://marshal/v1/access?NFTId=DATANFTFT-e0b917-3e&chainId=ED&mvxNativeAuthEnable=1&mvxNativeAuthMaxExpirySeconds=300&mvxNativeAuthOrigins=aHR0cDovL2xvY2FsaG9zdA==&fwdHeaderKeys=cookie'',
       fetchConfig = Some \<lparr>httpMethod = ''GET'',
         headers = Some [(''authorization'', Some ''Bearer token''), (''cookie'', Some ''xyz'')]\<rparr>\<rparr>]
   \<and> fst (viewDataViaMVXNativeAuth (spec_validateSpecificParamsViewData exampleDescribe)
          exampleBtoa examplePaddedHex exampleFetch exampleCheckStatus (exampleStatics ''D'')
          exampleNft (exampleNativeAuthParams\<lparr>fwdHeaderKeys := None\<rparr>)) =
     [\<lparr>url = ''https://marshal/v1/access?NFTId=DATANFTFT-e0b917-3e&chainId=ED&mvxNativeAuthEnable=1&mvxNativeAuthMaxExpirySeconds=300&mvxNativeAuthOrigins=aHR0cDovL2xvY2FsaG9zdA=='',
       fetchConfig = Some \<lparr>httpMethod = ''GET'',
         headers = Some [(''authorization'', Some ''Bearer token'')]\<rparr>\<rparr>]
   \<and> viewDataViaMVXNativeAuth (spec_validateSpecificParamsViewData exampleDescribe) exampleBtoa
       examplePaddedHex exampleFetch exampleCheckStatus (exampleStatics ''D'') exampleNft
       (exampleNativeAuthParams\<lparr>fwdHeaderMapLookup := Some [(''cookie'', Some ''xyz'')]\<rparr>) =
     ([], Inr \<lparr>blobData = None, contentType = [],
              errorMessage = Some ''params have validation issues = fwdHeaderMapLookup needs an authorization bearer entry''\<rparr>)"
proof -
  let ?validate = "spec_validateSpecificParamsViewData exampleDescribe"
  let ?config = "\<lparr>configChainID = ''D'',
                  configNetworkProvider = ''https://devnet-api.multiversx.com''\<rparr>"
  let ?lookup = "[(''cookie'', Some ''xyz''), (''authorization'', Some ''Bearer token'')]"
  note inst = nativeAuth_headers [where validate = ?validate and btoa = exampleBtoa
      and pad = examplePaddedHex and fetch = exampleFetch and checkStatus = exampleCheckStatus
      and statics = "exampleStatics ''D''" and this = exampleNft and describe = exampleDescribe]
  have keyed: "allPassed (?validate
          (exampleNativeAuthParams\<lparr>signedMessage := None, signableMessage := None\<rparr>)
          (Some True)
          [''mvxNativeAuthOrigins'', ''mvxNativeAuthMaxExpirySeconds'', ''fwdHeaderMapLookup''])
    \<and> mvxNativeAuthOrigins exampleNativeAuthParams = Some [''http://localhost'']
    \<and> exampleBtoa (removeSpaces (trim (joinComma [''http://localhost''])))
        = Inr ''aHR0cDovL2xvY2FsaG9zdA==''
    \<and> staticNetworkConfiguration (exampleStatics ''D'') = Some ?config
    \<and> fwdHeaderMapLookup exampleNativeAuthParams = Some ?lookup \<and> ?lookup \<noteq> []"
    using example_validation(2) [of "Some ''cookie''"]
    by (simp add: example_reach exampleNativeAuthParams_def)
  have unkeyed: "allPassed (?validate
          (exampleNativeAuthParams\<lparr>fwdHeaderKeys := None, signedMessage := None,
             signableMessage := None\<rparr>)
          (Some True)
          [''mvxNativeAuthOrigins'', ''mvxNativeAuthMaxExpirySeconds'', ''fwdHeaderMapLookup''])
    \<and> mvxNativeAuthOrigins (exampleNativeAuthParams\<lparr>fwdHeaderKeys := None\<rparr>)
        = Some [''http://localhost'']
    \<and> exampleBtoa (removeSpaces (trim (joinComma [''http://localhost''])))
        = Inr ''aHR0cDovL2xvY2FsaG9zdA==''
    \<and> staticNetworkConfiguration (exampleStatics ''D'') = Some ?config
    \<and> fwdHeaderMapLookup (exampleNativeAuthParams\<lparr>fwdHeaderKeys := None\<rparr>) = Some ?lookup
    \<and> ?lookup \<noteq> []"
    using example_validation(2) [of None]
    by (simp add: example_reach exampleNativeAuthParams_def)
  have no_bearer: "\<not> hasBearerEntry (fwdHeaderMapLookup
      (exampleNativeAuthParams\<lparr>fwdHeaderMapLookup := Some [(''cookie'', Some ''xyz'')]\<rparr>))"
    by (simp add: hasBearerEntry_def getProperty_def)
  show ?thesis
    using inst [where p = exampleNativeAuthParams and origins = "[''http://localhost'']"
        and encodedOrigins = "''aHR0cDovL2xvY2FsaG9zdA==''" and config = ?config and lookup = ?lookup,
        THEN conjunct1, THEN mp, OF keyed]
      inst [where p = "exampleNativeAuthParams\<lparr>fwdHeaderKeys := None\<rparr>"
        and origins = "[''http://localhost'']"
        and encodedOrigins = "''aHR0cDovL2xvY2FsaG9zdA==''" and config = ?config and lookup = ?lookup,
        THEN conjunct1, THEN mp, OF unkeyed]
      inst [where p = "exampleNativeAuthParams\<lparr>fwdHeaderMapLookup :=
                         Some [(''cookie'', Some ''xyz'')]\<rparr>",
        THEN conjunct2, THEN mp, OF no_bearer]
      example_nativeAuth [of "''D''"] example_nativeAuth_no_keys example_nativeAuth_no_bearer
    by simp
qed

end
